theory Spec2Isabelle
  imports Complex_Main "HOL-Library.List_Lexorder" "HOL-Library.Char_ord" "HOL-Library.Sublist"
begin

section \<open>JavaScript numbers\<close>

text \<open>
  A TypeScript \<open>number\<close> is a finite value, one of the two infinities, or NaN. Finite
  values are modelled as exact reals: rounding and overflow of IEEE doubles are not
  represented, and the two zeros are one. What is represented is every place where the
  source can leave the finite numbers: a division by zero, and arithmetic on a value
  that is already infinite or NaN. The rounded arithmetic has its own section below.
\<close>

datatype number = Num real | PosInfinity | NegInfinity | NaN

fun isFiniteNum :: "number \<Rightarrow> bool" where
  "isFiniteNum (Num x) = True"
| "isFiniteNum PosInfinity = False"
| "isFiniteNum NegInfinity = False"
| "isFiniteNum NaN = False"

fun valueOf :: "number \<Rightarrow> real" where
  "valueOf (Num x) = x"
| "valueOf PosInfinity = 0"
| "valueOf NegInfinity = 0"
| "valueOf NaN = 0"

text \<open>\<open>a + b\<close>\<close>

fun js_add :: "number \<Rightarrow> number \<Rightarrow> number" where
  "js_add (Num a) (Num b) = Num (a + b)"
| "js_add NaN b = NaN"
| "js_add a NaN = NaN"
| "js_add PosInfinity NegInfinity = NaN"
| "js_add NegInfinity PosInfinity = NaN"
| "js_add PosInfinity b = PosInfinity"
| "js_add NegInfinity b = NegInfinity"
| "js_add (Num a) PosInfinity = PosInfinity"
| "js_add (Num a) NegInfinity = NegInfinity"

text \<open>unary \<open>-a\<close>\<close>

fun js_neg :: "number \<Rightarrow> number" where
  "js_neg (Num a) = Num (- a)"
| "js_neg PosInfinity = NegInfinity"
| "js_neg NegInfinity = PosInfinity"
| "js_neg NaN = NaN"

text \<open>\<open>a - b\<close>\<close>

definition js_sub :: "number \<Rightarrow> number \<Rightarrow> number" where
  "js_sub a b = js_add a (js_neg b)"

text \<open>The sign of a number that is not NaN: \<open>-1\<close>, \<open>0\<close> or \<open>1\<close>.\<close>

fun js_sign :: "number \<Rightarrow> int" where
  "js_sign (Num a) = (if a < 0 then - 1 else if a = 0 then 0 else 1)"
| "js_sign PosInfinity = 1"
| "js_sign NegInfinity = - 1"
| "js_sign NaN = 0"

text \<open>\<open>a * b\<close>: an infinity times zero is NaN, otherwise the signs multiply.\<close>

fun js_mul :: "number \<Rightarrow> number \<Rightarrow> number" where
  "js_mul (Num a) (Num b) = Num (a * b)"
| "js_mul NaN b = NaN"
| "js_mul a NaN = NaN"
| "js_mul a b =
     (if js_sign a * js_sign b = 0 then NaN
      else if js_sign a * js_sign b > 0 then PosInfinity else NegInfinity)"

text \<open>
  \<open>a / b\<close>: a finite nonzero value over zero is an infinity, zero over zero and
  infinity over infinity are NaN, a finite value over an infinity is zero.
\<close>

fun js_div :: "number \<Rightarrow> number \<Rightarrow> number" where
  "js_div (Num a) (Num b) =
     (if b = 0 then (if a = 0 then NaN else if a > 0 then PosInfinity else NegInfinity)
      else Num (a / b))"
| "js_div NaN b = NaN"
| "js_div a NaN = NaN"
| "js_div (Num a) b = Num 0"
| "js_div a (Num b) =
     (if js_sign a * (if b < 0 then - 1 else 1) > 0 then PosInfinity else NegInfinity)"
| "js_div a b = NaN"

text \<open>\<open>Math.abs(a)\<close>\<close>

fun js_abs :: "number \<Rightarrow> number" where
  "js_abs (Num a) = Num \<bar>a\<bar>"
| "js_abs PosInfinity = PosInfinity"
| "js_abs NegInfinity = PosInfinity"
| "js_abs NaN = NaN"

text \<open>\<open>a < b\<close>: false as soon as one side is NaN.\<close>

fun js_lt :: "number \<Rightarrow> number \<Rightarrow> bool" where
  "js_lt (Num a) (Num b) = (a < b)"
| "js_lt NaN b = False"
| "js_lt a NaN = False"
| "js_lt a PosInfinity = (a \<noteq> PosInfinity)"
| "js_lt NegInfinity b = (b \<noteq> NegInfinity)"
| "js_lt a b = False"

text \<open>\<open>a > b\<close>\<close>

definition js_gt :: "number \<Rightarrow> number \<Rightarrow> bool" where
  "js_gt a b = js_lt b a"

text \<open>\<open>a >= b\<close>: not \<open>a < b\<close>, and false as soon as one side is NaN.\<close>

definition js_ge :: "number \<Rightarrow> number \<Rightarrow> bool" where
  "js_ge a b = (a \<noteq> NaN \<and> b \<noteq> NaN \<and> \<not> js_lt a b)"

text \<open>\<open>a === b\<close> on numbers: NaN equals nothing, itself included.\<close>

definition js_seq :: "number \<Rightarrow> number \<Rightarrow> bool" where
  "js_seq a b = (a \<noteq> NaN \<and> b \<noteq> NaN \<and> a = b)"

text \<open>An array length or a \<open>Set\<close> size, used as a number.\<close>

definition count :: "nat \<Rightarrow> number" where
  "count n = Num (real n)"

section \<open>JavaScript strings\<close>

text \<open>
  A string is its list of code units. \<open>s.split(c)\<close> with a one-character separator: the
  pieces between the separators, at least one piece (the empty string splits into one
  empty piece).
\<close>

fun split_on :: "char \<Rightarrow> string \<Rightarrow> string list" where
  "split_on c [] = [[]]"
| "split_on c (x # xs) =
     (if x = c then [] # split_on c xs
      else (case split_on c xs of [] \<Rightarrow> [[x]] | p # ps \<Rightarrow> (x # p) # ps))"

text \<open>
  \<open>a < b\<close> on strings: a proper prefix is smaller, otherwise the first code unit that
  differs decides. \<open>a >= b\<close> on strings is its negation.
\<close>

fun js_str_lt :: "string \<Rightarrow> string \<Rightarrow> bool" where
  "js_str_lt [] [] = False"
| "js_str_lt [] (y # ys) = True"
| "js_str_lt (x # xs) [] = False"
| "js_str_lt (x # xs) (y # ys) =
     (if x = y then js_str_lt xs ys else (of_char x :: nat) < of_char y)"

definition js_str_ge :: "string \<Rightarrow> string \<Rightarrow> bool" where
  "js_str_ge a b = (\<not> js_str_lt a b)"


text \<open>The decimal digits of a non-negative integer, as a template literal prints it.\<close>

definition digit_char :: "nat \<Rightarrow> char" where
  "digit_char d = ''0123456789'' ! (d mod 10)"

fun show_nat :: "nat \<Rightarrow> string" where
  "show_nat n = (if n < 10 then [digit_char n] else show_nat (n div 10) @ [digit_char (n mod 10)])"

declare show_nat.simps [simp del]

text \<open>
  \<open>x.toFixed(2)\<close>: the sign, then the integer nearest to \<open>|x| * 100\<close> (the larger one
  on a tie) with a point before its last two digits. The digits are those of the exact
  value; a double of magnitude \<open>1e21\<close> or more prints in exponent notation instead,
  which is not modelled.
\<close>

fun toFixed2 :: "number \<Rightarrow> string" where
  "toFixed2 (Num x) =
     (let n = nat \<lfloor>\<bar>x\<bar> * 100 + 1 / 2\<rfloor>
      in (if x < 0 then ''-'' else []) @ show_nat (n div 100) @ ''.''
           @ [digit_char (n mod 100 div 10), digit_char (n mod 10)])"
| "toFixed2 PosInfinity = ''Infinity''"
| "toFixed2 NegInfinity = ''-Infinity''"
| "toFixed2 NaN = ''NaN''"

text \<open>\<open>s.toLowerCase()\<close>, on the ASCII letters.\<close>

definition toLowerCase :: "string \<Rightarrow> string" where
  "toLowerCase s =
     map (\<lambda>c. case map_of (zip ''ABCDEFGHIJKLMNOPQRSTUVWXYZ'' ''abcdefghijklmnopqrstuvwxyz'') c of
                None \<Rightarrow> c
              | Some l \<Rightarrow> l) s"

section \<open>The record model\<close>

text \<open>
  The interfaces of \<open>types/index.ts\<close>, with the fields the analysis reads. A field
  marked optional in the source (\<open>mcid?: string\<close>) is an option.
\<close>

record Session =
  mcid :: "string option"
  userPseudoId :: string
  datetimeShifted :: string
  deviceCategory :: string

record Lead =
  lead_mcId :: string
  lead_datetimeCreatedShifted :: string
  lead_googleClientId :: string

record Contact =
  contact_mcId :: string
  contact_datetimeCreatedShifted :: string

record Transaction =
  tx_mcId :: string
  paymentDatetimeShifted :: string
  paidSumOriginalCurrency :: number
  ch_isFirstClientPaid :: bool

record SourceData =
  date :: string
  sd_atomId :: string
  budgetSpent :: number
  clicks :: number

record Atom =
  atomId :: string
  sourceName :: string
  sourceGroupName :: string
  isPaidName :: string

section \<open>Metric calculators (services/data-analysis.ts)\<close>

text \<open>\<open>xs.reduce((sum, x) => sum + f(x), 0)\<close>\<close>

definition reduce_sum :: "('a \<Rightarrow> number) \<Rightarrow> 'a list \<Rightarrow> number" where
  "reduce_sum f xs = foldl (\<lambda>sum x. js_add sum (f x)) (Num 0) xs"

text \<open>\<open>new Set(xs).size\<close>\<close>

definition set_size :: "'a list \<Rightarrow> nat" where
  "set_size xs = length (remdups xs)"

definition calculateROAS :: "Transaction list \<Rightarrow> SourceData list \<Rightarrow> number" where
  "calculateROAS transactions sourceData =
     (let totalRevenue = reduce_sum paidSumOriginalCurrency transactions;
          totalAdSpend = reduce_sum budgetSpent sourceData
      in if js_seq totalAdSpend (Num 0) then Num 0
         else js_div totalRevenue totalAdSpend)"

definition calculateCAC :: "Transaction list \<Rightarrow> SourceData list \<Rightarrow> number" where
  "calculateCAC transactions sourceData =
     (let uniqueCustomers = set_size (map tx_mcId (filter ch_isFirstClientPaid transactions));
          totalAdSpend = reduce_sum budgetSpent sourceData
      in if uniqueCustomers = 0 then Num 0
         else js_div totalAdSpend (count uniqueCustomers))"

text \<open>\<open>s.mcid || s.userPseudoId\<close>: an absent or empty \<open>mcid\<close> is falsy.\<close>

definition sessionIdentity :: "Session \<Rightarrow> string" where
  "sessionIdentity s =
     (case mcid s of
        None \<Rightarrow> userPseudoId s
      | Some m \<Rightarrow> if m = [] then userPseudoId s else m)"

text \<open>
  The shape \<open>{current, previous, percentageChange, isSignificant}\<close> shared by the metric
  trends and the funnel stages; a stage adds its \<open>name\<close>.
\<close>

record Trend =
  current :: number
  previous :: number
  percentageChange :: number
  isSignificant :: bool

record Stage = Trend +
  name :: string

definition mkStage :: "string \<Rightarrow> number \<Rightarrow> number \<Rightarrow> number \<Rightarrow> bool \<Rightarrow> Stage" where
  "mkStage n c p pc sig =
     \<lparr>current = c, previous = p, percentageChange = pc, isSignificant = sig, name = n\<rparr>"

definition calculateConversionRates ::
  "Session list \<Rightarrow> Lead list \<Rightarrow> Contact list \<Rightarrow> Transaction list \<Rightarrow> Stage list" where
  "calculateConversionRates sessions leads contacts transactions =
     (let uniqueVisitors = set_size (map sessionIdentity sessions);
          uniqueLeads = set_size (map lead_mcId leads);
          uniqueContacts = set_size (map contact_mcId contacts);
          uniqueCustomers = set_size (map tx_mcId (filter ch_isFirstClientPaid transactions));
          visitorToLeadRate =
            (if uniqueVisitors > 0
             then js_mul (js_div (count uniqueLeads) (count uniqueVisitors)) (Num 100) else Num 0);
          leadToContactRate =
            (if uniqueLeads > 0
             then js_mul (js_div (count uniqueContacts) (count uniqueLeads)) (Num 100) else Num 0);
          contactToCustomerRate =
            (if uniqueContacts > 0
             then js_mul (js_div (count uniqueCustomers) (count uniqueContacts)) (Num 100) else Num 0);
          overallConversionRate =
            (if uniqueVisitors > 0
             then js_mul (js_div (count uniqueCustomers) (count uniqueVisitors)) (Num 100) else Num 0)
      in [mkStage ''Visitor to Lead'' visitorToLeadRate (Num 0) (Num 0) False,
          mkStage ''Lead to Contact'' leadToContactRate (Num 0) (Num 0) False,
          mkStage ''Contact to Customer'' contactToCustomerRate (Num 0) (Num 0) False,
          mkStage ''Overall (Visitor to Customer)'' overallConversionRate (Num 0) (Num 0) False])"

text \<open>
  \<open>isChangeSigificant(current, previous, threshold = 10)\<close>: the third argument is
  optional, and its default applies when the caller leaves it out.
\<close>

definition isChangeSigificant :: "number \<Rightarrow> number \<Rightarrow> number option \<Rightarrow> bool" where
  "isChangeSigificant cur prev threshold =
     (let thr = (case threshold of None \<Rightarrow> Num 10 | Some t \<Rightarrow> t)
      in if js_seq prev (Num 0) then js_gt cur (Num 0)
         else let pc = js_abs (js_mul (js_div (js_sub cur prev) prev) (Num 100))
              in js_ge pc thr)"

section \<open>Channel distribution (services/data-analysis.ts)\<close>

text \<open>
  A JavaScript \<open>Map\<close> keeps its keys in insertion order, and \<open>set\<close> on a key that is
  present replaces the value where it stands: an association list with distinct keys.
\<close>

type_synonym ('k, 'v) jsmap = "('k \<times> 'v) list"

fun map_set :: "('k, 'v) jsmap \<Rightarrow> 'k \<Rightarrow> 'v \<Rightarrow> ('k, 'v) jsmap" where
  "map_set [] k v = [(k, v)]"
| "map_set ((k', v') # m) k v = (if k' = k then (k, v) # m else (k', v') # map_set m k v)"

definition map_get :: "('k, 'v) jsmap \<Rightarrow> 'k \<Rightarrow> 'v option" where
  "map_get m k = map_of m k"

record ChannelShare =
  sessions :: nat
  percentage :: number

record Channel =
  ch_name :: string
  ch_current :: ChannelShare
  ch_previous :: ChannelShare
  change :: number

text \<open>
  The loop \<open>atoms.forEach\<close> that counts the atoms of each \<open>sourceGroupName\<close>:
  \<open>channelCounts.get(channel) || 0\<close> is 0 for a channel not yet seen.
\<close>

definition countChannel :: "(string, nat) jsmap \<Rightarrow> Atom \<Rightarrow> (string, nat) jsmap" where
  "countChannel channelCounts atom =
     (let channel = sourceGroupName atom;
          currentCount = (case map_get channelCounts channel of None \<Rightarrow> 0 | Some c \<Rightarrow> c)
      in map_set channelCounts channel (currentCount + 1))"

text \<open>
  The first map of the source, \<open>atomIdToChannel\<close>, is filled and never read; it is left
  out. \<open>Math.max(totalSessions, 1)\<close> is on array lengths.
\<close>

definition analyzeChannelDistribution :: "Session list \<Rightarrow> Atom list \<Rightarrow> Channel list" where
  "analyzeChannelDistribution sessionList atoms =
     (let channelCounts = foldl countChannel [] atoms;
          totalSessions = length sessionList
      in map (\<lambda>(channelName, cnt).
                \<lparr>ch_name = channelName,
                 ch_current = \<lparr>sessions = cnt,
                    percentage = js_mul (js_div (count cnt) (count (max totalSessions 1))) (Num 100)\<rparr>,
                 ch_previous = \<lparr>sessions = 0, percentage = Num 0\<rparr>,
                 change = Num 0\<rparr>)
             channelCounts)"

section \<open>Trend composition (utils/trend-analysis.ts)\<close>

record MetricsTrend =
  roas :: Trend
  cac :: Trend

definition calculateMetricsTrend ::
  "Transaction list \<Rightarrow> SourceData list \<Rightarrow> Transaction list \<Rightarrow> SourceData list \<Rightarrow> MetricsTrend" where
  "calculateMetricsTrend currentTransactions currentSourceData previousTransactions previousSourceData =
     (let currentROAS = calculateROAS currentTransactions currentSourceData;
          currentCAC = calculateCAC currentTransactions currentSourceData;
          previousROAS =
            (if length previousTransactions > 0 \<and> length previousSourceData > 0
             then calculateROAS previousTransactions previousSourceData else Num 0);
          previousCAC =
            (if length previousTransactions > 0 \<and> length previousSourceData > 0
             then calculateCAC previousTransactions previousSourceData else Num 0);
          roasPercentageChange =
            (if js_gt previousROAS (Num 0)
             then js_mul (js_div (js_sub currentROAS previousROAS) previousROAS) (Num 100)
             else Num 0);
          cacPercentageChange =
            (if js_gt previousCAC (Num 0)
             then js_mul (js_div (js_sub currentCAC previousCAC) previousCAC) (Num 100)
             else Num 0);
          roasSignificant =
            (if js_gt previousROAS (Num 0)
             then isChangeSigificant currentROAS previousROAS None else False);
          cacSignificant =
            (if js_gt previousCAC (Num 0)
             then isChangeSigificant currentCAC previousCAC None else False)
      in \<lparr>roas = \<lparr>current = currentROAS, previous = previousROAS,
                   percentageChange = roasPercentageChange, isSignificant = roasSignificant\<rparr>,
          cac = \<lparr>current = currentCAC, previous = previousCAC,
                  percentageChange = cacPercentageChange, isSignificant = cacSignificant\<rparr>\<rparr>)"

text \<open>\<open>xs[i]\<close> on an array: \<open>undefined\<close> past the end.\<close>

definition index_opt :: "'a list \<Rightarrow> nat \<Rightarrow> 'a option" where
  "index_opt xs i = (if i < length xs then Some (xs ! i) else None)"

definition composeStage :: "Stage list \<Rightarrow> Stage \<times> nat \<Rightarrow> Stage" where
  "composeStage previousConversions = (\<lambda>(stage, index).
     (let prev = (case index_opt previousConversions index of
                    Some previousStage \<Rightarrow> current previousStage
                  | None \<Rightarrow> Num 0);
          pc = (if js_gt prev (Num 0)
                then js_mul (js_div (js_sub (current stage) prev) prev) (Num 100)
                else Num 0);
          sig = (if js_gt prev (Num 0)
                 then isChangeSigificant (current stage) prev None else False)
      in stage\<lparr>previous := prev, percentageChange := pc, isSignificant := sig\<rparr>))"

definition calculateConversionsTrend ::
  "Session list \<Rightarrow> Lead list \<Rightarrow> Contact list \<Rightarrow> Transaction list \<Rightarrow>
   Session list \<Rightarrow> Lead list \<Rightarrow> Contact list \<Rightarrow> Transaction list \<Rightarrow> Stage list" where
  "calculateConversionsTrend currentSessions currentLeads currentContacts currentTransactions
       previousSessions previousLeads previousContacts previousTransactions =
     (let currentConversions =
            calculateConversionRates currentSessions currentLeads currentContacts currentTransactions;
          previousConversions =
            calculateConversionRates previousSessions previousLeads previousContacts previousTransactions
      in map (composeStage previousConversions)
             (zip currentConversions [0 ..< length currentConversions]))"

text \<open>
  \<open>previousChannelMap.get(name) || {sessions: 0, percentage: 0}\<close>: an object is truthy,
  so the default stands only for a name that is not in the map.
\<close>

definition composeChannel :: "(string, ChannelShare) jsmap \<Rightarrow> Channel \<Rightarrow> Channel" where
  "composeChannel previousChannelMap currentChannel =
     (let previousData =
            (case map_get previousChannelMap (ch_name currentChannel) of
               Some d \<Rightarrow> d
             | None \<Rightarrow> \<lparr>sessions = 0, percentage = Num 0\<rparr>);
          chg =
            (if js_gt (percentage previousData) (Num 0)
             then js_mul (js_div (js_sub (percentage (ch_current currentChannel))
                                        (percentage previousData))
                                (percentage previousData)) (Num 100)
             else Num 0)
      in currentChannel\<lparr>ch_previous := previousData, change := chg\<rparr>)"

definition calculateChannelsTrend :: "Session list \<Rightarrow> Session list \<Rightarrow> Atom list \<Rightarrow> Channel list" where
  "calculateChannelsTrend currentSessions previousSessions atoms =
     (let currentChannels = analyzeChannelDistribution currentSessions atoms;
          previousChannels = analyzeChannelDistribution previousSessions atoms;
          previousChannelMap =
            foldl (\<lambda>m channel. map_set m (ch_name channel) (ch_current channel)) [] previousChannels
      in map (composeChannel previousChannelMap) currentChannels)"

section \<open>Data validation (services/data-analysis.ts)\<close>

text \<open>
  \<open>new Set(xs)\<close> read back as an array (\<open>[...set]\<close>): the distinct elements, each at
  its first occurrence.
\<close>

definition js_set :: "'a list \<Rightarrow> 'a list" where
  "js_set xs = rev (remdups (rev xs))"

text \<open>\<open>sessions.filter((s) => s.mcid).map((s) => s.mcid)\<close>\<close>

definition truthyMcids :: "Session list \<Rightarrow> string list" where
  "truthyMcids sessionList =
     List.map_filter (\<lambda>s. case mcid s of None \<Rightarrow> None
                          | Some m \<Rightarrow> if m = [] then None else Some m) sessionList"

record DataValidationResult =
  isValid :: bool
  issues :: "string list"
  suggestions :: "string list"

text \<open>
  The source pushes onto two arrays as it goes; here each rule contributes the list of
  what it pushes, and the lists are appended in the order of the rules.
\<close>

definition checkDataValidity ::
  "Session list \<Rightarrow> Lead list \<Rightarrow> Contact list \<Rightarrow> Transaction list \<Rightarrow> SourceData list \<Rightarrow>
   Atom list \<Rightarrow> DataValidationResult" where
  "checkDataValidity sessionList leads contacts transactions sourceData atoms =
     (let emptyIssues =
            (if length sessionList = 0 then [''Sessions dataset is empty''] else [])
            @ (if length leads = 0 then [''Leads dataset is empty''] else [])
            @ (if length contacts = 0 then [''Contacts dataset is empty''] else [])
            @ (if length transactions = 0 then [''Transactions dataset is empty''] else [])
            @ (if length sourceData = 0 then [''Source data dataset is empty''] else [])
            @ (if length atoms = 0 then [''Atoms dataset is empty''] else []);
          sessionMcIds = js_set (truthyMcids sessionList);
          leadMcIds = js_set (map lead_mcId leads);
          contactMcIds = js_set (map contact_mcId contacts);
          transactionMcIds = js_set (map tx_mcId transactions);
          leadsWithoutSessions = filter (\<lambda>i. i \<notin> set sessionMcIds) leadMcIds;
          leadFinding = length leadsWithoutSessions > 0;
          leadPercentage =
            js_mul (js_div (count (length leadsWithoutSessions)) (count (length leadMcIds))) (Num 100);
          transactionsWithoutContacts = filter (\<lambda>i. i \<notin> set contactMcIds) transactionMcIds;
          txFinding = length transactionsWithoutContacts > 0;
          txPercentage =
            js_mul (js_div (count (length transactionsWithoutContacts))
                           (count (length transactionMcIds))) (Num 100);
          expectedSessionsPerDay = 1000;
          sessionsPerDay = length sessionList;
          volumeFinding =
            js_lt (count sessionsPerDay) (js_mul (count expectedSessionsPerDay) (Num (7 / 10)));
          allIssues =
            emptyIssues
            @ (if leadFinding
               then [toFixed2 leadPercentage @ ''% of leads have no corresponding session data'']
               else [])
            @ (if txFinding
               then [toFixed2 txPercentage @ ''% of transactions have no corresponding contact data'']
               else [])
            @ (if volumeFinding
               then [''Session volume ('' @ show_nat sessionsPerDay
                       @ '') is significantly lower than expected (''
                       @ show_nat expectedSessionsPerDay @ '')'']
               else []);
          allSuggestions =
            (if leadFinding
             then [''Improve session tracking to ensure all leads have associated session data'']
             else [])
            @ (if txFinding
               then [''Improve contact tracking to ensure all transactions have associated contact data'']
               else [])
            @ (if volumeFinding
               then [''Check if there are tracking issues or a genuine decrease in traffic'']
               else [])
      in \<lparr>isValid = (length allIssues = 0), issues = allIssues, suggestions = allSuggestions\<rparr>)"

section \<open>Date-range filters (utils/date-utils.ts)\<close>

text \<open>\<open>dateTimeStr.split(" ")[0]\<close>; the split has a first piece, so the index is in range.\<close>

definition extractDatePart :: "string \<Rightarrow> string" where
  "extractDatePart dateTimeStr = (case split_on CHR '' '' dateTimeStr of [] \<Rightarrow> [] | p # ps \<Rightarrow> p)"

definition filterSessionsByDateRange :: "Session list \<Rightarrow> string \<Rightarrow> string \<Rightarrow> Session list" where
  "filterSessionsByDateRange sessionList startDate endDate =
     filter (\<lambda>session.
               let sessionDate = extractDatePart (datetimeShifted session)
               in js_str_ge sessionDate startDate \<and> js_str_lt sessionDate endDate) sessionList"

definition filterLeadsByDateRange :: "Lead list \<Rightarrow> string \<Rightarrow> string \<Rightarrow> Lead list" where
  "filterLeadsByDateRange leads startDate endDate =
     filter (\<lambda>lead.
               let leadDate = extractDatePart (lead_datetimeCreatedShifted lead)
               in js_str_ge leadDate startDate \<and> js_str_lt leadDate endDate) leads"

definition filterContactsByDateRange :: "Contact list \<Rightarrow> string \<Rightarrow> string \<Rightarrow> Contact list" where
  "filterContactsByDateRange contacts startDate endDate =
     filter (\<lambda>contact.
               let contactDate = extractDatePart (contact_datetimeCreatedShifted contact)
               in js_str_ge contactDate startDate \<and> js_str_lt contactDate endDate) contacts"

definition filterTransactionsByDateRange ::
  "Transaction list \<Rightarrow> string \<Rightarrow> string \<Rightarrow> Transaction list" where
  "filterTransactionsByDateRange transactions startDate endDate =
     filter (\<lambda>tx.
               let txDate = extractDatePart (paymentDatetimeShifted tx)
               in js_str_ge txDate startDate \<and> js_str_lt txDate endDate) transactions"

definition filterSourceDataByDateRange ::
  "SourceData list \<Rightarrow> string \<Rightarrow> string \<Rightarrow> SourceData list" where
  "filterSourceDataByDateRange sourceData startDate endDate =
     filter (\<lambda>sd. js_str_ge (date sd) startDate \<and> js_str_lt (date sd) endDate) sourceData"

section \<open>The JavaScript \<open>Date\<close> (ECMA-262, Date objects)\<close>

text \<open>
  \<open>calculatePreviousPeriodStartDate\<close> is four calls into the runtime's \<open>Date\<close>. They are
  modelled after the language standard: a date object holds a time value, an integer
  number of milliseconds since 1970-01-01T00:00:00Z, or NaN (\<open>None\<close>) when it is
  invalid. Time values are days times \<open>msPerDay\<close> plus the time within the day.
\<close>

definition msPerDay :: int where
  "msPerDay = 86400000"

definition Day :: "int \<Rightarrow> int" where
  "Day t = t div msPerDay"

definition TimeWithinDay :: "int \<Rightarrow> int" where
  "TimeWithinDay t = t mod msPerDay"

definition DaysInYear :: "int \<Rightarrow> int" where
  "DaysInYear y =
     (if y mod 4 \<noteq> 0 then 365 else if y mod 100 \<noteq> 0 then 366
      else if y mod 400 \<noteq> 0 then 365 else 366)"

definition DayFromYear :: "int \<Rightarrow> int" where
  "DayFromYear y =
     365 * (y - 1970) + (y - 1969) div 4 - (y - 1901) div 100 + (y - 1601) div 400"

definition TimeFromYear :: "int \<Rightarrow> int" where
  "TimeFromYear y = msPerDay * DayFromYear y"

text \<open>
  The standard defines \<open>YearFromTime(t)\<close> as the largest year \<open>y\<close> with
  \<open>TimeFromYear(y) \<le> t\<close>. It is computed here from an estimate that is off by at most
  one year; lemma \<open>YearFromTime_spec\<close> below shows that the result is that largest year.
\<close>

definition YearFromTime :: "int \<Rightarrow> int" where
  "YearFromTime t =
     (let d = Day t; y = 1970 + (d * 400) div 146097
      in if DayFromYear (y + 1) \<le> d then y + 1
         else if DayFromYear y \<le> d then y else y - 1)"

definition InLeapYear :: "int \<Rightarrow> int" where
  "InLeapYear t = (if DaysInYear (YearFromTime t) = 366 then 1 else 0)"

definition DayWithinYear :: "int \<Rightarrow> int" where
  "DayWithinYear t = Day t - DayFromYear (YearFromTime t)"

text \<open>The month (0 is January) and the day of the month, by the standard's tables.\<close>

definition MonthFromTime :: "int \<Rightarrow> int" where
  "MonthFromTime t =
     (let d = DayWithinYear t; leap = InLeapYear t
      in if d < 31 then 0
         else if d < 59 + leap then 1
         else if d < 90 + leap then 2
         else if d < 120 + leap then 3
         else if d < 151 + leap then 4
         else if d < 181 + leap then 5
         else if d < 212 + leap then 6
         else if d < 243 + leap then 7
         else if d < 273 + leap then 8
         else if d < 304 + leap then 9
         else if d < 334 + leap then 10
         else 11)"

definition DateFromTime :: "int \<Rightarrow> int" where
  "DateFromTime t =
     (let d = DayWithinYear t; leap = InLeapYear t; m = MonthFromTime t
      in if m = 0 then d + 1
         else if m = 1 then d - 30
         else if m = 2 then d - 58 - leap
         else if m = 3 then d - 89 - leap
         else if m = 4 then d - 119 - leap
         else if m = 5 then d - 150 - leap
         else if m = 6 then d - 180 - leap
         else if m = 7 then d - 211 - leap
         else if m = 8 then d - 242 - leap
         else if m = 9 then d - 272 - leap
         else if m = 10 then d - 303 - leap
         else d - 333 - leap)"

text \<open>
  \<open>MakeDay(year, month, date)\<close> for integers: the day number of the first day of the
  month \<open>month mod 12\<close> of the year \<open>year + month div 12\<close>, plus \<open>date - 1\<close>. The
  standard asks for a time value with that year, that month and day 1;
  \<open>monthStart\<close> is the day of the year on which the month begins, and lemma
  \<open>MakeDay_first_of_month\<close> below shows that it meets the three conditions.
\<close>

definition monthStart :: "int \<Rightarrow> int \<Rightarrow> int" where
  "monthStart leap mn =
     (if mn = 0 then 0
      else if mn = 1 then 31
      else if mn = 2 then 59 + leap
      else if mn = 3 then 90 + leap
      else if mn = 4 then 120 + leap
      else if mn = 5 then 151 + leap
      else if mn = 6 then 181 + leap
      else if mn = 7 then 212 + leap
      else if mn = 8 then 243 + leap
      else if mn = 9 then 273 + leap
      else if mn = 10 then 304 + leap
      else 334 + leap)"

definition MakeDay :: "int \<Rightarrow> int \<Rightarrow> int \<Rightarrow> int" where
  "MakeDay year month dt =
     (let ym = year + month div 12; mn = month mod 12;
          leap = (if DaysInYear ym = 366 then 1 else 0)
      in DayFromYear ym + monthStart leap mn + dt - 1)"

definition MakeDate :: "int \<Rightarrow> int \<Rightarrow> int" where
  "MakeDate day time = day * msPerDay + time"

text \<open>\<open>TimeClip\<close>: a time value beyond 8.64e15 milliseconds from the epoch is NaN.\<close>

definition TimeClip :: "int \<Rightarrow> int option" where
  "TimeClip time = (if \<bar>time\<bar> > 8640000000000000 then None else Some time)"

text \<open>
  The host's time zone, as the standard's \<open>LocalTZA\<close>: the offset of local time from
  UTC in milliseconds, asked for a UTC time value (\<open>offsetAtUTC\<close>) or for a local one
  (\<open>offsetAtLocal\<close>).
\<close>

record timezone =
  offsetAtUTC :: "int \<Rightarrow> int"
  offsetAtLocal :: "int \<Rightarrow> int"

definition LocalTime :: "timezone \<Rightarrow> int \<Rightarrow> int" where
  "LocalTime tz t = t + offsetAtUTC tz t"

definition UTC :: "timezone \<Rightarrow> int \<Rightarrow> int" where
  "UTC tz t = t - offsetAtLocal tz t"

text \<open>A zone with one offset all year, UTC itself for offset 0.\<close>

definition fixedZone :: "int \<Rightarrow> timezone" where
  "fixedZone off = \<lparr>offsetAtUTC = (\<lambda>t. off), offsetAtLocal = (\<lambda>t. off)\<rparr>"

text \<open>
  \<open>new Date(s)\<close> for a string: the date-only form \<open>YYYY-MM-DD\<close> of the standard's
  format, with months 01 to 12 and days 01 to 31, is midnight UTC of that day (a day
  past the end of its month runs into the next month, as \<open>MakeDay\<close> computes it). Any
  other string is left to the engine by the standard; the model reports it as an
  invalid date. The entry point admits only strings of the shape
  \<open>dddd-dd-dd\<close>, on which this is what V8 does.
\<close>

definition digit_val :: "char \<Rightarrow> nat option" where
  "digit_val c =
     map_of [(CHR ''0'', 0), (CHR ''1'', 1), (CHR ''2'', 2), (CHR ''3'', 3), (CHR ''4'', 4),
             (CHR ''5'', 5), (CHR ''6'', 6), (CHR ''7'', 7), (CHR ''8'', 8), (CHR ''9'', 9)] c"

fun digits_val :: "string \<Rightarrow> nat option" where
  "digits_val [] = None"
| "digits_val [c] = digit_val c"
| "digits_val (c # cs) =
     (case (digit_val c, digits_val cs) of
        (Some d, Some n) \<Rightarrow> Some (d * 10 ^ length cs + n)
      | _ \<Rightarrow> None)"

definition Date_parse :: "string \<Rightarrow> int option" where
  "Date_parse s =
     (if length s = 10 \<and> s ! 4 = CHR ''-'' \<and> s ! 7 = CHR ''-''
      then (case (digits_val (take 4 s), digits_val (take 2 (drop 5 s)), digits_val (drop 8 s)) of
              (Some y, Some m, Some d) \<Rightarrow>
                if 1 \<le> m \<and> m \<le> 12 \<and> 1 \<le> d \<and> d \<le> 31
                then TimeClip (MakeDate (MakeDay (int y) (int m - 1) (int d)) 0)
                else None
            | _ \<Rightarrow> None)
      else None)"

text \<open>\<open>d.getDate()\<close>: the day of the month in local time, NaN on an invalid date.\<close>

definition getDate :: "timezone \<Rightarrow> int option \<Rightarrow> number" where
  "getDate tz tv = (case tv of None \<Rightarrow> NaN | Some t \<Rightarrow> Num (real_of_int (DateFromTime (LocalTime tz t))))"

text \<open>\<open>ToIntegerOrInfinity\<close> on a finite number: truncation towards zero.\<close>

definition ToIntegerOrInfinity :: "real \<Rightarrow> int" where
  "ToIntegerOrInfinity x = (if 0 \<le> x then \<lfloor>x\<rfloor> else \<lceil>x\<rceil>)"

text \<open>
  \<open>d.setDate(dt)\<close>: the local year, month and time of day are kept, the day of the
  month becomes \<open>dt\<close> (any integer: days before 1 or past the end of the month reach
  into the neighbouring months), and the result goes back to UTC. An invalid date stays
  invalid, and a \<open>dt\<close> that is not finite makes the date invalid.
\<close>

definition setDate :: "timezone \<Rightarrow> int option \<Rightarrow> number \<Rightarrow> int option" where
  "setDate tz tv dt =
     (case tv of
        None \<Rightarrow> None
      | Some t0 \<Rightarrow>
          (case dt of
             Num x \<Rightarrow>
               (let t = LocalTime tz t0;
                    newDate = MakeDate (MakeDay (YearFromTime t) (MonthFromTime t) (ToIntegerOrInfinity x))
                                       (TimeWithinDay t)
                in TimeClip (UTC tz newDate))
           | _ \<Rightarrow> None))"

datatype js_error = RangeError string | Error string | ServiceFailure string

text \<open>A non-negative integer in at least \<open>w\<close> digits, zeros in front.\<close>

definition pad :: "nat \<Rightarrow> nat \<Rightarrow> string" where
  "pad w n = replicate (w - length (show_nat n)) CHR ''0'' @ show_nat n"

text \<open>
  \<open>d.toISOString()\<close>: the UTC fields as \<open>YYYY-MM-DDTHH:mm:ss.sssZ\<close>; a year outside
  0 to 9999 is written with a sign and six digits; an invalid date throws a
  \<open>RangeError\<close>.
\<close>

definition toISOString :: "int option \<Rightarrow> js_error + string" where
  "toISOString tv =
     (case tv of
        None \<Rightarrow> Inl (RangeError ''Invalid time value'')
      | Some t \<Rightarrow>
          (let y = YearFromTime t;
               year = (if 0 \<le> y \<and> y \<le> 9999 then pad 4 (nat y)
                       else (if y < 0 then ''-'' else ''+'') @ pad 6 (nat \<bar>y\<bar>));
               ms = TimeWithinDay t
           in Inr (year @ ''-'' @ pad 2 (nat (MonthFromTime t + 1)) @ ''-''
                   @ pad 2 (nat (DateFromTime t)) @ ''T''
                   @ pad 2 (nat (ms div 3600000)) @ '':''
                   @ pad 2 (nat (ms div 60000 mod 60)) @ '':''
                   @ pad 2 (nat (ms div 1000 mod 60)) @ ''.''
                   @ pad 3 (nat (ms mod 1000)) @ ''Z'')))"

text \<open>
  \<open>calculatePreviousPeriodStartDate(currentDate, lookbackDays = 30)\<close>. The string is
  parsed as UTC, the day of the month is read and set in local time, and the result is
  printed in UTC.
\<close>

definition calculatePreviousPeriodStartDate ::
  "timezone \<Rightarrow> string \<Rightarrow> number option \<Rightarrow> js_error + string" where
  "calculatePreviousPeriodStartDate tz currentDate lookbackDays =
     (let lookback = (case lookbackDays of None \<Rightarrow> Num 30 | Some n \<Rightarrow> n);
          currentDateObj = Date_parse currentDate;
          pastDateObj = setDate tz currentDateObj (js_sub (getDate tz currentDateObj) lookback)
      in case toISOString pastDateObj of
           Inl e \<Rightarrow> Inl e
         | Inr isoString \<Rightarrow> Inr (case split_on CHR ''T'' isoString of [] \<Rightarrow> [] | p # ps \<Rightarrow> p))"

section \<open>Calendar dates, for stating what the date arithmetic should return\<close>

text \<open>
  A calendar date is a year, a month from 1 to 12 and a day of that month, in the
  Gregorian calendar extended to all years. \<open>previousDay\<close> is the day before, by the
  rules of the calendar alone: it is the reference against which the arithmetic on time
  values is checked. \<open>isoDate\<close> writes a date of the years 0 to 9999 as \<open>YYYY-MM-DD\<close>.
\<close>

definition daysInMonth :: "int \<Rightarrow> int \<Rightarrow> int" where
  "daysInMonth y m =
     (if m = 2 then (if DaysInYear y = 366 then 29 else 28)
      else if m = 4 \<or> m = 6 \<or> m = 9 \<or> m = 11 then 30 else 31)"

definition validDate :: "int \<times> int \<times> int \<Rightarrow> bool" where
  "validDate = (\<lambda>(y, m, d). 1 \<le> m \<and> m \<le> 12 \<and> 1 \<le> d \<and> d \<le> daysInMonth y m)"

definition previousDay :: "int \<times> int \<times> int \<Rightarrow> int \<times> int \<times> int" where
  "previousDay = (\<lambda>(y, m, d).
     if 1 < d then (y, m, d - 1)
     else if 1 < m then (y, m - 1, daysInMonth y (m - 1))
     else (y - 1, 12, 31))"

definition isoDate :: "int \<times> int \<times> int \<Rightarrow> string" where
  "isoDate = (\<lambda>(y, m, d). pad 4 (nat y) @ ''-'' @ pad 2 (nat m) @ ''-'' @ pad 2 (nat d))"

text \<open>
  The rules of Central European Time for 2024, as a zone with a transition: one hour
  ahead of UTC, two hours from 2024-03-31T01:00Z to 2024-10-27T01:00Z. A local time
  that the transition skips or repeats is read with the offset before the transition,
  as the standard prescribes.
\<close>

definition centralEurope2024 :: timezone where
  "centralEurope2024 =
     \<lparr>offsetAtUTC = (\<lambda>t. if 1711846800000 \<le> t \<and> t < 1729990800000 then 7200000 else 3600000),
      offsetAtLocal = (\<lambda>t. if 1711846800000 + 7200000 \<le> t \<and> t < 1729990800000 + 7200000
                            then 7200000 else 3600000)\<rparr>"

section \<open>Improvement suggestions and possible reasons (services)\<close>

record DataQualityImprovements =
  dataCollection :: "string list"
  attribution :: "string list"

text \<open>\<open>generateDataQualityImprovements\<close>; \<open>!s.mcid\<close> and \<open>!l.googleClientId\<close> hold for an
  absent or empty string.\<close>

definition generateDataQualityImprovements ::
  "Session list \<Rightarrow> Lead list \<Rightarrow> Contact list \<Rightarrow> Transaction list \<Rightarrow> SourceData list \<Rightarrow>
   Atom list \<Rightarrow> DataQualityImprovements" where
  "generateDataQualityImprovements sessionList leads contacts transactions sourceData atoms =
     (let sessionsWithoutClientIds =
            length (filter (\<lambda>s. mcid s = None \<or> mcid s = Some []) sessionList);
          totalSessions = length sessionList;
          sessionRatio = js_div (count sessionsWithoutClientIds) (count totalSessions);
          leadsWithoutGoogleClientIds = length (filter (\<lambda>l. lead_googleClientId l = []) leads);
          totalLeads = length leads;
          leadRatio = js_div (count leadsWithoutGoogleClientIds) (count totalLeads);
          leadsMcIds = js_set (map lead_mcId leads);
          contactsMcIds = js_set (map contact_mcId contacts);
          leadsNotConvertedToContacts = length (filter (\<lambda>i. i \<notin> set contactsMcIds) leadsMcIds)
      in \<lparr>dataCollection =
            (if totalSessions > 0 \<and> js_gt sessionRatio (Num (1 / 10))
             then [''Improve client ID tracking in sessions - currently missing in ''
                     @ toFixed2 (js_mul sessionRatio (Num 100)) @ ''% of sessions'']
             else [])
            @ (if totalLeads > 0 \<and> js_gt leadRatio (Num (1 / 10))
               then [''Improve Google Client ID tracking in leads - currently missing in ''
                       @ toFixed2 (js_mul leadRatio (Num 100)) @ ''% of leads'']
               else [])
            @ [''Implement server-side tracking to reduce data loss from ad blockers'',
               ''Enhance user identification with consistent first-party cookies across domains'',
               ''Validate UTM parameters for consistency and accuracy across marketing campaigns''],
          attribution =
            (if length leadsMcIds > 0
                \<and> js_gt (js_div (count leadsNotConvertedToContacts) (count (length leadsMcIds)))
                         (Num (8 / 10))
             then [''High drop-off rate between leads and contacts - investigate lead qualification process'']
             else [])
            @ [''Implement multi-touch attribution modeling to better understand the full customer journey'',
               ''Consider time-decay models to give appropriate credit to touchpoints based on recency'',
               ''Add view-through attribution for display and video channels to capture impression impact'']\<rparr>)"

record ReportingImprovements =
  additionalMetrics :: "string list"
  visualizations :: "string list"
  automations :: "string list"

definition generateReportingImprovements ::
  "Session list \<Rightarrow> Lead list \<Rightarrow> Contact list \<Rightarrow> Transaction list \<Rightarrow> SourceData list \<Rightarrow>
   Atom list \<Rightarrow> ReportingImprovements" where
  "generateReportingImprovements sessionList leads contacts transactions sourceData atoms =
     (let channelGroups = set_size (map sourceGroupName atoms);
          deviceCategories = set_size (map deviceCategory sessionList)
      in \<lparr>additionalMetrics =
            [''Customer Lifetime Value (CLV) to better assess long-term customer profitability'',
             ''Visitor-to-Lead Conversion Rate by channel to identify top-performing acquisition sources'',
             ''Cost Per Lead (CPL) broken down by campaign to optimize lead generation efforts'',
             ''Customer retention rate and churn metrics to monitor customer satisfaction'']
            @ (if channelGroups > 3
               then [''Channel-specific CAC and ROAS metrics to better compare performance across marketing channels'']
               else [])
            @ (if deviceCategories > 1
               then [''Conversion rate by device type to identify platform-specific optimization opportunities'']
               else []),
          visualizations =
            [''Multi-touch attribution funnel visualization showing channel impact at each customer journey stage'',
             ''Geographic heat map of customer concentration to identify regional performance patterns'',
             ''Cohort analysis chart to track how customer behavior evolves over time'',
             ''Campaign ROI comparison dashboard with time-series view for trend analysis'']
            @ (if channelGroups > 3
               then [''Channel mix optimization tool to simulate budget allocation scenarios'']
               else [])
            @ (if deviceCategories > 1
               then [''Device performance comparison dashboard showing conversion funnel by device type'']
               else []),
          automations =
            [''Implement automated anomaly detection to flag unusual changes in conversion metrics'',
             ''Set up regular data quality audits to identify and fix tracking issues'',
             ''Create automated alerting for significant drops in channel performance'',
             ''Develop predictive models to forecast future conversion trends based on current data'']\<rparr>)"

text \<open>\<open>generatePossibleReasons\<close>; its \<open>percentChange\<close> is computed and never read.\<close>

definition generatePossibleReasons ::
  "string \<Rightarrow> number \<Rightarrow> number \<Rightarrow> Session list \<Rightarrow> SourceData list \<Rightarrow> Atom list \<Rightarrow> string list" where
  "generatePossibleReasons metricName cur prev sessionList sourceData atoms =
     (let increased = js_gt cur prev;
          generic =
            (if metricName = ''ROAS'' then
               (if increased
                then [''Improved ad targeting may have led to higher conversion rates'',
                      ''Better performing products or offers could be driving higher order values'',
                      ''Seasonal effects might be positively impacting purchasing behavior'']
                else [''Ad costs may have increased without a corresponding increase in revenue'',
                      ''Ad targeting may be less effective, reaching less qualified prospects'',
                      ''Competitive landscape may have changed, affecting conversion rates''])
             else if metricName = ''CAC'' then
               (if increased
                then [''Rising ad costs in the market may be increasing acquisition costs'',
                      ''Decreased ad effectiveness could be requiring more spend per acquisition'',
                      ''Market saturation might be making it harder to find new customers'']
                else [''Improved targeting strategies may be more efficiently acquiring customers'',
                      ''Optimization of ad spend across channels could be reducing waste'',
                      ''Increased brand awareness might be lowering the cost to convert customers''])
             else []);
          paidAtomIds = js_set (map atomId (filter (\<lambda>a. toLowerCase (isPaidName a) = ''paid'') atoms));
          paidSourceData = filter (\<lambda>sd. sd_atomId sd \<in> set paidAtomIds) sourceData;
          totalPaidSpend = reduce_sum budgetSpent paidSourceData;
          totalPaidClicks = reduce_sum clicks paidSourceData
      in generic
         @ (if js_gt totalPaidSpend (Num 0)
            then (let cpc = (if js_gt totalPaidClicks (Num 0)
                             then js_div totalPaidSpend totalPaidClicks else Num 0)
                  in [''Average cost per click across paid channels is '' @ toFixed2 cpc])
            else []))"

section \<open>The pipeline state and its stages (agents/nodes.ts)\<close>

record Dataset =
  td_sessions :: "Session list"
  td_leads :: "Lead list"
  td_contacts :: "Contact list"
  td_transactions :: "Transaction list"
  td_sourceData :: "SourceData list"
  td_atoms :: "Atom list"

record MetricAnalysis = Trend +
  possibleReasons :: "string list"

record MetricsAnalysis =
  ma_roas :: MetricAnalysis
  ma_cac :: MetricAnalysis

record ConversionAnalysis =
  stages :: "Stage list"
  ca_insights :: "string list"

record ChannelDistributionAnalysis =
  channels :: "Channel list"
  cd_insights :: "string list"

record DailyBrief =
  brief_date :: string
  brief_dataValidation :: DataValidationResult
  brief_metricsAnalysis :: MetricsAnalysis
  brief_conversionAnalysis :: ConversionAnalysis
  brief_channelDistribution :: ChannelDistributionAnalysis
  brief_dataQualityImprovements :: DataQualityImprovements
  brief_reportingImprovements :: ReportingImprovements
  brief_summary :: string

text \<open>\<open>AgentState\<close>: the two inputs, then one optional slice per stage, the brief and the
  error. (\<open>dataPrefix\<close> and \<open>controlData\<close> are never read.)\<close>

record AgentState =
  st_date :: string
  dataPath :: string
  testData :: "Dataset option"
  dataValidation :: "DataValidationResult option"
  metricsAnalysis :: "MetricsAnalysis option"
  conversionAnalysis :: "ConversionAnalysis option"
  channelDistribution :: "ChannelDistributionAnalysis option"
  dataQualityImprovements :: "DataQualityImprovements option"
  reportingImprovements :: "ReportingImprovements option"
  summary :: "string option"
  dailyBrief :: "DailyBrief option"
  error :: "js_error option"

text \<open>
  What a run takes from outside: the host's time zone, the CSV loader, and the three
  calls to the language model. Each call either throws or returns text; the prompt is a
  function of the values interpolated into it, so the model is given those values.
\<close>

record environment =
  zone :: timezone
  loadDataSet :: "string \<Rightarrow> string \<Rightarrow> js_error + Dataset"
  conversionModel :: "Stage list \<Rightarrow> js_error + string"
  channelModel :: "Channel list \<Rightarrow> js_error + string"
  summaryModel :: "AgentState \<Rightarrow> js_error + string"

text \<open>
  The lines of a model's answer:
  \<open>text.split("\n").filter((line) => line.trim() !== "").map((line) => line.replace(/^\d+\.\s*/, "").trim())\<close>,
  with the ASCII white space.
\<close>

definition isWhiteSpace :: "char \<Rightarrow> bool" where
  "isWhiteSpace c = (c \<in> set [CHR '' '', CHR 0x09, CHR 0x0A, CHR 0x0B, CHR 0x0C, CHR 0x0D])"

definition trim :: "string \<Rightarrow> string" where
  "trim s = rev (dropWhile isWhiteSpace (rev (dropWhile isWhiteSpace s)))"

definition stripNumbering :: "string \<Rightarrow> string" where
  "stripNumbering line =
     (let ds = takeWhile (\<lambda>c. digit_val c \<noteq> None) line;
          rest = dropWhile (\<lambda>c. digit_val c \<noteq> None) line
      in case rest of
           c # after \<Rightarrow> if ds \<noteq> [] \<and> c = CHR ''.'' then dropWhile isWhiteSpace after else line
         | [] \<Rightarrow> line)"

definition insightLines :: "string \<Rightarrow> string list" where
  "insightLines answer =
     map (\<lambda>line. trim (stripNumbering line))
         (filter (\<lambda>line. trim line \<noteq> []) (split_on CHR 0x0A answer))"

text \<open>
  Every stage is a \<open>try\<close> block whose \<open>catch\<close> returns the state with the error set. A
  stage returns \<open>{...state, slice}\<close>: the state it was given with one field replaced.
\<close>

definition loadData :: "environment \<Rightarrow> AgentState \<Rightarrow> AgentState" where
  "loadData env state =
     (case loadDataSet env (dataPath state) ''test'' of
        Inr loaded \<Rightarrow> state\<lparr>testData := Some loaded\<rparr>
      | Inl e \<Rightarrow> state\<lparr>error := Some e\<rparr>)"

definition validateData :: "AgentState \<Rightarrow> AgentState" where
  "validateData state =
     (case testData state of
        None \<Rightarrow> state\<lparr>error := Some (Error ''Test data not loaded'')\<rparr>
      | Some td \<Rightarrow>
          state\<lparr>dataValidation :=
            Some (checkDataValidity (td_sessions td) (td_leads td) (td_contacts td)
                    (td_transactions td) (td_sourceData td) (td_atoms td))\<rparr>)"

definition withReasons :: "Trend \<Rightarrow> string list \<Rightarrow> MetricAnalysis" where
  "withReasons t reasons =
     \<lparr>current = current t, previous = previous t, percentageChange = percentageChange t,
      isSignificant = isSignificant t, possibleReasons = reasons\<rparr>"

definition analyzeMetrics :: "environment \<Rightarrow> AgentState \<Rightarrow> AgentState" where
  "analyzeMetrics env state =
     (case testData state of
        None \<Rightarrow> state\<lparr>error := Some (Error ''Data not loaded'')\<rparr>
      | Some td \<Rightarrow>
          (let currentDate = st_date state
           in case calculatePreviousPeriodStartDate (zone env) currentDate (Some (Num 30)) of
                Inl e \<Rightarrow> state\<lparr>error := Some e\<rparr>
              | Inr pastDate \<Rightarrow>
                  (let previousPeriodTransactions =
                         filterTransactionsByDateRange (td_transactions td) pastDate currentDate;
                       previousPeriodSourceData =
                         filterSourceDataByDateRange (td_sourceData td) pastDate currentDate;
                       trend = calculateMetricsTrend (td_transactions td) (td_sourceData td)
                                 previousPeriodTransactions previousPeriodSourceData;
                       roasReasons = generatePossibleReasons ''ROAS'' (current (roas trend))
                                       (previous (roas trend)) (td_sessions td) (td_sourceData td)
                                       (td_atoms td);
                       cacReasons = generatePossibleReasons ''CAC'' (current (cac trend))
                                      (previous (cac trend)) (td_sessions td) (td_sourceData td)
                                      (td_atoms td)
                   in state\<lparr>metricsAnalysis :=
                        Some \<lparr>ma_roas = withReasons (roas trend) roasReasons,
                              ma_cac = withReasons (cac trend) cacReasons\<rparr>\<rparr>)))"

definition analyzeConversions :: "environment \<Rightarrow> AgentState \<Rightarrow> AgentState" where
  "analyzeConversions env state =
     (case testData state of
        None \<Rightarrow> state\<lparr>error := Some (Error ''Data not loaded'')\<rparr>
      | Some td \<Rightarrow>
          (let currentDate = st_date state
           in case calculatePreviousPeriodStartDate (zone env) currentDate (Some (Num 30)) of
                Inl e \<Rightarrow> state\<lparr>error := Some e\<rparr>
              | Inr pastDate \<Rightarrow>
                  (let previousPeriodSessions =
                         filterSessionsByDateRange (td_sessions td) pastDate currentDate;
                       previousPeriodLeads =
                         filterLeadsByDateRange (td_leads td) pastDate currentDate;
                       previousPeriodContacts =
                         filterContactsByDateRange (td_contacts td) pastDate currentDate;
                       previousPeriodTransactions =
                         filterTransactionsByDateRange (td_transactions td) pastDate currentDate;
                       stageList = calculateConversionsTrend (td_sessions td) (td_leads td)
                                     (td_contacts td) (td_transactions td)
                                     previousPeriodSessions previousPeriodLeads
                                     previousPeriodContacts previousPeriodTransactions
                   in case conversionModel env stageList of
                        Inl e \<Rightarrow> state\<lparr>error := Some e\<rparr>
                      | Inr answer \<Rightarrow>
                          state\<lparr>conversionAnalysis :=
                            Some \<lparr>stages = stageList, ca_insights = insightLines answer\<rparr>\<rparr>)))"

definition analyzeChannels :: "environment \<Rightarrow> AgentState \<Rightarrow> AgentState" where
  "analyzeChannels env state =
     (case testData state of
        None \<Rightarrow> state\<lparr>error := Some (Error ''Data not loaded'')\<rparr>
      | Some td \<Rightarrow>
          (let currentDate = st_date state
           in case calculatePreviousPeriodStartDate (zone env) currentDate (Some (Num 30)) of
                Inl e \<Rightarrow> state\<lparr>error := Some e\<rparr>
              | Inr pastDate \<Rightarrow>
                  (let previousPeriodSessions =
                         filterSessionsByDateRange (td_sessions td) pastDate currentDate;
                       channelList = calculateChannelsTrend (td_sessions td) previousPeriodSessions
                                       (td_atoms td)
                   in case channelModel env channelList of
                        Inl e \<Rightarrow> state\<lparr>error := Some e\<rparr>
                      | Inr answer \<Rightarrow>
                          state\<lparr>channelDistribution :=
                            Some \<lparr>channels = channelList, cd_insights = insightLines answer\<rparr>\<rparr>)))"

definition suggestDataImprovements :: "AgentState \<Rightarrow> AgentState" where
  "suggestDataImprovements state =
     (case testData state of
        None \<Rightarrow> state\<lparr>error := Some (Error ''Test data not loaded'')\<rparr>
      | Some td \<Rightarrow>
          state\<lparr>dataQualityImprovements :=
            Some (generateDataQualityImprovements (td_sessions td) (td_leads td) (td_contacts td)
                    (td_transactions td) (td_sourceData td) (td_atoms td))\<rparr>)"

definition suggestReportingImprovements :: "AgentState \<Rightarrow> AgentState" where
  "suggestReportingImprovements state =
     (case testData state of
        None \<Rightarrow> state\<lparr>error := Some (Error ''Test data not loaded'')\<rparr>
      | Some td \<Rightarrow>
          state\<lparr>reportingImprovements :=
            Some (generateReportingImprovements (td_sessions td) (td_leads td) (td_contacts td)
                    (td_transactions td) (td_sourceData td) (td_atoms td))\<rparr>)"

definition generateSummary :: "environment \<Rightarrow> AgentState \<Rightarrow> AgentState" where
  "generateSummary env state =
     (if dataValidation state = None \<or> metricsAnalysis state = None
         \<or> conversionAnalysis state = None \<or> channelDistribution state = None
         \<or> dataQualityImprovements state = None \<or> reportingImprovements state = None
      then state\<lparr>error := Some (Error ''Missing required analysis data'')\<rparr>
      else (case summaryModel env state of
              Inl e \<Rightarrow> state\<lparr>error := Some e\<rparr>
            | Inr answer \<Rightarrow> state\<lparr>summary := Some answer\<rparr>))"

text \<open>\<open>completeBrief\<close>: \<open>!date\<close> and \<open>!summary\<close> hold for the empty string too.\<close>

definition completeBrief :: "AgentState \<Rightarrow> AgentState" where
  "completeBrief state =
     (case (dataValidation state, metricsAnalysis state, conversionAnalysis state,
            channelDistribution state, dataQualityImprovements state,
            reportingImprovements state, summary state) of
        (Some dv, Some ma, Some ca, Some cd, Some dq, Some ri, Some text) \<Rightarrow>
          if st_date state = [] \<or> text = []
          then state\<lparr>error := Some (Error ''Missing required data for daily brief'')\<rparr>
          else state\<lparr>dailyBrief :=
                 Some \<lparr>brief_date = st_date state, brief_dataValidation = dv,
                       brief_metricsAnalysis = ma, brief_conversionAnalysis = ca,
                       brief_channelDistribution = cd, brief_dataQualityImprovements = dq,
                       brief_reportingImprovements = ri, brief_summary = text\<rparr>\<rparr>
      | _ \<Rightarrow> state\<lparr>error := Some (Error ''Missing required data for daily brief'')\<rparr>)"

text \<open>\<open>handleError\<close> logs and returns the state.\<close>

definition handleError :: "AgentState \<Rightarrow> AgentState" where
  "handleError state = state"

section \<open>The orchestration graph (agents/agent.ts)\<close>

datatype node =
    LOAD_DATA | VALIDATE_DATA | ANALYZE_METRICS | ANALYZE_CONVERSIONS | ANALYZE_CHANNELS
  | SUGGEST_DATA_IMPROVEMENTS | SUGGEST_REPORTING_IMPROVEMENTS | GENERATE_SUMMARY
  | COMPLETE_BRIEF | HANDLE_ERROR

datatype target = To node | END

text \<open>\<open>addNode\<close>: the function behind each node.\<close>

fun nodeFunction :: "environment \<Rightarrow> node \<Rightarrow> AgentState \<Rightarrow> AgentState" where
  "nodeFunction env LOAD_DATA = loadData env"
| "nodeFunction env VALIDATE_DATA = validateData"
| "nodeFunction env ANALYZE_METRICS = analyzeMetrics env"
| "nodeFunction env ANALYZE_CONVERSIONS = analyzeConversions env"
| "nodeFunction env ANALYZE_CHANNELS = analyzeChannels env"
| "nodeFunction env SUGGEST_DATA_IMPROVEMENTS = suggestDataImprovements"
| "nodeFunction env SUGGEST_REPORTING_IMPROVEMENTS = suggestReportingImprovements"
| "nodeFunction env GENERATE_SUMMARY = generateSummary env"
| "nodeFunction env COMPLETE_BRIEF = completeBrief"
| "nodeFunction env HANDLE_ERROR = handleError"

text \<open>\<open>checkForErrors\<close>: an \<open>Error\<close> object is truthy, so the test is whether the field is set.\<close>

definition checkForErrors :: "AgentState \<Rightarrow> string" where
  "checkForErrors state = (if error state \<noteq> None then ''error'' else ''continue'')"

text \<open>\<open>addConditionalEdges(node, checkForErrors, {error: HANDLE_ERROR, continue: next})\<close>\<close>

definition conditional :: "node \<Rightarrow> AgentState \<Rightarrow> target" where
  "conditional next state = (if checkForErrors state = ''error'' then To HANDLE_ERROR else To next)"

text \<open>The edges: eight conditional ones, and the two plain edges into \<open>END\<close>.\<close>

fun edge :: "node \<Rightarrow> AgentState \<Rightarrow> target" where
  "edge LOAD_DATA s = conditional VALIDATE_DATA s"
| "edge VALIDATE_DATA s = conditional ANALYZE_METRICS s"
| "edge ANALYZE_METRICS s = conditional ANALYZE_CONVERSIONS s"
| "edge ANALYZE_CONVERSIONS s = conditional ANALYZE_CHANNELS s"
| "edge ANALYZE_CHANNELS s = conditional SUGGEST_DATA_IMPROVEMENTS s"
| "edge SUGGEST_DATA_IMPROVEMENTS s = conditional SUGGEST_REPORTING_IMPROVEMENTS s"
| "edge SUGGEST_REPORTING_IMPROVEMENTS s = conditional GENERATE_SUMMARY s"
| "edge GENERATE_SUMMARY s = conditional COMPLETE_BRIEF s"
| "edge COMPLETE_BRIEF s = END"
| "edge HANDLE_ERROR s = END"

text \<open>The place of a node in the graph: every edge leads to a node of smaller rank.\<close>

fun rank :: "node \<Rightarrow> nat" where
  "rank LOAD_DATA = 9"
| "rank VALIDATE_DATA = 8"
| "rank ANALYZE_METRICS = 7"
| "rank ANALYZE_CONVERSIONS = 6"
| "rank ANALYZE_CHANNELS = 5"
| "rank SUGGEST_DATA_IMPROVEMENTS = 4"
| "rank SUGGEST_REPORTING_IMPROVEMENTS = 3"
| "rank GENERATE_SUMMARY = 2"
| "rank COMPLETE_BRIEF = 1"
| "rank HANDLE_ERROR = 0"

lemma edge_rank: "edge n s = To n' \<Longrightarrow> rank n' < rank n"
  by (cases n) (auto simp: conditional_def split: if_splits)

text \<open>
  Running the graph from a node: the node's function is applied to the state, the edge
  is chosen on the state it returns, and the run goes on from the target until \<open>END\<close>.
  The result is the list of the nodes executed, each with the state it returned.
\<close>

function run :: "environment \<Rightarrow> node \<Rightarrow> AgentState \<Rightarrow> (node \<times> AgentState) list" where
  "run env n s =
     (let s' = nodeFunction env n s
      in case edge n s' of
           END \<Rightarrow> [(n, s')]
         | To n' \<Rightarrow> (n, s') # run env n' s')"
  by pat_completeness auto
termination
  by (relation "measure (\<lambda>(env, n, s). rank n)") (auto simp: edge_rank)

declare run.simps [simp del]

text \<open>\<open>graph.invoke(initialState)\<close>: the entry edge leads from \<open>START\<close> to \<open>LOAD_DATA\<close>.\<close>

definition invoke :: "environment \<Rightarrow> AgentState \<Rightarrow> (node \<times> AgentState) list" where
  "invoke env initialState = run env LOAD_DATA initialState"

definition finalState :: "(node \<times> AgentState) list \<Rightarrow> AgentState" where
  "finalState trace = snd (last trace)"

section \<open>The two comparison windows, as the specification words them\<close>

text \<open>
  The specification's reading of a metrics comparison on the analysis date \<open>d\<close>, with
  the lookback of 30 days that the stages use: the current record set is the records
  dated in the trailing window from \<open>d - 30\<close> to \<open>d\<close>, the previous record set the
  records dated in the window of the same length just before it, from \<open>d - 60\<close> to
  \<open>d - 30\<close>; both are cut from the loaded dataset with the date-range filters, and the
  composer is applied to the two.
\<close>

definition specifiedMetricsTrend :: "timezone \<Rightarrow> string \<Rightarrow> Dataset \<Rightarrow> js_error + MetricsTrend" where
  "specifiedMetricsTrend z d td =
     (case calculatePreviousPeriodStartDate z d (Some (Num 30)) of
        Inl e \<Rightarrow> Inl e
      | Inr windowStart \<Rightarrow>
          (case calculatePreviousPeriodStartDate z windowStart (Some (Num 30)) of
             Inl e \<Rightarrow> Inl e
           | Inr precedingStart \<Rightarrow>
               Inr (calculateMetricsTrend
                      (filterTransactionsByDateRange (td_transactions td) windowStart d)
                      (filterSourceDataByDateRange (td_sourceData td) windowStart d)
                      (filterTransactionsByDateRange (td_transactions td) precedingStart windowStart)
                      (filterSourceDataByDateRange (td_sourceData td) precedingStart windowStart))))"


section \<open>IEEE 754 binary64 arithmetic\<close>

text \<open>
  The operations of the first section are exact. A JavaScript number is an IEEE 754
  binary64 value, and \<open>+\<close>, \<open>-\<close>, \<open>*\<close> and \<open>/\<close> return the exact result rounded to the
  nearest such value, ties to the one with an even significand, and to an infinity past
  the largest one. Where a result depends on the last bit, on a guard that compares with
  zero or on the range, the functions are taken with this arithmetic.

  A finite binary64 value is \<open>m * 2 ^ q\<close> with \<open>\<bar>m\<bar> < 2 ^ 53\<close> and
  \<open>- 1074 \<le> q \<le> 971\<close>. For \<open>x\<close> with \<open>2 ^ e \<le> \<bar>x\<bar> < 2 ^ (e + 1)\<close> the spacing of the
  values around \<open>x\<close> is \<open>2 ^ (e - 52)\<close>, and \<open>2 ^ - 1074\<close> below \<open>2 ^ - 1022\<close>. (The two
  zeros are one, as before: no result of the source tells them apart where it divides.)
\<close>

definition pow2 :: "int \<Rightarrow> real" where
  "pow2 k = (if 0 \<le> k then 2 ^ nat k else inverse (2 ^ nat (- k)))"

text \<open>The exponent \<open>e\<close> with \<open>2 ^ e \<le> \<bar>x\<bar> < 2 ^ (e + 1)\<close>, for \<open>x \<noteq> 0\<close>.\<close>

definition binade :: "real \<Rightarrow> int" where
  "binade x = \<lfloor>log 2 \<bar>x\<bar>\<rfloor>"

text \<open>The nearest integer, a tie going to the even one.\<close>

definition roundTiesToEven :: "real \<Rightarrow> int" where
  "roundTiesToEven r =
     (let f = \<lfloor>r\<rfloor>; d = r - of_int f
      in if d < 1 / 2 then f
         else if 1 / 2 < d then f + 1
         else if even f then f else f + 1)"

definition roundToDouble :: "real \<Rightarrow> number" where
  "roundToDouble x =
     (if x = 0 then Num 0
      else let q = max (binade x) (- 1022) - 52;
               m = roundTiesToEven (\<bar>x\<bar> / pow2 q);
               y = of_int m * pow2 q
           in if pow2 1024 \<le> y then (if x < 0 then NegInfinity else PosInfinity)
              else Num (if x < 0 then - y else y))"

text \<open>The result of an operation: a finite one is rounded, the others stand.\<close>

fun fl :: "number \<Rightarrow> number" where
  "fl (Num x) = roundToDouble x"
| "fl PosInfinity = PosInfinity"
| "fl NegInfinity = NegInfinity"
| "fl NaN = NaN"

definition f64_add :: "number \<Rightarrow> number \<Rightarrow> number" where
  "f64_add a b = fl (js_add a b)"

definition f64_sub :: "number \<Rightarrow> number \<Rightarrow> number" where
  "f64_sub a b = fl (js_sub a b)"

definition f64_mul :: "number \<Rightarrow> number \<Rightarrow> number" where
  "f64_mul a b = fl (js_mul a b)"

definition f64_div :: "number \<Rightarrow> number \<Rightarrow> number" where
  "f64_div a b = fl (js_div a b)"

text \<open>The largest finite value, and the bound from which rounding gives an infinity.\<close>

definition maxDouble :: real where
  "maxDouble = pow2 1024 - pow2 971"

definition overflowBound :: real where
  "overflowBound = pow2 1024 - pow2 970"

section \<open>The calculators and the trend composers in binary64 arithmetic\<close>

text \<open>
  The functions of \<open>services/data-analysis.ts\<close> and \<open>utils/trend-analysis.ts\<close> that
  compute with amounts, once more, with every \<open>+\<close>, \<open>-\<close>, \<open>*\<close> and \<open>/\<close> of the source
  rounded. Comparisons are exact on the values they are given, and a count is an integer
  below \<open>2 ^ 53\<close>, which is a binary64 value as it stands.
\<close>

definition reduce_sum_f64 :: "('a \<Rightarrow> number) \<Rightarrow> 'a list \<Rightarrow> number" where
  "reduce_sum_f64 f xs = foldl (\<lambda>sum x. f64_add sum (f x)) (Num 0) xs"

definition calculateROAS_f64 :: "Transaction list \<Rightarrow> SourceData list \<Rightarrow> number" where
  "calculateROAS_f64 transactions sourceData =
     (let totalRevenue = reduce_sum_f64 paidSumOriginalCurrency transactions;
          totalAdSpend = reduce_sum_f64 budgetSpent sourceData
      in if js_seq totalAdSpend (Num 0) then Num 0
         else f64_div totalRevenue totalAdSpend)"

definition calculateCAC_f64 :: "Transaction list \<Rightarrow> SourceData list \<Rightarrow> number" where
  "calculateCAC_f64 transactions sourceData =
     (let uniqueCustomers = set_size (map tx_mcId (filter ch_isFirstClientPaid transactions));
          totalAdSpend = reduce_sum_f64 budgetSpent sourceData
      in if uniqueCustomers = 0 then Num 0
         else f64_div totalAdSpend (count uniqueCustomers))"

definition calculateConversionRates_f64 ::
  "Session list \<Rightarrow> Lead list \<Rightarrow> Contact list \<Rightarrow> Transaction list \<Rightarrow> Stage list" where
  "calculateConversionRates_f64 sessionList leads contacts transactions =
     (let uniqueVisitors = set_size (map sessionIdentity sessionList);
          uniqueLeads = set_size (map lead_mcId leads);
          uniqueContacts = set_size (map contact_mcId contacts);
          uniqueCustomers = set_size (map tx_mcId (filter ch_isFirstClientPaid transactions));
          visitorToLeadRate =
            (if uniqueVisitors > 0
             then f64_mul (f64_div (count uniqueLeads) (count uniqueVisitors)) (Num 100) else Num 0);
          leadToContactRate =
            (if uniqueLeads > 0
             then f64_mul (f64_div (count uniqueContacts) (count uniqueLeads)) (Num 100) else Num 0);
          contactToCustomerRate =
            (if uniqueContacts > 0
             then f64_mul (f64_div (count uniqueCustomers) (count uniqueContacts)) (Num 100) else Num 0);
          overallConversionRate =
            (if uniqueVisitors > 0
             then f64_mul (f64_div (count uniqueCustomers) (count uniqueVisitors)) (Num 100) else Num 0)
      in [mkStage ''Visitor to Lead'' visitorToLeadRate (Num 0) (Num 0) False,
          mkStage ''Lead to Contact'' leadToContactRate (Num 0) (Num 0) False,
          mkStage ''Contact to Customer'' contactToCustomerRate (Num 0) (Num 0) False,
          mkStage ''Overall (Visitor to Customer)'' overallConversionRate (Num 0) (Num 0) False])"

definition isChangeSigificant_f64 :: "number \<Rightarrow> number \<Rightarrow> number option \<Rightarrow> bool" where
  "isChangeSigificant_f64 cur prev threshold =
     (let thr = (case threshold of None \<Rightarrow> Num 10 | Some t \<Rightarrow> t)
      in if js_seq prev (Num 0) then js_gt cur (Num 0)
         else let pc = js_abs (f64_mul (f64_div (f64_sub cur prev) prev) (Num 100))
              in js_ge pc thr)"

definition calculateMetricsTrend_f64 ::
  "Transaction list \<Rightarrow> SourceData list \<Rightarrow> Transaction list \<Rightarrow> SourceData list \<Rightarrow> MetricsTrend" where
  "calculateMetricsTrend_f64 currentTransactions currentSourceData previousTransactions previousSourceData =
     (let currentROAS = calculateROAS_f64 currentTransactions currentSourceData;
          currentCAC = calculateCAC_f64 currentTransactions currentSourceData;
          previousROAS =
            (if length previousTransactions > 0 \<and> length previousSourceData > 0
             then calculateROAS_f64 previousTransactions previousSourceData else Num 0);
          previousCAC =
            (if length previousTransactions > 0 \<and> length previousSourceData > 0
             then calculateCAC_f64 previousTransactions previousSourceData else Num 0);
          roasPercentageChange =
            (if js_gt previousROAS (Num 0)
             then f64_mul (f64_div (f64_sub currentROAS previousROAS) previousROAS) (Num 100)
             else Num 0);
          cacPercentageChange =
            (if js_gt previousCAC (Num 0)
             then f64_mul (f64_div (f64_sub currentCAC previousCAC) previousCAC) (Num 100)
             else Num 0);
          roasSignificant =
            (if js_gt previousROAS (Num 0)
             then isChangeSigificant_f64 currentROAS previousROAS None else False);
          cacSignificant =
            (if js_gt previousCAC (Num 0)
             then isChangeSigificant_f64 currentCAC previousCAC None else False)
      in \<lparr>roas = \<lparr>current = currentROAS, previous = previousROAS,
                   percentageChange = roasPercentageChange, isSignificant = roasSignificant\<rparr>,
          cac = \<lparr>current = currentCAC, previous = previousCAC,
                  percentageChange = cacPercentageChange, isSignificant = cacSignificant\<rparr>\<rparr>)"

definition composeStage_f64 :: "Stage list \<Rightarrow> Stage \<times> nat \<Rightarrow> Stage" where
  "composeStage_f64 previousConversions = (\<lambda>(stage, index).
     (let prev = (case index_opt previousConversions index of
                    Some previousStage \<Rightarrow> current previousStage
                  | None \<Rightarrow> Num 0);
          pc = (if js_gt prev (Num 0)
                then f64_mul (f64_div (f64_sub (current stage) prev) prev) (Num 100)
                else Num 0);
          sig = (if js_gt prev (Num 0)
                 then isChangeSigificant_f64 (current stage) prev None else False)
      in stage\<lparr>previous := prev, percentageChange := pc, isSignificant := sig\<rparr>))"

definition calculateConversionsTrend_f64 ::
  "Session list \<Rightarrow> Lead list \<Rightarrow> Contact list \<Rightarrow> Transaction list \<Rightarrow>
   Session list \<Rightarrow> Lead list \<Rightarrow> Contact list \<Rightarrow> Transaction list \<Rightarrow> Stage list" where
  "calculateConversionsTrend_f64 currentSessions currentLeads currentContacts currentTransactions
       previousSessions previousLeads previousContacts previousTransactions =
     (let currentConversions =
            calculateConversionRates_f64 currentSessions currentLeads currentContacts currentTransactions;
          previousConversions =
            calculateConversionRates_f64 previousSessions previousLeads previousContacts previousTransactions
      in map (composeStage_f64 previousConversions)
             (zip currentConversions [0 ..< length currentConversions]))"


section \<open>Example data\<close>

definition tx_a :: Transaction where
  "tx_a = \<lparr>tx_mcId = ''c1'', paymentDatetimeShifted = ''2024-06-01 10:00:00'',
           paidSumOriginalCurrency = Num 50, ch_isFirstClientPaid = True\<rparr>"

definition tx_b :: Transaction where
  "tx_b = \<lparr>tx_mcId = ''c2'', paymentDatetimeShifted = ''2024-06-02 11:30:00'',
           paidSumOriginalCurrency = Num 50, ch_isFirstClientPaid = True\<rparr>"

definition sd_a :: SourceData where
  "sd_a = \<lparr>date = ''2024-06-01'', sd_atomId = ''a1'', budgetSpent = Num 40, clicks = Num 12\<rparr>"

definition tx_of :: "real \<Rightarrow> Transaction" where
  "tx_of amount = \<lparr>tx_mcId = ''c1'', paymentDatetimeShifted = ''2024-06-10 09:15:00'',
           paidSumOriginalCurrency = Num amount, ch_isFirstClientPaid = True\<rparr>"

definition sd_1 :: SourceData where
  "sd_1 = \<lparr>date = ''2024-06-10'', sd_atomId = ''a1'', budgetSpent = Num 1, clicks = Num 3\<rparr>"

definition atom_x :: Atom where
  "atom_x = \<lparr>atomId = ''a1'', sourceName = ''google'', sourceGroupName = ''Paid Search'',
             isPaidName = ''Paid''\<rparr>"

definition atom_y :: Atom where
  "atom_y = \<lparr>atomId = ''a2'', sourceName = ''facebook'', sourceGroupName = ''Social'',
             isPaidName = ''Paid''\<rparr>"

definition session_p :: Session where
  "session_p = \<lparr>mcid = Some ''c1'', userPseudoId = ''u1'',
                datetimeShifted = ''2024-06-10 08:00:00'', deviceCategory = ''mobile''\<rparr>"

definition tx_on :: "string \<Rightarrow> real \<Rightarrow> Transaction" where
  "tx_on stamp amount = \<lparr>tx_mcId = ''c1'', paymentDatetimeShifted = stamp,
           paidSumOriginalCurrency = Num amount, ch_isFirstClientPaid = True\<rparr>"

definition sd_on :: "string \<Rightarrow> real \<Rightarrow> SourceData" where
  "sd_on day spend = \<lparr>date = day, sd_atomId = ''a1'', budgetSpent = Num spend, clicks = Num 3\<rparr>"

text \<open>A run's initial state \<open>{date, dataPath}\<close>, an empty dataset, and an environment in
  UTC whose loader and summary call are given and whose two insight calls answer.\<close>

definition initialState :: "string \<Rightarrow> AgentState" where
  "initialState d = \<lparr>st_date = d, dataPath = ''data'', testData = None, dataValidation = None,
       metricsAnalysis = None, conversionAnalysis = None, channelDistribution = None,
       dataQualityImprovements = None, reportingImprovements = None, summary = None,
       dailyBrief = None, error = None\<rparr>"

definition emptyDataset :: Dataset where
  "emptyDataset = \<lparr>td_sessions = [], td_leads = [], td_contacts = [], td_transactions = [],
                    td_sourceData = [], td_atoms = []\<rparr>"

definition env_of :: "js_error + Dataset \<Rightarrow> string \<Rightarrow> environment" where
  "env_of loaded summaryText =
     \<lparr>zone = fixedZone 0, loadDataSet = (\<lambda>path prefix. loaded),
      conversionModel = (\<lambda>stageList. Inr ''1. No conversions yet''),
      channelModel = (\<lambda>channelList. Inr ''No channels''),
      summaryModel = (\<lambda>state. Inr summaryText)\<rparr>"

text \<open>Three payments and three spend records: one long before the analysis date
  2024-06-17, one in the 30 days before it, one in the 30 days before those; two sessions
  of one visitor, one of them in the 30 days before the date; two atoms in two groups.\<close>

definition session_on :: "string \<Rightarrow> Session" where
  "session_on stamp = \<lparr>mcid = Some ''c1'', userPseudoId = ''u1'', datetimeShifted = stamp,
                          deviceCategory = ''mobile''\<rparr>"

definition threePeriods :: Dataset where
  "threePeriods =
     \<lparr>td_sessions = [session_on ''2024-01-05 09:00:00'', session_on ''2024-06-01 09:00:00''],
      td_leads = [], td_contacts = [],
      td_transactions = [tx_on ''2024-01-05 12:00:00'' 50, tx_on ''2024-05-01 12:00:00'' 20,
                         tx_on ''2024-06-01 12:00:00'' 30],
      td_sourceData = [sd_on ''2024-01-05'' 10, sd_on ''2024-05-01'' 5, sd_on ''2024-06-01'' 10],
      td_atoms = [atom_x, atom_y]\<rparr>"

definition session_q :: Session where
  "session_q = \<lparr>mcid = Some ''c2'', userPseudoId = ''u2'',
                datetimeShifted = ''2024-05-20 08:00:00'', deviceCategory = ''desktop''\<rparr>"

definition lead_p :: Lead where
  "lead_p = \<lparr>lead_mcId = ''c1'', lead_datetimeCreatedShifted = ''2024-06-10 08:30:00'',
             lead_googleClientId = ''g1''\<rparr>"

section \<open>Sums of finite amounts in the exact arithmetic\<close>

lemma set_size_card: "set_size xs = card (set xs)"
  by (simp add: set_size_def length_remdups_card_conv)



section \<open>Trend composition on a zero or a positive previous value\<close>

lemma roas_of: "calculateROAS [tx_of a] [sd_1] = Num a"
  by (simp add: calculateROAS_def reduce_sum_def js_seq_def tx_of_def sd_1_def)

lemma cac_of: "calculateCAC [tx_of a] [sd_1] = Num 1"
  by (simp add: calculateCAC_def reduce_sum_def set_size_def count_def tx_of_def sd_1_def)

lemma composeStage_zero_previous:
  "\<not> js_gt (previous (composeStage ps (st, i))) (Num 0) \<Longrightarrow>
   percentageChange (composeStage ps (st, i)) = Num 0 \<and> \<not> isSignificant (composeStage ps (st, i))"
  by (simp add: composeStage_def Let_def)

lemma isChangeSigificant_finite:
  "p \<noteq> 0 \<Longrightarrow> isChangeSigificant (Num c) (Num p) None = (10 \<le> \<bar>(c - p) / p * 100\<bar>)"
  by (simp add: isChangeSigificant_def js_seq_def js_sub_def js_ge_def Let_def not_less)

lemma percentage_change_finite:
  "0 < p \<Longrightarrow> js_mul (js_div (js_sub (Num c) (Num p)) (Num p)) (Num 100) = Num ((c - p) / p * 100)"
  by (simp add: js_sub_def)

text \<open>
  Claim C1, as stated, fails: with a current ROAS of 5 and no previous-period records the
  previous ROAS is 0, the percentage change is 0, and the trend is not flagged
  significant. The composer asks \<open>isChangeSigificant\<close> only when the previous value is
  positive, and answers \<open>false\<close> itself otherwise.
\<close>

theorem zero_previous_counterexample:
  "previous (roas (calculateMetricsTrend [tx_of 5] [sd_1] [] [])) = Num 0
   \<and> current (roas (calculateMetricsTrend [tx_of 5] [sd_1] [] [])) = Num 5
   \<and> percentageChange (roas (calculateMetricsTrend [tx_of 5] [sd_1] [] [])) = Num 0
   \<and> isSignificant (roas (calculateMetricsTrend [tx_of 5] [sd_1] [] [])) = False"
  by (simp add: calculateMetricsTrend_def roas_of cac_of Let_def js_gt_def)

text \<open>
  Claim C1, amended. For every trend the composer emits (ROAS, CAC, each funnel stage):
  when the previous-period value is not greater than 0, in particular when it is 0, the
  record has \<open>percentageChange = 0\<close> and \<open>isSignificant = false\<close>, whatever the current
  value is.
\<close>

theorem zero_previous_not_significant:
  "(let m = calculateMetricsTrend ct cs pt ps
    in (\<not> js_gt (previous (roas m)) (Num 0) \<longrightarrow>
          percentageChange (roas m) = Num 0 \<and> \<not> isSignificant (roas m))
     \<and> (\<not> js_gt (previous (cac m)) (Num 0) \<longrightarrow>
          percentageChange (cac m) = Num 0 \<and> \<not> isSignificant (cac m)))
   \<and> (\<forall>st \<in> set (calculateConversionsTrend s1 l1 c1 t1 s2 l2 c2 t2).
        \<not> js_gt (previous st) (Num 0) \<longrightarrow> percentageChange st = Num 0 \<and> \<not> isSignificant st)"
proof (intro conjI)
  show "let m = calculateMetricsTrend ct cs pt ps
    in (\<not> js_gt (previous (roas m)) (Num 0) \<longrightarrow>
          percentageChange (roas m) = Num 0 \<and> \<not> isSignificant (roas m))
     \<and> (\<not> js_gt (previous (cac m)) (Num 0) \<longrightarrow>
          percentageChange (cac m) = Num 0 \<and> \<not> isSignificant (cac m))"
    by (simp add: calculateMetricsTrend_def Let_def)
next
  show "\<forall>st \<in> set (calculateConversionsTrend s1 l1 c1 t1 s2 l2 c2 t2).
        \<not> js_gt (previous st) (Num 0) \<longrightarrow> percentageChange st = Num 0 \<and> \<not> isSignificant st"
  proof
    fix st assume "st \<in> set (calculateConversionsTrend s1 l1 c1 t1 s2 l2 c2 t2)"
    then obtain x i where "st = composeStage (calculateConversionRates s2 l2 c2 t2) (x, i)"
      by (auto simp: calculateConversionsTrend_def Let_def)
    then show "\<not> js_gt (previous st) (Num 0) \<longrightarrow> percentageChange st = Num 0 \<and> \<not> isSignificant st"
      using composeStage_zero_previous by blast
  qed
qed

text \<open>
  A current CAC of 1 over an empty previous period, and a funnel with one visitor now
  and none before: each previous value is 0, each change 0, nothing significant.
\<close>

theorem zero_previous_not_significant_witness:
  "previous (cac (calculateMetricsTrend [tx_of 5] [sd_1] [] [])) = Num 0
   \<and> current (cac (calculateMetricsTrend [tx_of 5] [sd_1] [] [])) = Num 1
   \<and> percentageChange (cac (calculateMetricsTrend [tx_of 5] [sd_1] [] [])) = Num 0
   \<and> isSignificant (cac (calculateMetricsTrend [tx_of 5] [sd_1] [] [])) = False
   \<and> map (\<lambda>st. (current st, previous st, percentageChange st, isSignificant st))
        (calculateConversionsTrend [session_p] [] [] [tx_of 5] [] [] [] [])
      = [(Num 0, Num 0, Num 0, False), (Num 0, Num 0, Num 0, False),
         (Num 0, Num 0, Num 0, False), (Num 100, Num 0, Num 0, False)]"
proof -
  have prev: "previous (cac (calculateMetricsTrend [tx_of 5] [sd_1] [] [])) = Num 0"
    and cur: "current (cac (calculateMetricsTrend [tx_of 5] [sd_1] [] [])) = Num 1"
    by (simp_all add: calculateMetricsTrend_def roas_of cac_of Let_def)
  from zero_previous_not_significant [of "[tx_of 5]" "[sd_1]" "[]" "[]"] prev
  have m: "percentageChange (cac (calculateMetricsTrend [tx_of 5] [sd_1] [] [])) = Num 0
     \<and> isSignificant (cac (calculateMetricsTrend [tx_of 5] [sd_1] [] [])) = False"
    by (simp add: Let_def js_gt_def)
  have st: "map (\<lambda>st. (current st, previous st, percentageChange st, isSignificant st))
        (calculateConversionsTrend [session_p] [] [] [tx_of 5] [] [] [] [])
      = [(Num 0, Num 0, Num 0, False), (Num 0, Num 0, Num 0, False),
         (Num 0, Num 0, Num 0, False), (Num 100, Num 0, Num 0, False)]"
    by (simp add: calculateConversionsTrend_def calculateConversionRates_def composeStage_def
          mkStage_def index_opt_def set_size_def count_def js_gt_def session_p_def tx_of_def
          sessionIdentity_def Let_def upt_rec)
  from prev cur m st show ?thesis by simp
qed

section \<open>Channel distribution counts atoms and divides by sessions\<close>

lemma map_of_map_set: "map_of (map_set m k v) = (map_of m)(k \<mapsto> v)"
  by (induction m) (auto simp: fun_eq_iff)

lemma keys_map_set:
  "map fst (map_set m k v) = (if k \<in> fst ` set m then map fst m else map fst m @ [k])"
  by (induction m) (auto simp: rev_image_eqI)

lemma distinct_map_set: "distinct (map fst m) \<Longrightarrow> distinct (map fst (map_set m k v))"
  by (simp add: keys_map_set)

lemma sum_countChannel:
  "sum_list (map snd (countChannel m a)) = sum_list (map snd m) + 1"
  unfolding countChannel_def map_get_def Let_def
  by (induction m) (auto split: option.splits)

lemma keys_countChannel:
  "set (map fst (countChannel m a)) = insert (sourceGroupName a) (set (map fst m))"
  by (auto simp: countChannel_def Let_def keys_map_set)

lemma distinct_countChannel:
  "distinct (map fst m) \<Longrightarrow> distinct (map fst (countChannel m a))"
  by (simp add: countChannel_def Let_def distinct_map_set)

text \<open>The count a map holds for a key, 0 for a key it does not hold.\<close>

lemma counted_countChannel:
  "(case map_of (countChannel m a) k of None \<Rightarrow> 0 | Some c \<Rightarrow> c) =
     (case map_of m k of None \<Rightarrow> 0 | Some c \<Rightarrow> c) + (if sourceGroupName a = k then 1 else 0)"
  by (simp add: countChannel_def map_get_def Let_def map_of_map_set)

lemma foldl_countChannel:
  "sum_list (map snd (foldl countChannel m atoms)) = sum_list (map snd m) + length atoms
   \<and> set (map fst (foldl countChannel m atoms)) = set (map fst m) \<union> sourceGroupName ` set atoms
   \<and> (distinct (map fst m) \<longrightarrow> distinct (map fst (foldl countChannel m atoms)))
   \<and> (\<forall>k. (case map_of (foldl countChannel m atoms) k of None \<Rightarrow> 0 | Some c \<Rightarrow> c) =
          (case map_of m k of None \<Rightarrow> 0 | Some c \<Rightarrow> c)
          + length (filter (\<lambda>a. sourceGroupName a = k) atoms))"
proof (induction atoms arbitrary: m)
  case Nil
  then show ?case by simp
next
  case (Cons a atoms)
  show ?case
    using Cons.IH [of "countChannel m a"]
    by (simp add: sum_countChannel distinct_countChannel counted_countChannel
          del: set_map)
       (use keys_countChannel [of m a] in auto)
qed



lemma foldl_map_set:
  "map_of (foldl (\<lambda>m c. map_set m (kf c) (vf c)) m0 cs) =
     map_of m0 ++ map_of (rev (map (\<lambda>c. (kf c, vf c)) cs))"
proof (induction cs arbitrary: m0)
  case Nil
  then show ?case by simp
next
  case (Cons c cs)
  show ?case
    by (simp add: Cons.IH map_of_map_set fun_eq_iff map_add_def split: option.splits)
qed




text \<open>
  Claim C10. The channel entries that \<open>analyzeChannelDistribution\<close> computes from two
  session lists and the same atoms agree in everything but the percentage: the same
  names in the same order, with the same \<open>sessions\<close> count. In a channels trend the
  previous entry of every channel is therefore found, and its \<open>sessions\<close> equals the
  current one.
\<close>

theorem channel_counts_ignore_sessions:
  "map (\<lambda>c. c\<lparr>ch_current := (ch_current c)\<lparr>percentage := Num 0\<rparr>\<rparr>) (analyzeChannelDistribution S1 atoms)
     = map (\<lambda>c. c\<lparr>ch_current := (ch_current c)\<lparr>percentage := Num 0\<rparr>\<rparr>) (analyzeChannelDistribution S2 atoms)
   \<and> map (\<lambda>c. (ch_name c, sessions (ch_current c))) (analyzeChannelDistribution S1 atoms)
     = map (\<lambda>c. (ch_name c, sessions (ch_current c))) (analyzeChannelDistribution S2 atoms)
   \<and> (\<forall>c \<in> set (calculateChannelsTrend currentSessions previousSessions atoms).
         sessions (ch_previous c) = sessions (ch_current c))"
proof (intro conjI ballI)
  show "map (\<lambda>c. c\<lparr>ch_current := (ch_current c)\<lparr>percentage := Num 0\<rparr>\<rparr>) (analyzeChannelDistribution S1 atoms)
     = map (\<lambda>c. c\<lparr>ch_current := (ch_current c)\<lparr>percentage := Num 0\<rparr>\<rparr>) (analyzeChannelDistribution S2 atoms)"
    by (simp add: analyzeChannelDistribution_def Let_def split_def)
next
  show "map (\<lambda>c. (ch_name c, sessions (ch_current c))) (analyzeChannelDistribution S1 atoms)
     = map (\<lambda>c. (ch_name c, sessions (ch_current c))) (analyzeChannelDistribution S2 atoms)"
    by (simp add: analyzeChannelDistribution_def Let_def split_def)
next
  fix c assume c: "c \<in> set (calculateChannelsTrend currentSessions previousSessions atoms)"
  define m where "m = foldl countChannel [] atoms"
  define mk where "mk = (\<lambda>ss (channelName, cnt).
                \<lparr>ch_name = channelName,
                 ch_current = \<lparr>sessions = cnt,
                    percentage = js_mul (js_div (count cnt) (count (max (length (ss :: Session list)) 1))) (Num 100)\<rparr>,
                 ch_previous = \<lparr>sessions = 0, percentage = Num 0\<rparr>,
                 change = Num 0\<rparr>)"
  define pm where "pm = foldl (\<lambda>m channel. map_set m (ch_name channel) (ch_current channel)) []
                          (map (mk previousSessions) m)"
  have A: "\<And>ss. analyzeChannelDistribution ss atoms = map (mk ss) m"
    by (simp add: analyzeChannelDistribution_def m_def mk_def Let_def)
  have dist: "distinct (map fst m)"
    using foldl_countChannel [of "[]" atoms] by (simp add: m_def)
  from c obtain k n where kn: "(k, n) \<in> set m" and ceq: "c = composeChannel pm (mk currentSessions (k, n))"
    by (auto simp: calculateChannelsTrend_def A pm_def Let_def)
  let ?ps = "map (\<lambda>c. (ch_name c, ch_current c)) (map (mk previousSessions) m)"
  have keys: "map fst (rev ?ps) = rev (map fst m)"
    by (simp add: mk_def split_def rev_map comp_def)
  have mem: "(k, ch_current (mk previousSessions (k, n))) \<in> set (rev ?ps)"
    using kn by (force simp: mk_def)
  have dk: "distinct (map fst (rev ?ps))"
    unfolding keys using dist by simp
  have "map_of (rev ?ps) k = Some (ch_current (mk previousSessions (k, n)))"
    by (rule map_of_is_SomeI [OF dk mem])
  then have "map_get pm k = Some (ch_current (mk previousSessions (k, n)))"
    by (simp add: map_get_def pm_def foldl_map_set)
  then show "sessions (ch_previous c) = sessions (ch_current c)"
    by (simp add: ceq composeChannel_def Let_def mk_def)
qed

text \<open>
  Four current sessions, one previous session, three atoms in two groups: the previous
  counts are the current counts, 2 and 1.
\<close>

theorem channel_counts_ignore_sessions_witness:
  "map (\<lambda>c. (ch_name c, sessions (ch_current c), sessions (ch_previous c)))
       (calculateChannelsTrend [session_p, session_p, session_p, session_p] [session_p]
          [atom_x, atom_y, atom_x])
     = [(''Paid Search'', 2, 2), (''Social'', 1, 1)]"
  using channel_counts_ignore_sessions
          [of "[]" "[atom_x, atom_y, atom_x]" "[session_p]"
              "[session_p, session_p, session_p, session_p]" "[session_p]"]
  by (simp add: calculateChannelsTrend_def analyzeChannelDistribution_def countChannel_def
        composeChannel_def map_get_def count_def atom_x_def atom_y_def Let_def)

section \<open>Printing small numbers\<close>

text \<open>The equation of \<open>show_nat\<close>, one case at a time, for evaluating it on numerals.\<close>

lemma show_nat_digit: "n < 10 \<Longrightarrow> show_nat n = [digit_char n]"
  by (subst show_nat.simps) simp

lemma show_nat_step: "10 \<le> n \<Longrightarrow> show_nat n = show_nat (n div 10) @ [digit_char (n mod 10)]"
  by (subst show_nat.simps) simp

section \<open>Validation of an empty dataset\<close>

text \<open>
  Claim C3, as stated, fails: on six empty collections the validator reports seven
  issues, not six. The session-volume rule compares the number of sessions with 70
  percent of 1000, and 0 is below it.
\<close>

theorem empty_dataset_issues_counterexample:
  "length (issues (checkDataValidity [] [] [] [] [] [])) = 7
   \<and> last (issues (checkDataValidity [] [] [] [] [] []))
       = ''Session volume (0) is significantly lower than expected (1000)''"
  by (simp add: checkDataValidity_def js_set_def truthyMcids_def List.map_filter_simps
        count_def digit_char_def show_nat_digit show_nat_step Let_def)

text \<open>
  Claim C3, amended. Validating six empty collections returns \<open>isValid = false\<close> with
  exactly seven issues: one per empty collection, then the session-volume issue, and no
  coverage issue; the only suggestion is the one of the volume rule. The validator is a
  total function of its six lists: it raises on no input, and \<open>isValid\<close> is true exactly
  when the issues list is empty.
\<close>

theorem empty_dataset_validation:
  "checkDataValidity [] [] [] [] [] [] =
     \<lparr>isValid = False,
      issues =
        [''Sessions dataset is empty'', ''Leads dataset is empty'', ''Contacts dataset is empty'',
         ''Transactions dataset is empty'', ''Source data dataset is empty'',
         ''Atoms dataset is empty'',
         ''Session volume (0) is significantly lower than expected (1000)''],
      suggestions = [''Check if there are tracking issues or a genuine decrease in traffic'']\<rparr>
   \<and> isValid (checkDataValidity sessionList leads contacts transactions sourceData atoms)
       = (issues (checkDataValidity sessionList leads contacts transactions sourceData atoms) = [])"
proof
  show "checkDataValidity [] [] [] [] [] [] =
     \<lparr>isValid = False,
      issues =
        [''Sessions dataset is empty'', ''Leads dataset is empty'', ''Contacts dataset is empty'',
         ''Transactions dataset is empty'', ''Source data dataset is empty'',
         ''Atoms dataset is empty'',
         ''Session volume (0) is significantly lower than expected (1000)''],
      suggestions = [''Check if there are tracking issues or a genuine decrease in traffic'']\<rparr>"
    by (simp add: checkDataValidity_def js_set_def truthyMcids_def List.map_filter_simps
        count_def digit_char_def show_nat_digit show_nat_step Let_def)
next
  show "isValid (checkDataValidity sessionList leads contacts transactions sourceData atoms)
       = (issues (checkDataValidity sessionList leads contacts transactions sourceData atoms) = [])"
    unfolding checkDataValidity_def Let_def by (simp del: append_is_Nil_conv)
qed

section \<open>The date-range filters keep the half-open window\<close>

text \<open>
  The comparison of the source is the lexicographic order on code-unit lists, and the
  date part of a stamp is what stands before its first space.
\<close>

lemma js_str_lt_iff: "js_str_lt a b \<longleftrightarrow> a < b"
proof (induction a b rule: js_str_lt.induct)
  case (4 x xs y ys)
  then show ?case
    by (auto simp: less_char_def)
qed simp_all

lemma js_str_ge_iff: "js_str_ge a b \<longleftrightarrow> b \<le> a"
  by (simp add: js_str_ge_def js_str_lt_iff not_less)

lemma split_on_first:
  "split_on c s = takeWhile (\<lambda>x. x \<noteq> c) s
       # (case dropWhile (\<lambda>x. x \<noteq> c) s of [] \<Rightarrow> [] | _ # r \<Rightarrow> split_on c r)"
  by (induction s) (auto split: list.splits)

lemma extractDatePart_takeWhile: "extractDatePart s = takeWhile (\<lambda>x. x \<noteq> CHR '' '') s"
  by (subst extractDatePart_def, subst split_on_first) simp

lemma window_filter:
  "filter (\<lambda>r. let d = extractDatePart (stamp r) in js_str_ge d startDate \<and> js_str_lt d endDate) xs
     = filter (\<lambda>r. startDate \<le> extractDatePart (stamp r) \<and> extractDatePart (stamp r) < endDate) xs"
  by (simp add: Let_def js_str_ge_iff js_str_lt_iff)

text \<open>
  Claim C7. Each of the five filters returns the records of its input, in their order,
  whose date \<open>d\<close> satisfies \<open>startDate \<le> d < endDate\<close> in the lexicographic order of
  strings; the date is the part of the stamp before the first space (the whole \<open>date\<close>
  field for source data). Hence a record dated exactly \<open>endDate\<close> is never kept, and a
  record dated exactly \<open>startDate\<close> is kept whenever the window is not empty
  (\<open>startDate < endDate\<close>).
\<close>

theorem date_range_filters_half_open:
  "filterSessionsByDateRange ss startDate endDate
     = filter (\<lambda>r. startDate \<le> extractDatePart (datetimeShifted r)
                  \<and> extractDatePart (datetimeShifted r) < endDate) ss
   \<and> filterLeadsByDateRange ls startDate endDate
     = filter (\<lambda>r. startDate \<le> extractDatePart (lead_datetimeCreatedShifted r)
                  \<and> extractDatePart (lead_datetimeCreatedShifted r) < endDate) ls
   \<and> filterContactsByDateRange cs startDate endDate
     = filter (\<lambda>r. startDate \<le> extractDatePart (contact_datetimeCreatedShifted r)
                  \<and> extractDatePart (contact_datetimeCreatedShifted r) < endDate) cs
   \<and> filterTransactionsByDateRange ts startDate endDate
     = filter (\<lambda>r. startDate \<le> extractDatePart (paymentDatetimeShifted r)
                  \<and> extractDatePart (paymentDatetimeShifted r) < endDate) ts
   \<and> filterSourceDataByDateRange ds startDate endDate
     = filter (\<lambda>r. startDate \<le> date r \<and> date r < endDate) ds
   \<and> extractDatePart stamp = takeWhile (\<lambda>x. x \<noteq> CHR '' '') stamp
   \<and> subseq (filterSessionsByDateRange ss startDate endDate) ss
   \<and> subseq (filterLeadsByDateRange ls startDate endDate) ls
   \<and> subseq (filterContactsByDateRange cs startDate endDate) cs
   \<and> subseq (filterTransactionsByDateRange ts startDate endDate) ts
   \<and> subseq (filterSourceDataByDateRange ds startDate endDate) ds
   \<and> (\<forall>r \<in> set ts. extractDatePart (paymentDatetimeShifted r) = endDate \<longrightarrow>
         r \<notin> set (filterTransactionsByDateRange ts startDate endDate))
   \<and> (\<forall>r \<in> set ds. date r = endDate \<longrightarrow> r \<notin> set (filterSourceDataByDateRange ds startDate endDate))
   \<and> (startDate < endDate \<longrightarrow>
        (\<forall>r \<in> set ts. extractDatePart (paymentDatetimeShifted r) = startDate \<longrightarrow>
           r \<in> set (filterTransactionsByDateRange ts startDate endDate))
        \<and> (\<forall>r \<in> set ds. date r = startDate \<longrightarrow>
              r \<in> set (filterSourceDataByDateRange ds startDate endDate)))"
proof -
  have s: "filterSessionsByDateRange ss startDate endDate
     = filter (\<lambda>r. startDate \<le> extractDatePart (datetimeShifted r)
                  \<and> extractDatePart (datetimeShifted r) < endDate) ss"
    unfolding filterSessionsByDateRange_def by (rule window_filter)
  have l: "filterLeadsByDateRange ls startDate endDate
     = filter (\<lambda>r. startDate \<le> extractDatePart (lead_datetimeCreatedShifted r)
                  \<and> extractDatePart (lead_datetimeCreatedShifted r) < endDate) ls"
    unfolding filterLeadsByDateRange_def by (rule window_filter)
  have c: "filterContactsByDateRange cs startDate endDate
     = filter (\<lambda>r. startDate \<le> extractDatePart (contact_datetimeCreatedShifted r)
                  \<and> extractDatePart (contact_datetimeCreatedShifted r) < endDate) cs"
    unfolding filterContactsByDateRange_def by (rule window_filter)
  have t: "filterTransactionsByDateRange ts startDate endDate
     = filter (\<lambda>r. startDate \<le> extractDatePart (paymentDatetimeShifted r)
                  \<and> extractDatePart (paymentDatetimeShifted r) < endDate) ts"
    unfolding filterTransactionsByDateRange_def by (rule window_filter)
  have d: "filterSourceDataByDateRange ds startDate endDate
     = filter (\<lambda>r. startDate \<le> date r \<and> date r < endDate) ds"
    by (simp add: filterSourceDataByDateRange_def js_str_ge_iff js_str_lt_iff)
  have sub: "subseq (filterSessionsByDateRange ss startDate endDate) ss"
      "subseq (filterLeadsByDateRange ls startDate endDate) ls"
      "subseq (filterContactsByDateRange cs startDate endDate) cs"
      "subseq (filterTransactionsByDateRange ts startDate endDate) ts"
      "subseq (filterSourceDataByDateRange ds startDate endDate) ds"
    unfolding s l c t d by simp_all
  have ex: "(\<forall>r \<in> set ts. extractDatePart (paymentDatetimeShifted r) = endDate \<longrightarrow>
         r \<notin> set (filterTransactionsByDateRange ts startDate endDate))"
      "(\<forall>r \<in> set ds. date r = endDate \<longrightarrow> r \<notin> set (filterSourceDataByDateRange ds startDate endDate))"
    unfolding t d by simp_all
  have inc: "startDate < endDate \<longrightarrow>
        (\<forall>r \<in> set ts. extractDatePart (paymentDatetimeShifted r) = startDate \<longrightarrow>
           r \<in> set (filterTransactionsByDateRange ts startDate endDate))
        \<and> (\<forall>r \<in> set ds. date r = startDate \<longrightarrow>
              r \<in> set (filterSourceDataByDateRange ds startDate endDate))"
    unfolding t d by simp
  show ?thesis
    by (intro conjI s l c t d extractDatePart_takeWhile sub ex inc)
qed

text \<open>
  A window from 2024-05-18 to 2024-06-17: the record stamped on the start date and the
  one stamped late on the day before the end date are kept, the one stamped on the end
  date and the one before the start are dropped.
\<close>

theorem date_range_filters_half_open_witness:
  "filterTransactionsByDateRange
     [tx_on ''2024-05-17 23:59:59'' 1, tx_on ''2024-05-18 00:00:00'' 2,
      tx_on ''2024-06-16 23:59:59'' 3, tx_on ''2024-06-17 00:00:00'' 4]
     ''2024-05-18'' ''2024-06-17''
     = [tx_on ''2024-05-18 00:00:00'' 2, tx_on ''2024-06-16 23:59:59'' 3]
   \<and> filterSourceDataByDateRange
       [sd_on ''2024-05-18'' 10, sd_on ''2024-06-17'' 20] ''2024-05-18'' ''2024-06-17''
     = [sd_on ''2024-05-18'' 10]"
proof -
  have lt: "''2024-05-18'' < ''2024-06-17''"
    unfolding js_str_lt_iff [symmetric] by simp
  let ?ts = "[tx_on ''2024-05-17 23:59:59'' 1, tx_on ''2024-05-18 00:00:00'' 2,
      tx_on ''2024-06-16 23:59:59'' 3, tx_on ''2024-06-17 00:00:00'' 4]"
  let ?ds = "[sd_on ''2024-05-18'' 10, sd_on ''2024-06-17'' 20]"
  from date_range_filters_half_open [of "[]" "''2024-05-18''" "''2024-06-17''" "[]" "[]" ?ts ?ds "[]"] lt
  have "tx_on ''2024-05-18 00:00:00'' 2
          \<in> set (filterTransactionsByDateRange ?ts ''2024-05-18'' ''2024-06-17'')"
    and "tx_on ''2024-06-17 00:00:00'' 4
          \<notin> set (filterTransactionsByDateRange ?ts ''2024-05-18'' ''2024-06-17'')"
    by (simp_all add: tx_on_def extractDatePart_def)
  then show ?thesis
    by (simp add: filterTransactionsByDateRange_def filterSourceDataByDateRange_def
          extractDatePart_def js_str_ge_def tx_on_def sd_on_def Let_def)
qed

section \<open>The date arithmetic of the standard\<close>

text \<open>
  Facts about the \<open>Date\<close> functions as modelled: the year of a time value is the
  standard's largest year that has begun, \<open>MakeDay\<close> and the three field functions are
  inverse to each other, and parsing and printing a date of the years 0 to 9999 agree.
\<close>


lemma div_lower: "0 < b \<Longrightarrow> b * (x div b) \<le> (x::int)"
  using mult_div_mod_eq [of b x] pos_mod_sign [of b x] by linarith

lemma div_upper: "0 < b \<Longrightarrow> (x::int) < b * (x div b) + b"
  using mult_div_mod_eq [of b x] pos_mod_bound [of b x] by linarith

lemma succ_div:
  fixes x b :: int
  assumes "0 < b"
  shows "(x + 1) div b = x div b + (if (x + 1) mod b = 0 then 1 else 0)"
proof (cases "x mod b = b - 1")
  case True
  have x: "x + 1 = b * (x div b + 1) + 0"
    using mult_div_mod_eq [of b x] True by (simp add: algebra_simps)
  have "(x + 1) div b = x div b + 1"
    by (rule int_div_pos_eq [OF x]) (use assms in simp_all)
  moreover have "(x + 1) mod b = 0"
    by (rule int_mod_pos_eq [OF x]) (use assms in simp_all)
  ultimately show ?thesis by simp
next
  case False
  have r: "0 \<le> x mod b + 1" "x mod b + 1 < b"
    using pos_mod_sign [OF assms, of x] pos_mod_bound [OF assms, of x] False by linarith+
  have x: "x + 1 = b * (x div b) + (x mod b + 1)"
    using mult_div_mod_eq [of b x] by simp
  have "(x + 1) div b = x div b"
    by (rule int_div_pos_eq [OF x r])
  moreover have "(x + 1) mod b = x mod b + 1"
    by (rule int_mod_pos_eq [OF x r])
  ultimately show ?thesis using r pos_mod_sign [OF assms, of x] by simp
qed

lemma mod_shift: "(y - k * b) mod b = y mod b" for y :: int
  by algebra

lemma step4: "(y + 1 - 1969) div 4 = (y - 1969) div 4 + (if y mod 4 = 0 then 1 else 0)" for y :: int
  using succ_div [of 4 "y - 1969"] mod_shift [of y 492 4] by (simp add: algebra_simps)

lemma step100: "(y + 1 - 1901) div 100 = (y - 1901) div 100 + (if y mod 100 = 0 then 1 else 0)" for y :: int
  using succ_div [of 100 "y - 1901"] mod_shift [of y 19 100] by (simp add: algebra_simps)

lemma step400: "(y + 1 - 1601) div 400 = (y - 1601) div 400 + (if y mod 400 = 0 then 1 else 0)" for y :: int
  using succ_div [of 400 "y - 1601"] mod_shift [of y 4 400] by (simp add: algebra_simps)

lemma mod_100_4: "y mod 100 = 0 \<Longrightarrow> y mod 4 = 0" for y :: int
  by auto

lemma mod_400_100: "y mod 400 = 0 \<Longrightarrow> y mod 100 = 0" for y :: int
  by auto

lemma DayFromYear_step: "DayFromYear (y + 1) = DayFromYear y + DaysInYear y"
  unfolding DayFromYear_def DaysInYear_def step4 step100 step400
  using mod_100_4 [of y] mod_400_100 [of y] by auto


lemma DayFromYear_bounds:
  shows "146097 * y \<le> 400 * DayFromYear y + 287811596"
    and "400 * DayFromYear y + 287810501 \<le> 146097 * y"
  unfolding DayFromYear_def
  using div_lower [of 4 "y - 1969"] div_upper [of 4 "y - 1969"]
        div_lower [of 100 "y - 1901"] div_upper [of 100 "y - 1901"]
        div_lower [of 400 "y - 1601"] div_upper [of 400 "y - 1601"]
  by simp_all


lemma DaysInYear_range: "DaysInYear y = 365 \<or> DaysInYear y = 366"
  by (simp add: DaysInYear_def)

lemma DayFromYear_strict_mono: "y < y' \<Longrightarrow> DayFromYear y < DayFromYear y'"
  using DayFromYear_bounds [of y] DayFromYear_bounds [of y'] by linarith

lemma YearFromTime_bracket:
  "DayFromYear (YearFromTime t) \<le> Day t \<and> Day t < DayFromYear (YearFromTime t + 1)"
proof -
  define d where "d = Day t"
  define q where "q = (d * 400) div 146097"
  have q: "146097 * q \<le> d * 400" "d * 400 < 146097 * q + 146097"
    unfolding q_def using div_lower [of 146097 "d * 400"] div_upper [of 146097 "d * 400"] by simp_all
  have e1: "146097 * (1970 + q - 1) = 146097 * q + 287664993" by simp
  have e2: "146097 * (1970 + q + 2) = 146097 * q + 288103284" by simp
  have lo: "DayFromYear (1970 + q - 1) \<le> d"
    using DayFromYear_bounds [of "1970 + q - 1"] q unfolding e1 by linarith
  have hi: "d < DayFromYear (1970 + q + 2)"
    using DayFromYear_bounds [of "1970 + q + 2"] q unfolding e2 by linarith
  have unf: "YearFromTime t =
      (if DayFromYear (1970 + q + 1) \<le> d then 1970 + q + 1
       else if DayFromYear (1970 + q) \<le> d then 1970 + q else 1970 + q - 1)"
    by (simp add: YearFromTime_def Let_def d_def q_def)
  show ?thesis
    unfolding unf d_def [symmetric]
    using lo hi by (auto simp: algebra_simps)
qed

lemma YearFromTime_unique:
  assumes "DayFromYear y \<le> Day t" "Day t < DayFromYear (y + 1)"
  shows "YearFromTime t = y"
proof (rule ccontr)
  assume ne: "YearFromTime t \<noteq> y"
  from YearFromTime_bracket [of t]
  have b: "DayFromYear (YearFromTime t) \<le> Day t" "Day t < DayFromYear (YearFromTime t + 1)"
    by simp_all
  show False
  proof (cases "YearFromTime t < y")
    case True
    then have "YearFromTime t + 1 \<le> y" by simp
    then have "DayFromYear (YearFromTime t + 1) \<le> DayFromYear y"
      using DayFromYear_strict_mono [of "YearFromTime t + 1" y] by (cases "YearFromTime t + 1 = y") auto
    with b assms show False by linarith
  next
    case False
    with ne have "y + 1 \<le> YearFromTime t" by simp
    then have "DayFromYear (y + 1) \<le> DayFromYear (YearFromTime t)"
      using DayFromYear_strict_mono [of "y + 1" "YearFromTime t"] by (cases "y + 1 = YearFromTime t") auto
    with b assms show False by linarith
  qed
qed

text \<open>The year, in the standard's wording: the largest \<open>y\<close> with \<open>TimeFromYear(y) \<le> t\<close>.\<close>

lemma Day_TimeWithinDay: "t = msPerDay * Day t + TimeWithinDay t \<and> 0 \<le> TimeWithinDay t \<and> TimeWithinDay t < msPerDay"
  by (simp add: Day_def TimeWithinDay_def msPerDay_def)

lemma YearFromTime_spec:
  "TimeFromYear (YearFromTime t) \<le> t \<and> t < TimeFromYear (YearFromTime t + 1)
   \<and> (\<forall>y. TimeFromYear y \<le> t \<longrightarrow> y \<le> YearFromTime t)"
proof -
  have d: "t = msPerDay * Day t + TimeWithinDay t" "0 \<le> TimeWithinDay t" "TimeWithinDay t < msPerDay"
    using Day_TimeWithinDay [of t] by simp_all
  have pos: "0 < msPerDay" by (simp add: msPerDay_def)
  from YearFromTime_bracket [of t]
  have b: "DayFromYear (YearFromTime t) \<le> Day t" "Day t + 1 \<le> DayFromYear (YearFromTime t + 1)"
    by simp_all
  have lo: "msPerDay * DayFromYear (YearFromTime t) \<le> msPerDay * Day t"
    using b(1) pos by simp
  have hi: "msPerDay * (Day t + 1) \<le> msPerDay * DayFromYear (YearFromTime t + 1)"
    by (rule mult_left_mono) (use b(2) pos in simp_all)
  have 1: "TimeFromYear (YearFromTime t) \<le> t"
    unfolding TimeFromYear_def using lo d by linarith
  have 2: "t < TimeFromYear (YearFromTime t + 1)"
    unfolding TimeFromYear_def using hi d by (simp add: distrib_left)
  have 3: "\<forall>y. TimeFromYear y \<le> t \<longrightarrow> y \<le> YearFromTime t"
  proof (intro allI impI, rule ccontr)
    fix y assume y: "TimeFromYear y \<le> t" and "\<not> y \<le> YearFromTime t"
    then have "YearFromTime t + 1 \<le> y" by simp
    then have "DayFromYear (YearFromTime t + 1) \<le> DayFromYear y"
      using DayFromYear_strict_mono [of "YearFromTime t + 1" y] by (cases "YearFromTime t + 1 = y") auto
    then have "msPerDay * DayFromYear (YearFromTime t + 1) \<le> msPerDay * DayFromYear y"
      using pos by simp
    with 2 y show False by (simp add: TimeFromYear_def)
  qed
  from 1 2 3 show ?thesis by blast
qed


lemma DayWithinYear_range:
  "0 \<le> DayWithinYear t \<and> DayWithinYear t < DaysInYear (YearFromTime t)"
  using YearFromTime_bracket [of t] DayFromYear_step [of "YearFromTime t"]
  by (simp add: DayWithinYear_def)

lemma DayWithinYear_leap:
  "DayWithinYear t < 365 + InLeapYear t"
  using DayWithinYear_range [of t] DaysInYear_range [of "YearFromTime t"]
  by (auto simp: InLeapYear_def)

lemma MonthFromTime_range: "0 \<le> MonthFromTime t \<and> MonthFromTime t \<le> 11"
  by (simp add: MonthFromTime_def Let_def)

lemma DateFromTime_decompose:
  "DateFromTime t = DayWithinYear t - monthStart (InLeapYear t) (MonthFromTime t) + 1"
  by (simp add: DateFromTime_def MonthFromTime_def monthStart_def Let_def)

lemma MakeDay_in_year:
  "0 \<le> m \<Longrightarrow> m \<le> 11 \<Longrightarrow>
   MakeDay y m dt = DayFromYear y + monthStart (if DaysInYear y = 366 then 1 else 0) m + dt - 1"
  by (simp add: MakeDay_def Let_def div_pos_pos_trivial mod_pos_pos_trivial)

lemma MakeDay_components:
  "MakeDay (YearFromTime t) (MonthFromTime t) (DateFromTime t + k) = Day t + k"
  using MonthFromTime_range [of t]
  by (simp add: MakeDay_in_year DateFromTime_decompose InLeapYear_def DayWithinYear_def)

lemma ToIntegerOrInfinity_int: "ToIntegerOrInfinity (real_of_int k) = k"
  by (simp add: ToIntegerOrInfinity_def)

lemma setDate_fixedZone:
  "setDate (fixedZone off) (Some t0)
      (js_sub (getDate (fixedZone off) (Some t0)) (Num (real_of_int n)))
     = TimeClip (t0 - n * msPerDay)"
proof -
  let ?t = "t0 + off"
  have arg: "js_sub (getDate (fixedZone off) (Some t0)) (Num (real_of_int n))
      = Num (real_of_int (DateFromTime ?t - n))"
    by (simp add: getDate_def js_sub_def LocalTime_def fixedZone_def)
  have day: "MakeDay (YearFromTime ?t) (MonthFromTime ?t) (DateFromTime ?t - n) = Day ?t - n"
    using MakeDay_components [of ?t "- n"] by simp
  have t: "?t = msPerDay * Day ?t + TimeWithinDay ?t"
    using Day_TimeWithinDay [of ?t] by simp
  have "MakeDate (Day ?t - n) (TimeWithinDay ?t) - off = t0 - n * msPerDay"
    unfolding MakeDate_def using t by (simp add: algebra_simps)
  then show ?thesis
    unfolding arg
    by (simp add: setDate_def LocalTime_def UTC_def fixedZone_def ToIntegerOrInfinity_int day Let_def
          del: of_int_diff)
qed


lemma month_cases:
  "0 \<le> (m::int) \<Longrightarrow> m \<le> 11 \<Longrightarrow>
   m = 0 \<or> m = 1 \<or> m = 2 \<or> m = 3 \<or> m = 4 \<or> m = 5 \<or> m = 6 \<or> m = 7 \<or> m = 8 \<or> m = 9
   \<or> m = 10 \<or> m = 11"
  by presburger

lemma monthStart_next:
  assumes "1 \<le> m" "m \<le> 11"
  shows "monthStart l m = monthStart l (m - 1) + (if m = 2 then 28 + l
           else if m = 4 \<or> m = 6 \<or> m = 9 \<or> m = 11 then 30 else 31)"
  using month_cases [of m] assms
  by (auto simp: monthStart_def)


lemma month_of_offset_at:
  assumes "l = 0 \<or> l = 1" "1 \<le> d"
    and "d \<le> (if m0 + 1 = 2 then 28 + l
               else if m0 + 1 = 4 \<or> m0 + 1 = 6 \<or> m0 + 1 = 9 \<or> m0 + 1 = 11 then 30 else 31)"
    and "m0 = 0 \<or> m0 = 1 \<or> m0 = 2 \<or> m0 = 3 \<or> m0 = 4 \<or> m0 = 5 \<or> m0 = 6 \<or> m0 = 7 \<or> m0 = 8
         \<or> m0 = 9 \<or> m0 = 10 \<or> m0 = 11"
  shows "(let dd = monthStart l m0 + d - 1
          in if dd < 31 then 0
             else if dd < 59 + l then 1
             else if dd < 90 + l then 2
             else if dd < 120 + l then 3
             else if dd < 151 + l then 4
             else if dd < 181 + l then 5
             else if dd < 212 + l then 6
             else if dd < 243 + l then 7
             else if dd < 273 + l then 8
             else if dd < 304 + l then 9
             else if dd < 334 + l then 10
             else 11) = m0
         \<and> 0 \<le> monthStart l m0 + d - 1 \<and> monthStart l m0 + d - 1 < 365 + l"
  using assms(4,1,2,3)
  by (elim disjE) (simp_all add: monthStart_def Let_def)

lemma month_of_offset:
  assumes "l = 0 \<or> l = 1" "0 \<le> m0" "m0 \<le> 11" "1 \<le> d"
    and "d \<le> (if m0 + 1 = 2 then 28 + l
               else if m0 + 1 = 4 \<or> m0 + 1 = 6 \<or> m0 + 1 = 9 \<or> m0 + 1 = 11 then 30 else 31)"
  shows "(let dd = monthStart l m0 + d - 1
          in if dd < 31 then 0
             else if dd < 59 + l then 1
             else if dd < 90 + l then 2
             else if dd < 120 + l then 3
             else if dd < 151 + l then 4
             else if dd < 181 + l then 5
             else if dd < 212 + l then 6
             else if dd < 243 + l then 7
             else if dd < 273 + l then 8
             else if dd < 304 + l then 9
             else if dd < 334 + l then 10
             else 11) = m0
         \<and> 0 \<le> monthStart l m0 + d - 1 \<and> monthStart l m0 + d - 1 < 365 + l"
  by (rule month_of_offset_at [OF assms(1,4,5) month_cases [OF assms(2,3)]])


lemma fields_of_day:
  assumes m: "0 \<le> m0" "m0 \<le> 11" and d: "1 \<le> d" "d \<le> daysInMonth y (m0 + 1)"
    and day: "Day t = MakeDay y m0 d"
  shows "YearFromTime t = y \<and> MonthFromTime t = m0 \<and> DateFromTime t = d"
proof -
  define l :: int where "l = (if DaysInYear y = 366 then 1 else 0)"
  have l: "l = 0 \<or> l = 1" by (simp add: l_def)
  have dl: "DaysInYear y = 365 + l"
    using DaysInYear_range [of y] by (auto simp: l_def)
  have dim: "d \<le> (if m0 + 1 = 2 then 28 + l
               else if m0 + 1 = 4 \<or> m0 + 1 = 6 \<or> m0 + 1 = 9 \<or> m0 + 1 = 11 then 30 else 31)"
    using d(2) by (auto simp: daysInMonth_def l_def split: if_splits)
  note mo = month_of_offset [OF l m d(1) dim]
  have dayk: "Day t = DayFromYear y + (monthStart l m0 + d - 1)"
    using day m by (simp add: MakeDay_in_year l_def)
  have yr: "YearFromTime t = y"
    by (rule YearFromTime_unique) (use mo dayk dl DayFromYear_step [of y] in simp_all)
  have dwy: "DayWithinYear t = monthStart l m0 + d - 1"
    by (simp add: DayWithinYear_def yr dayk)
  have leap: "InLeapYear t = l"
    by (simp add: InLeapYear_def yr l_def)
  have mon: "MonthFromTime t = m0"
    unfolding MonthFromTime_def dwy leap using mo by simp
  have "DateFromTime t = d"
    by (simp add: DateFromTime_decompose dwy leap mon)
  with yr mon show ?thesis by simp
qed

lemma previousDay_step:
  assumes v: "validDate (y, m, d)" and p: "previousDay (y, m, d) = (y', m', d')"
  shows "validDate (y', m', d') \<and> MakeDay y' (m' - 1) d' = MakeDay y (m - 1) d - 1"
proof -
  from v have m: "1 \<le> m" "m \<le> 12" and d: "1 \<le> d" "d \<le> daysInMonth y m"
    by (simp_all add: validDate_def)
  show ?thesis
  proof (cases "1 < d")
    case True
    with p have "y' = y" "m' = m" "d' = d - 1" by (auto simp: previousDay_def)
    with m d True show ?thesis
      by (simp add: validDate_def MakeDay_in_year)
  next
    case d1: False
    show ?thesis
    proof (cases "1 < m")
      case True
      with p d1 have e: "y' = y" "m' = m - 1" "d' = daysInMonth y (m - 1)"
        by (auto simp: previousDay_def)
      have pos: "1 \<le> daysInMonth y (m - 1)" by (simp add: daysInMonth_def)
      have "monthStart (if DaysInYear y = 366 then 1 else 0) (m - 1)
            = monthStart (if DaysInYear y = 366 then 1 else 0) (m - 1 - 1) + daysInMonth y (m - 1)"
        using monthStart_next [of "m - 1" "if DaysInYear y = 366 then 1 else 0"] True m
        by (auto simp: daysInMonth_def)
      with e m d d1 True pos show ?thesis
        by (simp add: validDate_def MakeDay_in_year)
    next
      case False
      with p d1 have e: "y' = y - 1" "m' = 12" "d' = 31"
        by (auto simp: previousDay_def)
      from False m d d1 have md: "m = 1" "d = 1" by simp_all
      have "DayFromYear y = DayFromYear (y - 1) + DaysInYear (y - 1)"
        using DayFromYear_step [of "y - 1"] by simp
      with e md show ?thesis
        using DaysInYear_range [of "y - 1"]
        by (auto simp: validDate_def MakeDay_in_year daysInMonth_def monthStart_def)
    qed
  qed
qed

lemma previousDay_iterate:
  "validDate c \<Longrightarrow> (previousDay ^^ n) c = (y', m', d') \<Longrightarrow>
   validDate (y', m', d')
   \<and> MakeDay y' (m' - 1) d' = MakeDay (fst c) (fst (snd c) - 1) (snd (snd c)) - int n"
proof (induction n arbitrary: y' m' d')
  case 0
  then show ?case by auto
next
  case (Suc n)
  obtain y1 m1 d1 where c1: "(previousDay ^^ n) c = (y1, m1, d1)"
    by (cases "(previousDay ^^ n) c") auto
  from Suc.IH [OF Suc.prems(1) c1]
  have v1: "validDate (y1, m1, d1)"
    and n1: "MakeDay y1 (m1 - 1) d1 = MakeDay (fst c) (fst (snd c) - 1) (snd (snd c)) - int n"
    by simp_all
  from Suc.prems(2) c1 have "previousDay (y1, m1, d1) = (y', m', d')" by simp
  from previousDay_step [OF v1 this] n1 show ?case by simp
qed


lemma digit_cases: "d < 10 \<Longrightarrow> d = 0 \<or> d = 1 \<or> d = 2 \<or> d = 3 \<or> d = 4 \<or> d = 5 \<or> d = 6 \<or> d = 7 \<or> d = 8 \<or> d = (9::nat)"
  by presburger

lemma digit_char_facts:
  assumes "d < 10"
  shows "digit_val (digit_char d) = Some d \<and> digit_char d \<noteq> CHR ''T'' \<and> digit_char d \<noteq> CHR ''-''"
  using digit_cases [OF assms]
  by (elim disjE) (simp_all add: digit_char_def digit_val_def)

lemma show_nat_nonempty: "show_nat n \<noteq> []"
  by (subst show_nat.simps) simp

lemma show_nat_chars: "c \<in> set (show_nat n) \<Longrightarrow> c \<noteq> CHR ''T'' \<and> c \<noteq> CHR ''-''"
proof (induction n rule: show_nat.induct)
  case (1 n)
  show ?case
  proof (cases "n < 10")
    case True
    with "1.prems" digit_char_facts [of n] show ?thesis
      by (subst (asm) show_nat.simps) simp
  next
    case False
    with "1.prems" have "c \<in> set (show_nat (n div 10)) \<or> c = digit_char (n mod 10)"
      by (subst (asm) show_nat.simps) auto
    with "1.IH" False digit_char_facts [of "n mod 10"] show ?thesis by auto
  qed
qed

lemma digits_val_snoc:
  "xs \<noteq> [] \<Longrightarrow> digits_val xs = Some a \<Longrightarrow> digit_val c = Some b \<Longrightarrow>
   digits_val (xs @ [c]) = Some (a * 10 + b)"
proof (induction xs arbitrary: a rule: digits_val.induct)
  case 1
  then show ?case by simp
next
  case (2 x)
  then show ?case by simp
next
  case (3 x y ys)
  from "3.prems"(2) obtain dx r where dx: "digit_val x = Some dx" and r: "digits_val (y # ys) = Some r"
    and a: "a = dx * 10 ^ length (y # ys) + r"
    by (auto split: option.splits)
  from "3.IH" [OF _ r "3.prems"(3)] have "digits_val ((y # ys) @ [c]) = Some (r * 10 + b)" by simp
  with dx a show ?case by (simp add: algebra_simps)
qed

lemma digits_val_show_nat: "digits_val (show_nat n) = Some n"
proof (induction n rule: show_nat.induct)
  case (1 n)
  show ?case
  proof (cases "n < 10")
    case True
    then show ?thesis
      using digit_char_facts [of n] by (subst show_nat.simps) simp
  next
    case False
    have "digits_val (show_nat (n div 10) @ [digit_char (n mod 10)]) = Some (n div 10 * 10 + n mod 10)"
      by (rule digits_val_snoc [OF show_nat_nonempty "1.IH" [OF False]])
         (use digit_char_facts [of "n mod 10"] in simp)
    with False show ?thesis by (subst show_nat.simps) simp
  qed
qed

lemma length_show_nat: "0 < k \<Longrightarrow> n < 10 ^ k \<Longrightarrow> length (show_nat n) \<le> k"
proof (induction n arbitrary: k rule: show_nat.induct)
  case (1 n)
  show ?case
  proof (cases "n < 10")
    case True
    with "1.prems" show ?thesis by (subst show_nat.simps) simp
  next
    case False
    obtain j where k: "k = Suc j" using "1.prems"(1) by (cases k) auto
    have j: "0 < j"
    proof (rule ccontr)
      assume "\<not> 0 < j"
      with k "1.prems"(2) False show False by simp
    qed
    have "n div 10 < 10 ^ j"
      using "1.prems"(2) k by (simp add: less_mult_imp_div_less)
    from "1.IH" [OF False j this] k False show ?thesis
      by (subst show_nat.simps) simp
  qed
qed

lemma digits_val_zero: "s \<noteq> [] \<Longrightarrow> digits_val (CHR ''0'' # s) = digits_val s"
  by (cases s) (auto simp: digit_val_def split: option.splits)

lemma digits_val_zeros: "s \<noteq> [] \<Longrightarrow> digits_val (replicate k CHR ''0'' @ s) = digits_val s"
  by (induction k) (simp_all add: digits_val_zero)

lemma pad_facts:
  assumes "0 < w" "n < 10 ^ w"
  shows "length (pad w n) = w" "digits_val (pad w n) = Some n"
    "c \<in> set (pad w n) \<Longrightarrow> c \<noteq> CHR ''T'' \<and> c \<noteq> CHR ''-''"
proof -
  from length_show_nat [OF assms] show "length (pad w n) = w"
    by (simp add: pad_def)
  show "digits_val (pad w n) = Some n"
    by (simp add: pad_def digits_val_zeros show_nat_nonempty digits_val_show_nat)
  show "c \<in> set (pad w n) \<Longrightarrow> c \<noteq> CHR ''T'' \<and> c \<noteq> CHR ''-''"
    using show_nat_chars [of c n] by (auto simp: pad_def)
qed


lemma DayFromYear_mono: "y \<le> y' \<Longrightarrow> DayFromYear y \<le> DayFromYear y'"
  using DayFromYear_strict_mono [of y y'] by (cases "y = y'") auto

lemma day_in_year:
  assumes "validDate (y, m, d)"
  shows "DayFromYear y \<le> MakeDay y (m - 1) d \<and> MakeDay y (m - 1) d < DayFromYear (y + 1)"
proof -
  from assms have m: "0 \<le> m - 1" "m - 1 \<le> 11" and d: "1 \<le> d" "d \<le> daysInMonth y m"
    by (simp_all add: validDate_def)
  define l :: int where "l = (if DaysInYear y = 366 then 1 else 0)"
  have l: "l = 0 \<or> l = 1" by (simp add: l_def)
  have dl: "DaysInYear y = 365 + l"
    using DaysInYear_range [of y] by (auto simp: l_def)
  have dim: "d \<le> (if m - 1 + 1 = 2 then 28 + l
               else if m - 1 + 1 = 4 \<or> m - 1 + 1 = 6 \<or> m - 1 + 1 = 9 \<or> m - 1 + 1 = 11 then 30 else 31)"
    using d(2) by (auto simp: daysInMonth_def l_def split: if_splits)
  from month_of_offset [OF l m d(1) dim]
  have k: "0 \<le> monthStart l (m - 1) + d - 1" "monthStart l (m - 1) + d - 1 < 365 + l" by simp_all
  have md: "MakeDay y (m - 1) d = DayFromYear y + monthStart l (m - 1) + d - 1"
    using m by (simp add: MakeDay_in_year l_def)
  show ?thesis
    unfolding md DayFromYear_step dl using k by linarith
qed

lemma DayFromYear_0: "DayFromYear 0 = - 719528"
  by (simp add: DayFromYear_def)

lemma DayFromYear_10000: "DayFromYear 10000 = 2932897"
  by (simp add: DayFromYear_def)

lemma TimeClip_in_range:
  assumes "validDate (y, m, d)" "0 \<le> y" "y \<le> 9999"
  shows "TimeClip (MakeDate (MakeDay y (m - 1) d) 0) = Some (MakeDate (MakeDay y (m - 1) d) 0)"
proof -
  from day_in_year [OF assms(1)] DayFromYear_mono [of 0 y] DayFromYear_mono [of "y + 1" 10000] assms
  have "- 719528 \<le> MakeDay y (m - 1) d" "MakeDay y (m - 1) d < 2932897"
    by (simp_all add: DayFromYear_0 DayFromYear_10000)
  then show ?thesis
    by (simp add: TimeClip_def MakeDate_def msPerDay_def)
qed

lemma length_four: "length (s :: 'a list) = 4 \<Longrightarrow> \<exists>a b c d. s = [a, b, c, d]"
  by (simp add: numeral_eq_Suc length_Suc_conv) blast

lemma length_two: "length (s :: 'a list) = 2 \<Longrightarrow> \<exists>a b. s = [a, b]"
  by (simp add: numeral_eq_Suc length_Suc_conv) blast

lemma date_shape:
  assumes "length Y = 4" "length M = 2" "length D = 2"
  shows "length (Y @ ''-'' @ M @ ''-'' @ D) = 10 \<and> (Y @ ''-'' @ M @ ''-'' @ D) ! 4 = CHR ''-''
    \<and> (Y @ ''-'' @ M @ ''-'' @ D) ! 7 = CHR ''-'' \<and> take 4 (Y @ ''-'' @ M @ ''-'' @ D) = Y
    \<and> take 2 (drop 5 (Y @ ''-'' @ M @ ''-'' @ D)) = M \<and> drop 8 (Y @ ''-'' @ M @ ''-'' @ D) = D"
proof -
  from length_four [OF assms(1)] length_two [OF assms(2)] length_two [OF assms(3)]
  obtain a b c d e f g h where "Y = [a, b, c, d]" "M = [e, f]" "D = [g, h]" by blast
  then show ?thesis by simp
qed

lemma Date_parse_isoDate:
  assumes "0 \<le> y" "y \<le> 9999" "1 \<le> m" "m \<le> 12" "1 \<le> d" "d \<le> 31"
  shows "Date_parse (isoDate (y, m, d)) = TimeClip (MakeDate (MakeDay y (m - 1) d) 0)"
proof -
  have y: "nat y < 10 ^ 4" and m: "nat m < 10 ^ 2" and d: "nat d < 10 ^ 2"
    using assms by simp_all
  note py = pad_facts(1,2) [OF _ y] and pm = pad_facts(1,2) [OF _ m] and pd = pad_facts(1,2) [OF _ d]
  have sh: "length (pad 4 (nat y)) = 4" "length (pad 2 (nat m)) = 2" "length (pad 2 (nat d)) = 2"
    using py(1) pm(1) pd(1) by simp_all
  define S where "S = pad 4 (nat y) @ ''-'' @ pad 2 (nat m) @ ''-'' @ pad 2 (nat d)"
  from date_shape [OF sh]
  have shape: "length S = 10" "S ! 4 = CHR ''-''" "S ! 7 = CHR ''-''" "take 4 S = pad 4 (nat y)"
    "take 2 (drop 5 S) = pad 2 (nat m)" "drop 8 S = pad 2 (nat d)"
    unfolding S_def by blast+
  have iso: "isoDate (y, m, d) = S"
    by (simp add: isoDate_def S_def)
  have nat: "1 \<le> nat m \<and> nat m \<le> 12 \<and> 1 \<le> nat d \<and> nat d \<le> 31"
    "int (nat y) = y" "int (nat m) = m" "int (nat d) = d"
    using assms by auto
  show ?thesis
    unfolding Date_parse_def iso
    by (simp only: shape py(2) pm(2) pd(2) nat option.case prod.case if_True simp_thms)
qed

lemma split_on_first_piece:
  "c \<notin> set xs \<Longrightarrow> split_on c (xs @ c # rest) = xs # split_on c rest"
  by (induction xs) auto

lemma pad_zero: "pad 2 0 = ''00''" "pad 3 0 = ''000''"
  by (simp_all add: pad_def show_nat_digit show_nat_step digit_char_def numeral_2_eq_2 numeral_3_eq_3)

lemma toISOString_midnight:
  assumes v: "validDate (y, m, d)" and y: "0 \<le> y" "y \<le> 9999"
  shows "toISOString (Some (MakeDate (MakeDay y (m - 1) d) 0))
           = Inr (isoDate (y, m, d) @ ''T00:00:00.000Z'')"
proof -
  let ?t = "MakeDate (MakeDay y (m - 1) d) 0"
  from v have m: "0 \<le> m - 1" "m - 1 \<le> 11" and d: "1 \<le> d" "d \<le> daysInMonth y (m - 1 + 1)"
    by (simp_all add: validDate_def)
  have day: "Day ?t = MakeDay y (m - 1) d" and tod: "TimeWithinDay ?t = 0"
    by (simp_all add: MakeDate_def Day_def TimeWithinDay_def msPerDay_def)
  from fields_of_day [OF m d day]
  have f: "YearFromTime ?t = y" "MonthFromTime ?t = m - 1" "DateFromTime ?t = d" by simp_all
  show ?thesis
    using y by (simp add: toISOString_def f tod isoDate_def pad_zero Let_def)
qed

lemma isoDate_no_T:
  assumes "validDate (y, m, d)" "0 \<le> y" "y \<le> 9999"
  shows "CHR ''T'' \<notin> set (isoDate (y, m, d))"
proof -
  from assms(1) have md: "1 \<le> m" "m \<le> 12" "1 \<le> d" "d \<le> 31"
    by (auto simp: validDate_def daysInMonth_def split: if_splits)
  have y: "nat y < 10 ^ 4" and m: "nat m < 10 ^ 2" and d: "nat d < 10 ^ 2"
    using assms md by simp_all
  from pad_facts(3) [OF _ y, of "CHR ''T''"] pad_facts(3) [OF _ m, of "CHR ''T''"]
       pad_facts(3) [OF _ d, of "CHR ''T''"]
  show ?thesis by (auto simp: isoDate_def)
qed

text \<open>
  In a zone whose offset from UTC never changes, \<open>calculatePreviousPeriodStartDate\<close>
  is calendar-correct: for a valid date of the years 0 to 9999 and a lookback of \<open>n\<close>
  days that does not lead before the year 0, it returns the date reached by going to
  the previous day \<open>n\<close> times, written \<open>YYYY-MM-DD\<close>.
\<close>

lemma previous_period_start_fixed_zone:
  assumes v: "validDate (y, m, d)" and y: "0 \<le> y" "y \<le> 9999"
    and it: "(previousDay ^^ n) (y, m, d) = (y', m', d')" and y': "0 \<le> y'"
  shows "calculatePreviousPeriodStartDate (fixedZone off) (isoDate (y, m, d)) (Some (Num (real n)))
           = Inr (isoDate (y', m', d'))"
proof -
  let ?t0 = "MakeDate (MakeDay y (m - 1) d) 0"
  let ?t1 = "MakeDate (MakeDay y' (m' - 1) d') 0"
  from v have md: "1 \<le> m" "m \<le> 12" "1 \<le> d" "d \<le> 31"
    by (auto simp: validDate_def daysInMonth_def split: if_splits)
  from previousDay_iterate [OF v it]
  have v': "validDate (y', m', d')" and day': "MakeDay y' (m' - 1) d' = MakeDay y (m - 1) d - int n"
    by simp_all
  have le: "y' \<le> y"
  proof (rule ccontr)
    assume "\<not> y' \<le> y"
    then have "DayFromYear (y + 1) \<le> DayFromYear y'"
      by (intro DayFromYear_mono) simp
    with day_in_year [OF v] day_in_year [OF v'] day' show False by linarith
  qed
  have parse: "Date_parse (isoDate (y, m, d)) = Some ?t0"
    using Date_parse_isoDate [OF y md] TimeClip_in_range [OF v y] by simp
  have t1: "?t0 - int n * msPerDay = ?t1"
    by (simp add: MakeDate_def day' algebra_simps)
  have clip: "TimeClip ?t1 = Some ?t1"
    by (rule TimeClip_in_range [OF v' y']) (use le y in simp)
  have set: "setDate (fixedZone off) (Some ?t0)
      (js_sub (getDate (fixedZone off) (Some ?t0)) (Num (real n))) = Some ?t1"
    using setDate_fixedZone [of off ?t0 "int n"] by (simp add: t1 clip)
  have y'9: "y' \<le> 9999" using le y by simp
  have iso: "toISOString (Some ?t1) = Inr (isoDate (y', m', d') @ ''T00:00:00.000Z'')"
    by (rule toISOString_midnight [OF v' y' y'9])
  have piece: "split_on CHR ''T'' (isoDate (y', m', d') @ ''T00:00:00.000Z'')
       = isoDate (y', m', d') # split_on CHR ''T'' ''00:00:00.000Z''"
    using split_on_first_piece [OF isoDate_no_T [OF v' y' y'9], of "''00:00:00.000Z''"] by simp
  show ?thesis
    unfolding calculatePreviousPeriodStartDate_def
    by (simp add: parse set iso piece Let_def del: split_on.simps)
qed

text \<open>The example of the specification: 30 days before 2024-06-17, in any fixed zone.\<close>

lemma back_30_from_2024_06_17: "(previousDay ^^ 30) (2024, 6, 17) = (2024, 5, 18)"
  by (simp add: eval_nat_numeral previousDay_def daysInMonth_def DaysInYear_def)

lemma previous_period_start_example:
  "calculatePreviousPeriodStartDate (fixedZone off) ''2024-06-17'' (Some (Num 30)) = Inr ''2024-05-18''
   \<and> calculatePreviousPeriodStartDate (fixedZone off) ''2024-06-17'' None = Inr ''2024-05-18''"
proof -
  have v: "validDate (2024, 6, 17)"
    by (simp add: validDate_def daysInMonth_def)
  have i1: "isoDate (2024, 6, 17) = ''2024-06-17''" and i2: "isoDate (2024, 5, 18) = ''2024-05-18''"
    by (simp_all add: isoDate_def pad_def show_nat_digit show_nat_step digit_char_def)
  from previous_period_start_fixed_zone [OF v _ _ back_30_from_2024_06_17, of off]
  have a: "calculatePreviousPeriodStartDate (fixedZone off) ''2024-06-17'' (Some (Num 30)) = Inr ''2024-05-18''"
    by (simp add: i1 i2)
  moreover have "calculatePreviousPeriodStartDate (fixedZone off) ''2024-06-17'' None
     = calculatePreviousPeriodStartDate (fixedZone off) ''2024-06-17'' (Some (Num 30))"
    by (simp add: calculatePreviousPeriodStartDate_def)
  ultimately show ?thesis by simp
qed

section \<open>The date arithmetic across a change of the zone offset\<close>

lemma MakeDay_2024:
  "MakeDay 2024 10 10 = 20037" "MakeDay 2024 10 (- 20) = 20007" "MakeDay 2024 9 10 = 20006"
  by (simp_all add: MakeDay_in_year DaysInYear_def DayFromYear_def monthStart_def)

lemma parse_2024_11_10: "Date_parse ''2024-11-10'' = Some 1731196800000"
proof -
  have "isoDate (2024, 11, 10) = ''2024-11-10''"
    by (simp add: isoDate_def pad_def show_nat_digit show_nat_step digit_char_def)
  with Date_parse_isoDate [of 2024 11 10] show ?thesis
    by (simp add: MakeDay_2024 MakeDate_def msPerDay_def TimeClip_def)
qed

text \<open>Local time at 2024-11-10T00:00Z is 01:00 on 10 November.\<close>

lemma local_fields_2024_11_10:
  "YearFromTime 1731200400000 = 2024 \<and> MonthFromTime 1731200400000 = 10
   \<and> DateFromTime 1731200400000 = 10"
  by (rule fields_of_day) (simp_all add: daysInMonth_def Day_def msPerDay_def MakeDay_2024)

lemma utc_fields_2024_10_10:
  "YearFromTime 1728601200000 = 2024 \<and> MonthFromTime 1728601200000 = 9
   \<and> DateFromTime 1728601200000 = 10"
  by (rule fields_of_day) (simp_all add: daysInMonth_def Day_def msPerDay_def MakeDay_2024)

lemma getDate_transition: "getDate centralEurope2024 (Some 1731196800000) = Num 10"
  by (simp add: getDate_def LocalTime_def centralEurope2024_def local_fields_2024_11_10)

text \<open>
  Day \<open>10 - 30\<close> of November in local time is 01:00 on 11 October, when the zone is two
  hours ahead: 23:00 on 10 October in UTC.
\<close>

lemma setDate_transition:
  "setDate centralEurope2024 (Some 1731196800000) (Num (- 20)) = Some 1728601200000"
  by (simp add: setDate_def LocalTime_def UTC_def centralEurope2024_def local_fields_2024_11_10
        ToIntegerOrInfinity_def MakeDay_2024 MakeDate_def TimeWithinDay_def msPerDay_def
        TimeClip_def Let_def)

lemma pads_2024_10_10:
  "pad 4 2024 = ''2024''" "pad 2 10 = ''10''" "pad 2 23 = ''23''"
  by (simp_all add: pad_def show_nat_digit show_nat_step digit_char_def)

lemma toISOString_transition: "toISOString (Some 1728601200000) = Inr ''2024-10-10T23:00:00.000Z''"
  by (simp add: toISOString_def utc_fields_2024_10_10 TimeWithinDay_def msPerDay_def
        pads_2024_10_10 pad_zero Let_def)

text \<open>
  Claim C9 holds in zones with a fixed offset (\<open>previous_period_start_fixed_zone\<close>,
  \<open>previous_period_start_example\<close>) and the default lookback is 30, but the claim as a
  whole fails where the host's zone changes its offset between the two dates: the source
  parses and prints in UTC and moves the day of the month in local time. Under the
  Central European rules of 2024, 30 days before 2024-11-10 comes out as 2024-10-10;
  the calendar says 2024-10-11.
\<close>

theorem previous_period_start_across_transition:
  "calculatePreviousPeriodStartDate centralEurope2024 ''2024-11-10'' (Some (Num 30)) = Inr ''2024-10-10''
   \<and> isoDate ((previousDay ^^ 30) (2024, 11, 10)) = ''2024-10-11''"
proof -
  have "(previousDay ^^ 30) (2024, 11, 10) = (2024, 10, 11)"
    by (simp add: eval_nat_numeral previousDay_def daysInMonth_def DaysInYear_def)
  then have "isoDate ((previousDay ^^ 30) (2024, 11, 10)) = ''2024-10-11''"
    by (simp add: isoDate_def pad_def show_nat_digit show_nat_step digit_char_def)
  moreover have "calculatePreviousPeriodStartDate centralEurope2024 ''2024-11-10'' (Some (Num 30))
      = Inr ''2024-10-10''"
    by (simp add: calculatePreviousPeriodStartDate_def parse_2024_11_10 getDate_transition js_sub_def
          setDate_transition toISOString_transition)
  ultimately show ?thesis by simp
qed


section \<open>Runs of the orchestration graph\<close>

lemma run_unfold:
  "run env n s =
     (case edge n (nodeFunction env n s) of
        END \<Rightarrow> [(n, nodeFunction env n s)]
      | To n' \<Rightarrow> (n, nodeFunction env n s) # run env n' (nodeFunction env n s))"
  by (subst run.simps) (simp add: Let_def)

lemma run_head: "\<exists>rest. run env n s = (n, nodeFunction env n s) # rest"
  by (subst run_unfold) (simp split: target.splits)

lemma run_continue:
  "edge n (nodeFunction env n s) = To n' \<Longrightarrow>
   run env n s = (n, nodeFunction env n s) # run env n' (nodeFunction env n s)"
  by (subst run_unfold) simp

lemma run_next:
  "nodeFunction env n s = s' \<Longrightarrow> edge n s' = To n' \<Longrightarrow> run env n s = (n, s') # run env n' s'"
  using run_continue [of n env s n'] by simp

lemma run_HANDLE_ERROR: "run env HANDLE_ERROR s = [(HANDLE_ERROR, s)]"
  by (subst run_unfold) (simp add: handleError_def)

lemma run_COMPLETE_BRIEF: "run env COMPLETE_BRIEF s = [(COMPLETE_BRIEF, completeBrief s)]"
  by (subst run_unfold) simp

text \<open>The edges out of a state: to the successor without an error, to \<open>HANDLE_ERROR\<close> with
  one, to \<open>END\<close> only from the two last nodes.\<close>

lemma edge_continue:
  assumes "error s = None"
  shows "edge LOAD_DATA s = To VALIDATE_DATA"
    and "edge VALIDATE_DATA s = To ANALYZE_METRICS"
    and "edge ANALYZE_METRICS s = To ANALYZE_CONVERSIONS"
    and "edge ANALYZE_CONVERSIONS s = To ANALYZE_CHANNELS"
    and "edge ANALYZE_CHANNELS s = To SUGGEST_DATA_IMPROVEMENTS"
    and "edge SUGGEST_DATA_IMPROVEMENTS s = To SUGGEST_REPORTING_IMPROVEMENTS"
    and "edge SUGGEST_REPORTING_IMPROVEMENTS s = To GENERATE_SUMMARY"
    and "edge GENERATE_SUMMARY s = To COMPLETE_BRIEF"
  using assms by (simp_all add: conditional_def checkForErrors_def)

lemma edge_error:
  "error s \<noteq> None \<Longrightarrow> edge n s = To n' \<Longrightarrow> n' = HANDLE_ERROR"
  by (cases n) (auto simp: conditional_def checkForErrors_def)

lemma edge_END: "edge n s = END \<Longrightarrow> n = COMPLETE_BRIEF \<or> n = HANDLE_ERROR"
  by (cases n) (auto simp: conditional_def split: if_splits)

lemma completeBrief_outcome:
  "dailyBrief (completeBrief s) \<noteq> None \<or> error (completeBrief s) \<noteq> None"
  by (simp add: completeBrief_def split: option.splits)

lemma completeBrief_empty_summary:
  "summary s = Some [] \<Longrightarrow>
   completeBrief s = s\<lparr>error := Some (Error ''Missing required data for daily brief'')\<rparr>"
  by (simp add: completeBrief_def split: option.splits)

text \<open>
  In a run from any node: a state with an error that is not the last one is followed by
  \<open>HANDLE_ERROR\<close>, which ends the run; consecutive entries are joined by the edge of
  the graph; the last node is one of the two with an edge into \<open>END\<close>.
\<close>

lemma error_routes_to_handler:
  "Suc i < length (run env n s) \<Longrightarrow> error (snd (run env n s ! i)) \<noteq> None \<Longrightarrow>
   fst (run env n s ! Suc i) = HANDLE_ERROR \<and> Suc (Suc i) = length (run env n s)"
proof (induction env n s arbitrary: i rule: run.induct)
  case (1 env n s)
  let ?s' = "nodeFunction env n s"
  show ?case
  proof (cases "edge n ?s'")
    case END
    with "1.prems" show ?thesis by (subst (asm) run_unfold) simp
  next
    case (To n')
    note unf = run_continue [OF To]
    show ?thesis
    proof (cases i)
      case 0
      with "1.prems"(2) unf have "error ?s' \<noteq> None" by simp
      then have "n' = HANDLE_ERROR" using To by (rule edge_error)
      with unf 0 show ?thesis by (simp add: run_HANDLE_ERROR)
    next
      case (Suc j)
      with "1.prems" unf
      have "Suc j < length (run env n' ?s')" "error (snd (run env n' ?s' ! j)) \<noteq> None"
        by simp_all
      from "1.IH" [OF refl To this]
      have ih1: "fst (run env n' ?s' ! Suc j) = HANDLE_ERROR"
        and ih2: "Suc (Suc j) = length (run env n' ?s')"
        by blast+
      have a: "run env n s ! Suc i = run env n' ?s' ! Suc j"
        by (simp only: unf Suc nth_Cons_Suc)
      have b: "length (run env n s) = Suc (length (run env n' ?s'))"
        by (simp only: unf length_Cons)
      from a ih1 have "fst (run env n s ! Suc i) = HANDLE_ERROR" by simp
      moreover from b ih2 Suc have "Suc (Suc i) = length (run env n s)" by simp
      ultimately show ?thesis ..
    qed
  qed
qed

lemma run_follows_edges:
  "Suc i < length (run env n s) \<Longrightarrow>
   edge (fst (run env n s ! i)) (snd (run env n s ! i)) = To (fst (run env n s ! Suc i))
   \<and> snd (run env n s ! Suc i) = nodeFunction env (fst (run env n s ! Suc i)) (snd (run env n s ! i))"
proof (induction env n s arbitrary: i rule: run.induct)
  case (1 env n s)
  let ?s' = "nodeFunction env n s"
  show ?case
  proof (cases "edge n ?s'")
    case END
    with "1.prems" show ?thesis by (subst (asm) run_unfold) simp
  next
    case (To n')
    note unf = run_continue [OF To]
    obtain rest where rest: "run env n' ?s' = (n', nodeFunction env n' ?s') # rest"
      using run_head by blast
    show ?thesis
    proof (cases i)
      case 0
      show ?thesis unfolding unf 0 by (simp add: rest To)
    next
      case (Suc j)
      with "1.prems" unf have "Suc j < length (run env n' ?s')" by simp
      from "1.IH" [OF refl To this] show ?thesis unfolding unf Suc by simp
    qed
  qed
qed

lemma run_last:
  "fst (last (run env n s)) = COMPLETE_BRIEF \<or> fst (last (run env n s)) = HANDLE_ERROR"
proof (induction env n s rule: run.induct)
  case (1 env n s)
  let ?s' = "nodeFunction env n s"
  show ?case
  proof (cases "edge n ?s'")
    case END
    from edge_END [OF END] show ?thesis
      by (auto simp: run_HANDLE_ERROR run_COMPLETE_BRIEF)
  next
    case (To n')
    note unf = run_continue [OF To]
    obtain rest where rest: "run env n' ?s' = (n', nodeFunction env n' ?s') # rest"
      using run_head by blast
    from "1.IH" [OF refl To] show ?thesis
      unfolding unf by (simp add: rest)
  qed
qed

lemma run_final:
  "n \<noteq> HANDLE_ERROR \<or> error s \<noteq> None \<Longrightarrow>
   dailyBrief (finalState (run env n s)) \<noteq> None \<or> error (finalState (run env n s)) \<noteq> None"
proof (induction env n s rule: run.induct)
  case (1 env n s)
  let ?s' = "nodeFunction env n s"
  show ?case
  proof (cases "edge n ?s'")
    case END
    from edge_END [OF END] "1.prems" show ?thesis
      using completeBrief_outcome [of s]
      by (auto simp: run_HANDLE_ERROR run_COMPLETE_BRIEF finalState_def)
  next
    case (To n')
    note unf = run_continue [OF To]
    obtain rest where rest: "run env n' ?s' = (n', nodeFunction env n' ?s') # rest"
      using run_head by blast
    have "n' \<noteq> HANDLE_ERROR \<or> error ?s' \<noteq> None"
      using To by (cases n) (auto simp: conditional_def checkForErrors_def split: if_splits)
    from "1.IH" [OF refl To this] show ?thesis
      by (simp add: unf finalState_def rest)
  qed
qed

text \<open>What a stage returns when its inputs are there and its calls succeed.\<close>

lemma validateData_loaded:
  "testData s = Some td \<Longrightarrow> \<exists>v. validateData s = s\<lparr>dataValidation := Some v\<rparr>"
  by (simp add: validateData_def) (rule exI, rule refl)

lemma analyzeMetrics_loaded:
  "testData s = Some td \<Longrightarrow>
   calculatePreviousPeriodStartDate (zone env) (st_date s) (Some (Num 30)) = Inr p \<Longrightarrow>
   \<exists>v. analyzeMetrics env s = s\<lparr>metricsAnalysis := Some v\<rparr>"
  by (simp add: analyzeMetrics_def Let_def) (rule exI, rule refl)

lemma analyzeConversions_loaded:
  "testData s = Some td \<Longrightarrow>
   calculatePreviousPeriodStartDate (zone env) (st_date s) (Some (Num 30)) = Inr p \<Longrightarrow>
   \<forall>x. \<exists>a. conversionModel env x = Inr a \<Longrightarrow>
   \<exists>v. analyzeConversions env s = s\<lparr>conversionAnalysis := Some v\<rparr>"
proof -
  assume td: "testData s = Some td"
    and p: "calculatePreviousPeriodStartDate (zone env) (st_date s) (Some (Num 30)) = Inr p"
    and m: "\<forall>x. \<exists>a. conversionModel env x = Inr a"
  let ?l = "calculateConversionsTrend (td_sessions td) (td_leads td) (td_contacts td)
              (td_transactions td)
              (filterSessionsByDateRange (td_sessions td) p (st_date s))
              (filterLeadsByDateRange (td_leads td) p (st_date s))
              (filterContactsByDateRange (td_contacts td) p (st_date s))
              (filterTransactionsByDateRange (td_transactions td) p (st_date s))"
  from m obtain a where "conversionModel env ?l = Inr a" by blast
  then show ?thesis
    by (simp add: analyzeConversions_def Let_def td p) (rule exI, rule refl)
qed

lemma analyzeChannels_loaded:
  "testData s = Some td \<Longrightarrow>
   calculatePreviousPeriodStartDate (zone env) (st_date s) (Some (Num 30)) = Inr p \<Longrightarrow>
   \<forall>x. \<exists>a. channelModel env x = Inr a \<Longrightarrow>
   \<exists>v. analyzeChannels env s = s\<lparr>channelDistribution := Some v\<rparr>"
proof -
  assume td: "testData s = Some td"
    and p: "calculatePreviousPeriodStartDate (zone env) (st_date s) (Some (Num 30)) = Inr p"
    and m: "\<forall>x. \<exists>a. channelModel env x = Inr a"
  let ?l = "calculateChannelsTrend (td_sessions td)
              (filterSessionsByDateRange (td_sessions td) p (st_date s)) (td_atoms td)"
  from m obtain a where "channelModel env ?l = Inr a" by blast
  then show ?thesis
    by (simp add: analyzeChannels_def Let_def td p) (rule exI, rule refl)
qed

lemma suggestDataImprovements_loaded:
  "testData s = Some td \<Longrightarrow> \<exists>v. suggestDataImprovements s = s\<lparr>dataQualityImprovements := Some v\<rparr>"
  by (simp add: suggestDataImprovements_def) (rule exI, rule refl)

lemma suggestReportingImprovements_loaded:
  "testData s = Some td \<Longrightarrow>
   \<exists>v. suggestReportingImprovements s = s\<lparr>reportingImprovements := Some v\<rparr>"
  by (simp add: suggestReportingImprovements_def) (rule exI, rule refl)

text \<open>
  A run in which the loader, the date arithmetic and the three model calls succeed
  executes the nine stages in their order; the state that reaches \<open>COMPLETE_BRIEF\<close> has
  no error, every analysis slice, and the model's answer as its summary.
\<close>

lemma run_without_failure:
  assumes load: "loadDataSet env (dataPath s0) ''test'' = Inr td"
    and past: "calculatePreviousPeriodStartDate (zone env) (st_date s0) (Some (Num 30)) = Inr p"
    and conv: "\<forall>x. \<exists>a. conversionModel env x = Inr a"
    and chan: "\<forall>x. \<exists>a. channelModel env x = Inr a"
    and summ: "\<forall>x. summaryModel env x = Inr answer"
    and e0: "error s0 = None"
  shows "\<exists>s. map fst (invoke env s0) =
               [LOAD_DATA, VALIDATE_DATA, ANALYZE_METRICS, ANALYZE_CONVERSIONS, ANALYZE_CHANNELS,
                SUGGEST_DATA_IMPROVEMENTS, SUGGEST_REPORTING_IMPROVEMENTS, GENERATE_SUMMARY,
                COMPLETE_BRIEF]
            \<and> invoke env s0 ! 7 = (GENERATE_SUMMARY, s)
            \<and> finalState (invoke env s0) = completeBrief s
            \<and> error s = None \<and> summary s = Some answer \<and> st_date s = st_date s0
            \<and> dailyBrief s = dailyBrief s0
            \<and> dataValidation s \<noteq> None \<and> metricsAnalysis s \<noteq> None
            \<and> conversionAnalysis s \<noteq> None \<and> channelDistribution s \<noteq> None
            \<and> dataQualityImprovements s \<noteq> None \<and> reportingImprovements s \<noteq> None"
proof -
  define s1 where "s1 = s0\<lparr>testData := Some td\<rparr>"
  have f1: "nodeFunction env LOAD_DATA s0 = s1"
    by (simp add: loadData_def load s1_def)
  have t1: "testData s1 = Some td" and e1: "error s1 = None" and d1: "st_date s1 = st_date s0"
    and b1: "dailyBrief s1 = dailyBrief s0"
    by (simp_all add: s1_def e0)
  obtain v2 where f2: "validateData s1 = s1\<lparr>dataValidation := Some v2\<rparr>"
    using validateData_loaded [OF t1] by blast
  define s2 where "s2 = s1\<lparr>dataValidation := Some v2\<rparr>"
  have t2: "testData s2 = Some td" and e2: "error s2 = None" and d2: "st_date s2 = st_date s0"
    and b2: "dailyBrief s2 = dailyBrief s0" and a2: "dataValidation s2 = Some v2"
    by (simp_all add: s2_def t1 e1 d1 b1)
  have p2: "calculatePreviousPeriodStartDate (zone env) (st_date s2) (Some (Num 30)) = Inr p"
    by (simp add: d2 past)
  obtain v3 where f3: "analyzeMetrics env s2 = s2\<lparr>metricsAnalysis := Some v3\<rparr>"
    using analyzeMetrics_loaded [OF t2 p2] by blast
  define s3 where "s3 = s2\<lparr>metricsAnalysis := Some v3\<rparr>"
  have t3: "testData s3 = Some td" and e3: "error s3 = None" and d3: "st_date s3 = st_date s0"
    and b3: "dailyBrief s3 = dailyBrief s0" and a3: "dataValidation s3 = Some v2"
      "metricsAnalysis s3 = Some v3"
    by (simp_all add: s3_def t2 e2 d2 b2 a2)
  have p3: "calculatePreviousPeriodStartDate (zone env) (st_date s3) (Some (Num 30)) = Inr p"
    by (simp add: d3 past)
  obtain v4 where f4: "analyzeConversions env s3 = s3\<lparr>conversionAnalysis := Some v4\<rparr>"
    using analyzeConversions_loaded [OF t3 p3 conv] by blast
  define s4 where "s4 = s3\<lparr>conversionAnalysis := Some v4\<rparr>"
  have t4: "testData s4 = Some td" and e4: "error s4 = None" and d4: "st_date s4 = st_date s0"
    and b4: "dailyBrief s4 = dailyBrief s0" and a4: "dataValidation s4 = Some v2"
      "metricsAnalysis s4 = Some v3" "conversionAnalysis s4 = Some v4"
    by (simp_all add: s4_def t3 e3 d3 b3 a3)
  have p4: "calculatePreviousPeriodStartDate (zone env) (st_date s4) (Some (Num 30)) = Inr p"
    by (simp add: d4 past)
  obtain v5 where f5: "analyzeChannels env s4 = s4\<lparr>channelDistribution := Some v5\<rparr>"
    using analyzeChannels_loaded [OF t4 p4 chan] by blast
  define s5 where "s5 = s4\<lparr>channelDistribution := Some v5\<rparr>"
  have t5: "testData s5 = Some td" and e5: "error s5 = None" and d5: "st_date s5 = st_date s0"
    and b5: "dailyBrief s5 = dailyBrief s0" and a5: "dataValidation s5 = Some v2"
      "metricsAnalysis s5 = Some v3" "conversionAnalysis s5 = Some v4"
      "channelDistribution s5 = Some v5"
    by (simp_all add: s5_def t4 e4 d4 b4 a4)
  obtain v6 where f6: "suggestDataImprovements s5 = s5\<lparr>dataQualityImprovements := Some v6\<rparr>"
    using suggestDataImprovements_loaded [OF t5] by blast
  define s6 where "s6 = s5\<lparr>dataQualityImprovements := Some v6\<rparr>"
  have t6: "testData s6 = Some td" and e6: "error s6 = None" and d6: "st_date s6 = st_date s0"
    and b6: "dailyBrief s6 = dailyBrief s0" and a6: "dataValidation s6 = Some v2"
      "metricsAnalysis s6 = Some v3" "conversionAnalysis s6 = Some v4"
      "channelDistribution s6 = Some v5" "dataQualityImprovements s6 = Some v6"
    by (simp_all add: s6_def t5 e5 d5 b5 a5)
  obtain v7 where f7: "suggestReportingImprovements s6 = s6\<lparr>reportingImprovements := Some v7\<rparr>"
    using suggestReportingImprovements_loaded [OF t6] by blast
  define s7 where "s7 = s6\<lparr>reportingImprovements := Some v7\<rparr>"
  have e7: "error s7 = None" and d7: "st_date s7 = st_date s0"
    and b7: "dailyBrief s7 = dailyBrief s0" and a7: "dataValidation s7 = Some v2"
      "metricsAnalysis s7 = Some v3" "conversionAnalysis s7 = Some v4"
      "channelDistribution s7 = Some v5" "dataQualityImprovements s7 = Some v6"
      "reportingImprovements s7 = Some v7"
    by (simp_all add: s7_def e6 d6 b6 a6)
  define s8 where "s8 = s7\<lparr>summary := Some answer\<rparr>"
  have f8: "generateSummary env s7 = s8"
    by (simp add: generateSummary_def a7 summ s8_def)
  have e8: "error s8 = None" and d8: "st_date s8 = st_date s0"
    and b8: "dailyBrief s8 = dailyBrief s0" and a8: "dataValidation s8 = Some v2"
      "metricsAnalysis s8 = Some v3" "conversionAnalysis s8 = Some v4"
      "channelDistribution s8 = Some v5" "dataQualityImprovements s8 = Some v6"
      "reportingImprovements s8 = Some v7" "summary s8 = Some answer"
    by (simp_all add: s8_def e7 d7 b7 a7)
  have r1: "run env LOAD_DATA s0 = (LOAD_DATA, s1) # run env VALIDATE_DATA s1"
    by (rule run_next [OF f1 edge_continue(1) [OF e1]])
  have r2: "run env VALIDATE_DATA s1 = (VALIDATE_DATA, s2) # run env ANALYZE_METRICS s2"
    by (rule run_next [OF _ edge_continue(2) [OF e2]]) (simp add: f2 s2_def)
  have r3: "run env ANALYZE_METRICS s2 = (ANALYZE_METRICS, s3) # run env ANALYZE_CONVERSIONS s3"
    by (rule run_next [OF _ edge_continue(3) [OF e3]]) (simp add: f3 s3_def)
  have r4: "run env ANALYZE_CONVERSIONS s3
              = (ANALYZE_CONVERSIONS, s4) # run env ANALYZE_CHANNELS s4"
    by (rule run_next [OF _ edge_continue(4) [OF e4]]) (simp add: f4 s4_def)
  have r5: "run env ANALYZE_CHANNELS s4
              = (ANALYZE_CHANNELS, s5) # run env SUGGEST_DATA_IMPROVEMENTS s5"
    by (rule run_next [OF _ edge_continue(5) [OF e5]]) (simp add: f5 s5_def)
  have r6: "run env SUGGEST_DATA_IMPROVEMENTS s5
              = (SUGGEST_DATA_IMPROVEMENTS, s6) # run env SUGGEST_REPORTING_IMPROVEMENTS s6"
    by (rule run_next [OF _ edge_continue(6) [OF e6]]) (simp add: f6 s6_def)
  have r7: "run env SUGGEST_REPORTING_IMPROVEMENTS s6
              = (SUGGEST_REPORTING_IMPROVEMENTS, s7) # run env GENERATE_SUMMARY s7"
    by (rule run_next [OF _ edge_continue(7) [OF e7]]) (simp add: f7 s7_def)
  have r8: "run env GENERATE_SUMMARY s7 = (GENERATE_SUMMARY, s8) # run env COMPLETE_BRIEF s8"
    by (rule run_next [OF _ edge_continue(8) [OF e8]]) (simp add: f8)
  have tr: "invoke env s0 =
      [(LOAD_DATA, s1), (VALIDATE_DATA, s2), (ANALYZE_METRICS, s3), (ANALYZE_CONVERSIONS, s4),
       (ANALYZE_CHANNELS, s5), (SUGGEST_DATA_IMPROVEMENTS, s6),
       (SUGGEST_REPORTING_IMPROVEMENTS, s7), (GENERATE_SUMMARY, s8),
       (COMPLETE_BRIEF, completeBrief s8)]"
    by (simp only: invoke_def r1 r2 r3 r4 r5 r6 r7 r8 run_COMPLETE_BRIEF)
  have "map fst (invoke env s0) =
               [LOAD_DATA, VALIDATE_DATA, ANALYZE_METRICS, ANALYZE_CONVERSIONS, ANALYZE_CHANNELS,
                SUGGEST_DATA_IMPROVEMENTS, SUGGEST_REPORTING_IMPROVEMENTS, GENERATE_SUMMARY,
                COMPLETE_BRIEF]"
    and "invoke env s0 ! 7 = (GENERATE_SUMMARY, s8)"
    and "finalState (invoke env s0) = completeBrief s8"
    by (simp_all add: tr finalState_def)
  with e8 d8 b8 a8 show ?thesis
    by (intro exI [of _ s8]) simp
qed

lemma env_of_fields:
  "zone (env_of l t) = fixedZone 0" "loadDataSet (env_of l t) a b = l"
  "\<forall>x. \<exists>a. conversionModel (env_of l t) x = Inr a"
  "\<forall>x. \<exists>a. channelModel (env_of l t) x = Inr a"
  "\<forall>x. summaryModel (env_of l t) x = Inr t"
  by (simp_all add: env_of_def)

lemma initialState_fields:
  "st_date (initialState d) = d" "error (initialState d) = None"
  "dailyBrief (initialState d) = None"
  by (simp_all add: initialState_def)

lemma failed_load_run:
  "invoke (env_of (Inl e) t) s =
     [(LOAD_DATA, s\<lparr>error := Some e\<rparr>), (HANDLE_ERROR, s\<lparr>error := Some e\<rparr>)]"
proof -
  have f: "nodeFunction (env_of (Inl e) t) LOAD_DATA s = s\<lparr>error := Some e\<rparr>"
    by (simp add: loadData_def env_of_fields)
  have "edge LOAD_DATA (s\<lparr>error := Some e\<rparr>) = To HANDLE_ERROR"
    by (simp add: conditional_def checkForErrors_def)
  from run_next [OF f this] show ?thesis
    by (simp add: invoke_def run_HANDLE_ERROR)
qed

text \<open>
  Claim C5, as stated, fails: the edge from \<open>COMPLETE_BRIEF\<close> into \<open>END\<close> is a plain
  edge, so an error that \<open>completeBrief\<close> itself leaves is not routed to
  \<open>HANDLE_ERROR\<close>. On an empty dataset, with a summary call that answers the empty
  string, the nine stages run; the state after \<open>GENERATE_SUMMARY\<close> has no error;
  \<open>completeBrief\<close> finds the summary falsy and sets the error; the run ends there,
  \<open>HANDLE_ERROR\<close> is never executed, and no brief is produced.
\<close>

theorem complete_brief_error_counterexample:
  "map fst (invoke (env_of (Inr emptyDataset) []) (initialState ''2024-06-17''))
     = [LOAD_DATA, VALIDATE_DATA, ANALYZE_METRICS, ANALYZE_CONVERSIONS, ANALYZE_CHANNELS,
        SUGGEST_DATA_IMPROVEMENTS, SUGGEST_REPORTING_IMPROVEMENTS, GENERATE_SUMMARY,
        COMPLETE_BRIEF]
   \<and> error (snd (invoke (env_of (Inr emptyDataset) []) (initialState ''2024-06-17'') ! 7)) = None
   \<and> error (finalState (invoke (env_of (Inr emptyDataset) []) (initialState ''2024-06-17'')))
       = Some (Error ''Missing required data for daily brief'')
   \<and> dailyBrief (finalState (invoke (env_of (Inr emptyDataset) []) (initialState ''2024-06-17'')))
       = None"
proof -
  let ?env = "env_of (Inr emptyDataset) []"
  let ?s0 = "initialState ''2024-06-17''"
  have past: "calculatePreviousPeriodStartDate (zone ?env) (st_date ?s0) (Some (Num 30))
                = Inr ''2024-05-18''"
    using previous_period_start_example [of 0] by (simp add: env_of_fields initialState_fields)
  from run_without_failure [OF env_of_fields(2) past env_of_fields(3,4,5) initialState_fields(2)]
  obtain s where nodes: "map fst (invoke ?env ?s0) =
               [LOAD_DATA, VALIDATE_DATA, ANALYZE_METRICS, ANALYZE_CONVERSIONS, ANALYZE_CHANNELS,
                SUGGEST_DATA_IMPROVEMENTS, SUGGEST_REPORTING_IMPROVEMENTS, GENERATE_SUMMARY,
                COMPLETE_BRIEF]"
    and at7: "invoke ?env ?s0 ! 7 = (GENERATE_SUMMARY, s)"
    and fin: "finalState (invoke ?env ?s0) = completeBrief s"
    and s: "error s = None" "summary s = Some []" "dailyBrief s = dailyBrief ?s0"
    by (elim exE conjE) (rule that)
  have "completeBrief s = s\<lparr>error := Some (Error ''Missing required data for daily brief'')\<rparr>"
    using s(2) by (rule completeBrief_empty_summary)
  with fin s have "error (finalState (invoke ?env ?s0))
       = Some (Error ''Missing required data for daily brief'')"
    and "dailyBrief (finalState (invoke ?env ?s0)) = None"
    by (simp_all add: initialState_fields)
  moreover from at7 s(1) have "error (snd (invoke ?env ?s0 ! 7)) = None" by simp
  ultimately show ?thesis using nodes by simp
qed

text \<open>
  Claim C5, amended. In every execution of the graph, from any initial state: the run
  starts at \<open>LOAD_DATA\<close> and every executed node is followed by the target of its edge,
  applied to the state it returned; once a stage that has a successor leaves the error
  field populated, the next node is \<open>HANDLE_ERROR\<close> and it is the last one, so no
  further analysis stage executes; \<open>COMPLETE_BRIEF\<close>, when it runs, is the last node,
  with or without an error (its error is not routed to \<open>HANDLE_ERROR\<close>); the run ends
  at \<open>COMPLETE_BRIEF\<close> or at \<open>HANDLE_ERROR\<close>, and the terminal state has \<open>dailyBrief\<close>
  populated or \<open>error\<close> populated.
\<close>

theorem error_short_circuits:
  "(let tr = invoke env initial
    in tr \<noteq> [] \<and> fst (hd tr) = LOAD_DATA
     \<and> (\<forall>i. Suc i < length tr \<longrightarrow>
           edge (fst (tr ! i)) (snd (tr ! i)) = To (fst (tr ! Suc i))
           \<and> snd (tr ! Suc i) = nodeFunction env (fst (tr ! Suc i)) (snd (tr ! i)))
     \<and> (\<forall>i. Suc i < length tr \<longrightarrow> error (snd (tr ! i)) \<noteq> None \<longrightarrow>
           fst (tr ! Suc i) = HANDLE_ERROR \<and> Suc (Suc i) = length tr)
     \<and> (\<forall>i. i < length tr \<longrightarrow> fst (tr ! i) = COMPLETE_BRIEF \<longrightarrow> Suc i = length tr)
     \<and> (fst (last tr) = COMPLETE_BRIEF \<or> fst (last tr) = HANDLE_ERROR)
     \<and> (dailyBrief (finalState tr) \<noteq> None \<or> error (finalState tr) \<noteq> None))"
proof -
  let ?tr = "run env LOAD_DATA initial"
  obtain rest where "?tr = (LOAD_DATA, nodeFunction env LOAD_DATA initial) # rest"
    using run_head by blast
  then have h: "?tr \<noteq> [] \<and> fst (hd ?tr) = LOAD_DATA"
    by simp
  have cb: "Suc i = length ?tr" if "i < length ?tr" and "fst (?tr ! i) = COMPLETE_BRIEF" for i
  proof (rule ccontr)
    assume "Suc i \<noteq> length ?tr"
    with that(1) have "Suc i < length ?tr" by simp
    from run_follows_edges [OF this] that(2) show False by simp
  qed
  show ?thesis
    unfolding Let_def invoke_def
    using h run_follows_edges [of _ env LOAD_DATA initial]
      error_routes_to_handler [of _ env LOAD_DATA initial] cb
      run_last [of env LOAD_DATA initial] run_final [of LOAD_DATA initial env]
    by blast
qed

text \<open>
  A loader that throws: \<open>LOAD_DATA\<close> returns the state with the error, the next and last
  node is \<open>HANDLE_ERROR\<close>, and the terminal state carries the loader's error and no brief.
\<close>

theorem error_short_circuits_witness:
  "(let tr = invoke (env_of (Inl (ServiceFailure ''ENOENT'')) ''ok'') (initialState ''2024-06-17'')
    in map fst tr = [LOAD_DATA, HANDLE_ERROR]
     \<and> error (snd (tr ! 0)) = Some (ServiceFailure ''ENOENT'')
     \<and> fst (tr ! Suc 0) = HANDLE_ERROR \<and> Suc (Suc 0) = length tr
     \<and> error (finalState tr) = Some (ServiceFailure ''ENOENT'')
     \<and> dailyBrief (finalState tr) = None)"
  using error_short_circuits [of "env_of (Inl (ServiceFailure ''ENOENT'')) ''ok''"
          "initialState ''2024-06-17''"]
  by (simp add: failed_load_run finalState_def initialState_def Let_def)

section \<open>The record sets of the trend comparisons\<close>

text \<open>What the three composers take from the record sets they are given.\<close>

lemma metrics_trend_values:
  "current (roas (calculateMetricsTrend ct cs pt ps)) = calculateROAS ct cs
   \<and> current (cac (calculateMetricsTrend ct cs pt ps)) = calculateCAC ct cs
   \<and> previous (roas (calculateMetricsTrend ct cs pt ps))
       = (if pt = [] \<or> ps = [] then Num 0 else calculateROAS pt ps)
   \<and> previous (cac (calculateMetricsTrend ct cs pt ps))
       = (if pt = [] \<or> ps = [] then Num 0 else calculateCAC pt ps)"
  by (simp add: calculateMetricsTrend_def Let_def)

lemma length_calculateConversionRates: "length (calculateConversionRates a b c d) = 4"
  by (simp add: calculateConversionRates_def Let_def)

lemma composeStage_fields:
  "i < length ps \<Longrightarrow>
   current (composeStage ps (st, i)) = current st \<and> name (composeStage ps (st, i)) = name st
   \<and> previous (composeStage ps (st, i)) = current (ps ! i)"
  by (simp add: composeStage_def index_opt_def Let_def)

lemma conversions_trend_values:
  "map current (calculateConversionsTrend s1 l1 c1 t1 s2 l2 c2 t2)
     = map current (calculateConversionRates s1 l1 c1 t1)
   \<and> map name (calculateConversionsTrend s1 l1 c1 t1 s2 l2 c2 t2)
     = map name (calculateConversionRates s1 l1 c1 t1)
   \<and> map previous (calculateConversionsTrend s1 l1 c1 t1 s2 l2 c2 t2)
     = map current (calculateConversionRates s2 l2 c2 t2)"
proof -
  let ?cs = "calculateConversionRates s1 l1 c1 t1"
  let ?ps = "calculateConversionRates s2 l2 c2 t2"
  have len: "length ?ps = length ?cs"
    by (simp add: length_calculateConversionRates)
  have tr: "calculateConversionsTrend s1 l1 c1 t1 s2 l2 c2 t2
              = map (composeStage ?ps) (zip ?cs [0 ..< length ?cs])"
    by (simp add: calculateConversionsTrend_def Let_def)
  have "map current (map (composeStage ?ps) (zip ?cs [0 ..< length ?cs])) = map current ?cs"
    by (rule nth_equalityI) (simp_all add: composeStage_fields len)
  moreover have "map name (map (composeStage ?ps) (zip ?cs [0 ..< length ?cs])) = map name ?cs"
    by (rule nth_equalityI) (simp_all add: composeStage_fields len)
  moreover have "map previous (map (composeStage ?ps) (zip ?cs [0 ..< length ?cs]))
                   = map current ?ps"
    by (rule nth_equalityI) (simp_all add: composeStage_fields len)
  ultimately show ?thesis
    unfolding tr by (intro conjI)
qed

lemma channels_trend_values:
  "map ch_name (calculateChannelsTrend cs ps atoms) = map ch_name (analyzeChannelDistribution cs atoms)
   \<and> map ch_current (calculateChannelsTrend cs ps atoms)
       = map ch_current (analyzeChannelDistribution cs atoms)
   \<and> map ch_previous (calculateChannelsTrend cs ps atoms)
       = map ch_current (analyzeChannelDistribution ps atoms)"
proof -
  define m where "m = foldl countChannel [] atoms"
  define mk where "mk = (\<lambda>ss (channelName, cnt).
                \<lparr>ch_name = channelName,
                 ch_current = \<lparr>sessions = cnt,
                    percentage = js_mul (js_div (count cnt) (count (max (length (ss :: Session list)) 1))) (Num 100)\<rparr>,
                 ch_previous = \<lparr>sessions = 0, percentage = Num 0\<rparr>,
                 change = Num 0\<rparr>)"
  define pm where "pm = foldl (\<lambda>m channel. map_set m (ch_name channel) (ch_current channel)) []
                          (map (mk ps) m)"
  have A: "\<And>ss. analyzeChannelDistribution ss atoms = map (mk ss) m"
    by (simp add: analyzeChannelDistribution_def m_def mk_def Let_def)
  have T: "calculateChannelsTrend cs ps atoms = map (composeChannel pm) (map (mk cs) m)"
    by (simp add: calculateChannelsTrend_def A pm_def Let_def)
  have dist: "distinct (map fst m)"
    using foldl_countChannel [of "[]" atoms] by (simp add: m_def)
  let ?ps = "map (\<lambda>c. (ch_name c, ch_current c)) (map (mk ps) m)"
  have keys: "map fst (rev ?ps) = rev (map fst m)"
    by (simp add: mk_def split_def rev_map comp_def)
  have dk: "distinct (map fst (rev ?ps))"
    unfolding keys using dist by simp
  have look: "map_get pm k = Some (ch_current (mk ps (k, n)))" if "(k, n) \<in> set m" for k n
  proof -
    have mem: "(k, ch_current (mk ps (k, n))) \<in> set (rev ?ps)"
      using that by (force simp: mk_def)
    have "map_of (rev ?ps) k = Some (ch_current (mk ps (k, n)))"
      by (rule map_of_is_SomeI [OF dk mem])
    then show ?thesis
      by (simp add: map_get_def pm_def foldl_map_set)
  qed
  have prev: "ch_previous (composeChannel pm (mk cs x)) = ch_current (mk ps x)" if "x \<in> set m" for x
  proof -
    obtain k n where x: "x = (k, n)" by (cases x)
    with that look have "map_get pm k = Some (ch_current (mk ps (k, n)))" by simp
    then show ?thesis
      by (simp add: x composeChannel_def Let_def mk_def)
  qed
  have cur: "ch_current (composeChannel pm c) = ch_current c \<and> ch_name (composeChannel pm c) = ch_name c"
    for c
    by (simp add: composeChannel_def Let_def)
  show ?thesis
    unfolding T A
    by (simp add: cur prev)
qed

lemma withReasons_fields:
  "current (withReasons t r) = current t" "previous (withReasons t r) = previous t"
  "percentageChange (withReasons t r) = percentageChange t"
  "isSignificant (withReasons t r) = isSignificant t"
  by (simp_all add: withReasons_def)

text \<open>What the three analysis stages return on a loaded dataset.\<close>

lemma analyzeMetrics_result:
  assumes "testData s = Some td"
    and "calculatePreviousPeriodStartDate (zone env) (st_date s) (Some (Num 30)) = Inr p"
  shows "\<exists>r1 r2. analyzeMetrics env s = s\<lparr>metricsAnalysis :=
           Some \<lparr>ma_roas = withReasons (roas (calculateMetricsTrend (td_transactions td) (td_sourceData td)
                     (filterTransactionsByDateRange (td_transactions td) p (st_date s))
                     (filterSourceDataByDateRange (td_sourceData td) p (st_date s)))) r1,
                 ma_cac = withReasons (cac (calculateMetricsTrend (td_transactions td) (td_sourceData td)
                     (filterTransactionsByDateRange (td_transactions td) p (st_date s))
                     (filterSourceDataByDateRange (td_sourceData td) p (st_date s)))) r2\<rparr>\<rparr>"
  using assms by (simp add: analyzeMetrics_def Let_def) (rule exI, rule exI, rule refl)

lemma analyzeConversions_result:
  assumes "testData s = Some td"
    and "calculatePreviousPeriodStartDate (zone env) (st_date s) (Some (Num 30)) = Inr p"
    and "conversionModel env (calculateConversionsTrend (td_sessions td) (td_leads td)
              (td_contacts td) (td_transactions td)
              (filterSessionsByDateRange (td_sessions td) p (st_date s))
              (filterLeadsByDateRange (td_leads td) p (st_date s))
              (filterContactsByDateRange (td_contacts td) p (st_date s))
              (filterTransactionsByDateRange (td_transactions td) p (st_date s))) = Inr a"
  shows "analyzeConversions env s = s\<lparr>conversionAnalysis :=
           Some \<lparr>stages = calculateConversionsTrend (td_sessions td) (td_leads td)
              (td_contacts td) (td_transactions td)
              (filterSessionsByDateRange (td_sessions td) p (st_date s))
              (filterLeadsByDateRange (td_leads td) p (st_date s))
              (filterContactsByDateRange (td_contacts td) p (st_date s))
              (filterTransactionsByDateRange (td_transactions td) p (st_date s)),
                 ca_insights = insightLines a\<rparr>\<rparr>"
  using assms by (simp add: analyzeConversions_def Let_def)

lemma analyzeChannels_result:
  assumes "testData s = Some td"
    and "calculatePreviousPeriodStartDate (zone env) (st_date s) (Some (Num 30)) = Inr p"
    and "channelModel env (calculateChannelsTrend (td_sessions td)
              (filterSessionsByDateRange (td_sessions td) p (st_date s)) (td_atoms td)) = Inr a"
  shows "analyzeChannels env s = s\<lparr>channelDistribution :=
           Some \<lparr>channels = calculateChannelsTrend (td_sessions td)
              (filterSessionsByDateRange (td_sessions td) p (st_date s)) (td_atoms td),
                 cd_insights = insightLines a\<rparr>\<rparr>"
  using assms by (simp add: analyzeChannels_def Let_def)

text \<open>The example dataset \<open>threePeriods\<close> on the analysis date 2024-06-17.\<close>

lemma back_30_from_2024_05_18: "(previousDay ^^ 30) (2024, 5, 18) = (2024, 4, 18)"
  by (simp add: eval_nat_numeral previousDay_def daysInMonth_def DaysInYear_def)

lemma preceding_period_start_example:
  "calculatePreviousPeriodStartDate (fixedZone off) ''2024-05-18'' (Some (Num 30)) = Inr ''2024-04-18''"
proof -
  have v: "validDate (2024, 5, 18)"
    by (simp add: validDate_def daysInMonth_def)
  have i1: "isoDate (2024, 5, 18) = ''2024-05-18''" and i2: "isoDate (2024, 4, 18) = ''2024-04-18''"
    by (simp_all add: isoDate_def pad_def show_nat_digit show_nat_step digit_char_def)
  from previous_period_start_fixed_zone [OF v _ _ back_30_from_2024_05_18, of off]
  show ?thesis
    by (simp add: i1 i2)
qed

lemma threePeriods_windows:
  "filterTransactionsByDateRange (td_transactions threePeriods) ''2024-05-18'' ''2024-06-17''
     = [tx_on ''2024-06-01 12:00:00'' 30]"
  "filterSourceDataByDateRange (td_sourceData threePeriods) ''2024-05-18'' ''2024-06-17''
     = [sd_on ''2024-06-01'' 10]"
  "filterTransactionsByDateRange (td_transactions threePeriods) ''2024-04-18'' ''2024-05-18''
     = [tx_on ''2024-05-01 12:00:00'' 20]"
  "filterSourceDataByDateRange (td_sourceData threePeriods) ''2024-04-18'' ''2024-05-18''
     = [sd_on ''2024-05-01'' 5]"
  by (simp_all add: threePeriods_def filterTransactionsByDateRange_def filterSourceDataByDateRange_def
        extractDatePart_def js_str_ge_def tx_on_def sd_on_def Let_def)

lemma threePeriods_values:
  "calculateROAS (td_transactions threePeriods) (td_sourceData threePeriods) = Num 4"
  "calculateCAC (td_transactions threePeriods) (td_sourceData threePeriods) = Num 25"
  "calculateROAS [tx_on ''2024-06-01 12:00:00'' 30] [sd_on ''2024-06-01'' 10] = Num 3"
  "calculateCAC [tx_on ''2024-06-01 12:00:00'' 30] [sd_on ''2024-06-01'' 10] = Num 10"
  "calculateROAS [tx_on ''2024-05-01 12:00:00'' 20] [sd_on ''2024-05-01'' 5] = Num 4"
  "calculateCAC [tx_on ''2024-05-01 12:00:00'' 20] [sd_on ''2024-05-01'' 5] = Num 5"
  by (simp_all add: threePeriods_def calculateROAS_def calculateCAC_def reduce_sum_def
        set_size_def count_def js_seq_def tx_on_def sd_on_def)

lemma threePeriods_code_trend:
  "calculateMetricsTrend (td_transactions threePeriods) (td_sourceData threePeriods)
      [tx_on ''2024-06-01 12:00:00'' 30] [sd_on ''2024-06-01'' 10]
   = \<lparr>roas = \<lparr>current = Num 4, previous = Num 3, percentageChange = Num (100 / 3),
               isSignificant = True\<rparr>,
      cac = \<lparr>current = Num 25, previous = Num 10, percentageChange = Num 150,
              isSignificant = True\<rparr>\<rparr>"
  by (simp add: calculateMetricsTrend_def threePeriods_values Let_def js_gt_def
        isChangeSigificant_finite percentage_change_finite)

lemma threePeriods_specified_trend:
  "calculateMetricsTrend [tx_on ''2024-06-01 12:00:00'' 30] [sd_on ''2024-06-01'' 10]
      [tx_on ''2024-05-01 12:00:00'' 20] [sd_on ''2024-05-01'' 5]
   = \<lparr>roas = \<lparr>current = Num 3, previous = Num 4, percentageChange = Num (- 25),
               isSignificant = True\<rparr>,
      cac = \<lparr>current = Num 10, previous = Num 5, percentageChange = Num 100,
              isSignificant = True\<rparr>\<rparr>"
  by (simp add: calculateMetricsTrend_def threePeriods_values Let_def js_gt_def
        isChangeSigificant_finite percentage_change_finite)

lemma loaded_threePeriods:
  "testData (loadData (env_of (Inr threePeriods) t) (initialState d)) = Some threePeriods"
  "st_date (loadData (env_of (Inr threePeriods) t) (initialState d)) = d"
  "error (loadData (env_of (Inr threePeriods) t) (initialState d)) = None"
  by (simp_all add: loadData_def env_of_def initialState_def)

lemma threePeriods_sessions_window:
  "filterSessionsByDateRange (td_sessions threePeriods) ''2024-05-18'' ''2024-06-17''
     = [session_on ''2024-06-01 09:00:00'']"
  "filterLeadsByDateRange (td_leads threePeriods) ''2024-05-18'' ''2024-06-17'' = []"
  "filterContactsByDateRange (td_contacts threePeriods) ''2024-05-18'' ''2024-06-17'' = []"
  by (simp_all add: threePeriods_def filterSessionsByDateRange_def filterLeadsByDateRange_def
        filterContactsByDateRange_def extractDatePart_def js_str_ge_def session_on_def Let_def)

lemma threePeriods_rates:
  "map current (calculateConversionRates (td_sessions threePeriods) (td_leads threePeriods)
                  (td_contacts threePeriods) (td_transactions threePeriods))
     = [Num 0, Num 0, Num 0, Num 100]"
  "map current (calculateConversionRates [session_on ''2024-06-01 09:00:00''] [] []
                  [tx_on ''2024-06-01 12:00:00'' 30])
     = [Num 0, Num 0, Num 0, Num 100]"
  by (simp_all add: threePeriods_def calculateConversionRates_def set_size_def sessionIdentity_def
        mkStage_def count_def session_on_def tx_on_def Let_def)

lemma threePeriods_shares:
  "map (\<lambda>c. (ch_name c, percentage (ch_current c)))
       (analyzeChannelDistribution (td_sessions threePeriods) (td_atoms threePeriods))
     = [(''Paid Search'', Num 50), (''Social'', Num 50)]"
  "map (\<lambda>c. (ch_name c, percentage (ch_current c)))
       (analyzeChannelDistribution [session_on ''2024-06-01 09:00:00''] (td_atoms threePeriods))
     = [(''Paid Search'', Num 100), (''Social'', Num 100)]"
  by (simp_all add: threePeriods_def analyzeChannelDistribution_def countChannel_def map_get_def
        count_def atom_x_def atom_y_def Let_def)

text \<open>
  Claim C2, as stated, fails. The stages hand the composer the whole loaded dataset as
  its current record set, unfiltered, and the records dated in the 30 days before the
  analysis date as its previous record set. On \<open>threePeriods\<close> and 2024-06-17 the
  stage reports a ROAS of 4 (all records: 100 over 25) against a previous 3 (the records
  from 2024-05-18 on: 30 over 10), and a CAC of 25 against 10. With the two windows of
  the claim the current ROAS would be 3 and the previous one 4 (the records from
  2024-04-18 to 2024-05-18: 20 over 5), the CAC 10 against 5.
\<close>

theorem trend_windows_counterexample:
  "map_option (\<lambda>m. ((current (ma_roas m), previous (ma_roas m)),
                     (current (ma_cac m), previous (ma_cac m))))
     (metricsAnalysis (analyzeMetrics (env_of (Inr threePeriods) ''ok'')
        (loadData (env_of (Inr threePeriods) ''ok'') (initialState ''2024-06-17''))))
     = Some ((Num 4, Num 3), (Num 25, Num 10))
   \<and> specifiedMetricsTrend (fixedZone 0) ''2024-06-17'' threePeriods
     = Inr \<lparr>roas = \<lparr>current = Num 3, previous = Num 4, percentageChange = Num (- 25),
                     isSignificant = True\<rparr>,
            cac = \<lparr>current = Num 10, previous = Num 5, percentageChange = Num 100,
                    isSignificant = True\<rparr>\<rparr>"
proof -
  let ?E = "env_of (Inr threePeriods) ''ok''"
  let ?S = "loadData ?E (initialState ''2024-06-17'')"
  have past: "calculatePreviousPeriodStartDate (zone ?E) (st_date ?S) (Some (Num 30))
                = Inr ''2024-05-18''"
    using previous_period_start_example [of 0] by (simp add: env_of_fields loaded_threePeriods)
  from analyzeMetrics_result [OF loaded_threePeriods(1) past] obtain r1 r2 where
    "analyzeMetrics ?E ?S = ?S\<lparr>metricsAnalysis :=
           Some \<lparr>ma_roas = withReasons (roas (calculateMetricsTrend (td_transactions threePeriods)
                     (td_sourceData threePeriods)
                     (filterTransactionsByDateRange (td_transactions threePeriods) ''2024-05-18'' (st_date ?S))
                     (filterSourceDataByDateRange (td_sourceData threePeriods) ''2024-05-18'' (st_date ?S)))) r1,
                 ma_cac = withReasons (cac (calculateMetricsTrend (td_transactions threePeriods)
                     (td_sourceData threePeriods)
                     (filterTransactionsByDateRange (td_transactions threePeriods) ''2024-05-18'' (st_date ?S))
                     (filterSourceDataByDateRange (td_sourceData threePeriods) ''2024-05-18'' (st_date ?S)))) r2\<rparr>\<rparr>"
    by blast
  then have code: "map_option (\<lambda>m. ((current (ma_roas m), previous (ma_roas m)),
                     (current (ma_cac m), previous (ma_cac m))))
     (metricsAnalysis (analyzeMetrics ?E ?S)) = Some ((Num 4, Num 3), (Num 25, Num 10))"
    by (simp add: loaded_threePeriods(2) threePeriods_windows threePeriods_code_trend
          withReasons_fields)
  have spec: "specifiedMetricsTrend (fixedZone 0) ''2024-06-17'' threePeriods
     = Inr \<lparr>roas = \<lparr>current = Num 3, previous = Num 4, percentageChange = Num (- 25),
                     isSignificant = True\<rparr>,
            cac = \<lparr>current = Num 10, previous = Num 5, percentageChange = Num 100,
                    isSignificant = True\<rparr>\<rparr>"
    using previous_period_start_example [of 0] preceding_period_start_example [of 0]
    by (simp add: specifiedMetricsTrend_def threePeriods_windows threePeriods_specified_trend)
  from code spec show ?thesis ..
qed

text \<open>
  Claim C2, amended. For every run with analysis date \<open>d\<close> whose dataset is loaded, and
  with \<open>p\<close> the date that \<open>calculatePreviousPeriodStartDate(d, 30)\<close> returns, each trend
  comparison computes its calculator once over the whole loaded dataset, not filtered by
  date, as the current record set, and once over the previous-period record set, the
  records of the dataset that the date-range filters keep for the window from \<open>p\<close> to
  \<open>d\<close>: the metrics stage reports ROAS and CAC of all transactions and source data as
  current, and of the filtered ones as previous (0 when either filtered set is empty);
  the conversions stage, when its model call does not fail, reports the rates of all
  sessions, leads, contacts and transactions as current and the rates of the filtered
  ones as previous; the channels stage, when its model call does not fail, reports the
  distribution over all sessions as current and the distribution over the filtered
  sessions as previous.
\<close>

theorem trend_comparison_record_sets:
  assumes td: "testData s = Some td"
    and past: "calculatePreviousPeriodStartDate (zone env) (st_date s) (Some (Num 30)) = Inr p"
  shows
    "(let d = st_date s;
          pastSessions = filterSessionsByDateRange (td_sessions td) p d;
          pastLeads = filterLeadsByDateRange (td_leads td) p d;
          pastContacts = filterContactsByDateRange (td_contacts td) p d;
          pastTransactions = filterTransactionsByDateRange (td_transactions td) p d;
          pastSourceData = filterSourceDataByDateRange (td_sourceData td) p d
      in (\<exists>m. metricsAnalysis (analyzeMetrics env s) = Some m
            \<and> current (ma_roas m) = calculateROAS (td_transactions td) (td_sourceData td)
            \<and> current (ma_cac m) = calculateCAC (td_transactions td) (td_sourceData td)
            \<and> previous (ma_roas m)
                = (if pastTransactions = [] \<or> pastSourceData = [] then Num 0
                   else calculateROAS pastTransactions pastSourceData)
            \<and> previous (ma_cac m)
                = (if pastTransactions = [] \<or> pastSourceData = [] then Num 0
                   else calculateCAC pastTransactions pastSourceData))
       \<and> (error (analyzeConversions env s) = None \<longrightarrow>
            (\<exists>c. conversionAnalysis (analyzeConversions env s) = Some c
               \<and> map current (stages c)
                   = map current (calculateConversionRates (td_sessions td) (td_leads td)
                                    (td_contacts td) (td_transactions td))
               \<and> map previous (stages c)
                   = map current (calculateConversionRates pastSessions pastLeads pastContacts
                                    pastTransactions)))
       \<and> (error (analyzeChannels env s) = None \<longrightarrow>
            (\<exists>c. channelDistribution (analyzeChannels env s) = Some c
               \<and> map ch_current (channels c)
                   = map ch_current (analyzeChannelDistribution (td_sessions td) (td_atoms td))
               \<and> map ch_previous (channels c)
                   = map ch_current (analyzeChannelDistribution pastSessions (td_atoms td)))))"
proof -
  let ?d = "st_date s"
  let ?pss = "filterSessionsByDateRange (td_sessions td) p ?d"
  let ?pl = "filterLeadsByDateRange (td_leads td) p ?d"
  let ?pc = "filterContactsByDateRange (td_contacts td) p ?d"
  let ?pt = "filterTransactionsByDateRange (td_transactions td) p ?d"
  let ?ps = "filterSourceDataByDateRange (td_sourceData td) p ?d"
  let ?stages = "calculateConversionsTrend (td_sessions td) (td_leads td) (td_contacts td)
                   (td_transactions td) ?pss ?pl ?pc ?pt"
  let ?channels = "calculateChannelsTrend (td_sessions td) ?pss (td_atoms td)"
  have metrics: "\<exists>m. metricsAnalysis (analyzeMetrics env s) = Some m
            \<and> current (ma_roas m) = calculateROAS (td_transactions td) (td_sourceData td)
            \<and> current (ma_cac m) = calculateCAC (td_transactions td) (td_sourceData td)
            \<and> previous (ma_roas m)
                = (if ?pt = [] \<or> ?ps = [] then Num 0 else calculateROAS ?pt ?ps)
            \<and> previous (ma_cac m)
                = (if ?pt = [] \<or> ?ps = [] then Num 0 else calculateCAC ?pt ?ps)"
  proof -
    from analyzeMetrics_result [OF td past] obtain r1 r2 where
      "analyzeMetrics env s = s\<lparr>metricsAnalysis :=
           Some \<lparr>ma_roas = withReasons (roas (calculateMetricsTrend (td_transactions td)
                               (td_sourceData td) ?pt ?ps)) r1,
                 ma_cac = withReasons (cac (calculateMetricsTrend (td_transactions td)
                               (td_sourceData td) ?pt ?ps)) r2\<rparr>\<rparr>"
      by blast
    then show ?thesis
      by (simp add: withReasons_fields metrics_trend_values)
  qed
  have conversions: "\<exists>c. conversionAnalysis (analyzeConversions env s) = Some c
               \<and> map current (stages c)
                   = map current (calculateConversionRates (td_sessions td) (td_leads td)
                                    (td_contacts td) (td_transactions td))
               \<and> map previous (stages c) = map current (calculateConversionRates ?pss ?pl ?pc ?pt)"
    if "error (analyzeConversions env s) = None"
  proof (cases "conversionModel env ?stages")
    case (Inl err)
    then have "error (analyzeConversions env s) = Some err"
      by (simp add: analyzeConversions_def Let_def td past)
    with that show ?thesis by simp
  next
    case (Inr a)
    from analyzeConversions_result [OF td past Inr] show ?thesis
      by (simp add: conversions_trend_values)
  qed
  have chans: "\<exists>c. channelDistribution (analyzeChannels env s) = Some c
               \<and> map ch_current (channels c)
                   = map ch_current (analyzeChannelDistribution (td_sessions td) (td_atoms td))
               \<and> map ch_previous (channels c)
                   = map ch_current (analyzeChannelDistribution ?pss (td_atoms td))"
    if "error (analyzeChannels env s) = None"
  proof (cases "channelModel env ?channels")
    case (Inl err)
    then have "error (analyzeChannels env s) = Some err"
      by (simp add: analyzeChannels_def Let_def td past)
    with that show ?thesis by simp
  next
    case (Inr a)
    from analyzeChannels_result [OF td past Inr] show ?thesis
      by (simp add: channels_trend_values)
  qed
  show ?thesis
    unfolding Let_def using metrics conversions chans by blast
qed

text \<open>
  On \<open>threePeriods\<close> and 2024-06-17, in UTC: the dataset is loaded, the previous period
  starts on 2024-05-18, the two model calls answer; ROAS is 4 against 3 and CAC 25
  against 10, the overall conversion rate is 100 in both record sets, and each of the
  two channels has 50 percent over the two sessions of the dataset and 100 over the one
  session of the window.
\<close>

theorem trend_comparison_record_sets_witness:
  "testData (loadData (env_of (Inr threePeriods) ''ok'') (initialState ''2024-06-17''))
     = Some threePeriods
   \<and> calculatePreviousPeriodStartDate (zone (env_of (Inr threePeriods) ''ok''))
       (st_date (loadData (env_of (Inr threePeriods) ''ok'') (initialState ''2024-06-17'')))
       (Some (Num 30)) = Inr ''2024-05-18''
   \<and> map_option (\<lambda>m. ((current (ma_roas m), previous (ma_roas m)),
                       (current (ma_cac m), previous (ma_cac m))))
       (metricsAnalysis (analyzeMetrics (env_of (Inr threePeriods) ''ok'')
          (loadData (env_of (Inr threePeriods) ''ok'') (initialState ''2024-06-17''))))
       = Some ((Num 4, Num 3), (Num 25, Num 10))
   \<and> error (analyzeConversions (env_of (Inr threePeriods) ''ok'')
              (loadData (env_of (Inr threePeriods) ''ok'') (initialState ''2024-06-17''))) = None
   \<and> map_option (\<lambda>c. (map current (stages c), map previous (stages c)))
       (conversionAnalysis (analyzeConversions (env_of (Inr threePeriods) ''ok'')
          (loadData (env_of (Inr threePeriods) ''ok'') (initialState ''2024-06-17''))))
       = Some ([Num 0, Num 0, Num 0, Num 100], [Num 0, Num 0, Num 0, Num 100])
   \<and> error (analyzeChannels (env_of (Inr threePeriods) ''ok'')
              (loadData (env_of (Inr threePeriods) ''ok'') (initialState ''2024-06-17''))) = None
   \<and> map_option (\<lambda>c. (map (\<lambda>ch. percentage (ch_current ch)) (channels c),
                       map (\<lambda>ch. percentage (ch_previous ch)) (channels c)))
       (channelDistribution (analyzeChannels (env_of (Inr threePeriods) ''ok'')
          (loadData (env_of (Inr threePeriods) ''ok'') (initialState ''2024-06-17''))))
       = Some ([Num 50, Num 50], [Num 100, Num 100])"
proof -
  let ?E = "env_of (Inr threePeriods) ''ok''"
  let ?S = "loadData ?E (initialState ''2024-06-17'')"
  note td = loaded_threePeriods(1) [of "''ok''" "''2024-06-17''"]
  have past: "calculatePreviousPeriodStartDate (zone ?E) (st_date ?S) (Some (Num 30))
                = Inr ''2024-05-18''"
    using previous_period_start_example [of 0] by (simp add: env_of_fields loaded_threePeriods)
  have conv: "conversionModel ?E x = Inr ''1. No conversions yet''" for x
    by (simp add: env_of_def)
  have chan: "channelModel ?E x = Inr ''No channels''" for x
    by (simp add: env_of_def)
  have e1: "error (analyzeConversions ?E ?S) = None"
    using analyzeConversions_result [OF td past conv] by (simp add: loaded_threePeriods)
  have e2: "error (analyzeChannels ?E ?S) = None"
    using analyzeChannels_result [OF td past chan] by (simp add: loaded_threePeriods)
  note T = trend_comparison_record_sets [OF td past, unfolded Let_def]
  from T obtain m where m: "metricsAnalysis (analyzeMetrics ?E ?S) = Some m"
    "current (ma_roas m) = Num 4" "current (ma_cac m) = Num 25"
    "previous (ma_roas m) = Num 3" "previous (ma_cac m) = Num 10"
    by (auto simp: loaded_threePeriods(2) threePeriods_windows threePeriods_values)
  from T e1 obtain c where c: "conversionAnalysis (analyzeConversions ?E ?S) = Some c"
    "map current (stages c) = [Num 0, Num 0, Num 0, Num 100]"
    "map previous (stages c) = [Num 0, Num 0, Num 0, Num 100]"
    by (auto simp: loaded_threePeriods(2) threePeriods_windows threePeriods_sessions_window
          threePeriods_rates)
  have sh: "map (\<lambda>ch. percentage (ch_current ch)) xs = map percentage (map ch_current xs)"
    "map (\<lambda>ch. percentage (ch_previous ch)) xs = map percentage (map ch_previous xs)" for xs
    by (simp_all add: comp_def)
  have sh1: "map percentage (map ch_current
                (analyzeChannelDistribution (td_sessions threePeriods) (td_atoms threePeriods)))
              = [Num 50, Num 50]"
    and sh2: "map percentage (map ch_current
                (analyzeChannelDistribution [session_on ''2024-06-01 09:00:00'']
                   (td_atoms threePeriods))) = [Num 100, Num 100]"
    using threePeriods_shares [THEN arg_cong, of "map snd"] by (simp_all add: comp_def)
  from T e2 obtain c' where c': "channelDistribution (analyzeChannels ?E ?S) = Some c'"
    "map ch_current (channels c')
       = map ch_current (analyzeChannelDistribution (td_sessions threePeriods) (td_atoms threePeriods))"
    "map ch_previous (channels c')
       = map ch_current (analyzeChannelDistribution [session_on ''2024-06-01 09:00:00'']
                           (td_atoms threePeriods))"
    by (auto simp: loaded_threePeriods(2) threePeriods_sessions_window)
  have "map_option (\<lambda>c. (map (\<lambda>ch. percentage (ch_current ch)) (channels c),
                       map (\<lambda>ch. percentage (ch_previous ch)) (channels c)))
       (channelDistribution (analyzeChannels ?E ?S)) = Some ([Num 50, Num 50], [Num 100, Num 100])"
    by (simp only: c'(1) option.map sh c'(2,3) sh1 sh2)
  with td past m c e1 e2 show ?thesis
    by simp
qed

section \<open>Rounding to binary64\<close>

text \<open>Powers of two, and the binade of a number.\<close>

lemma pow2_powr: "pow2 k = 2 powr (of_int k)"
  by (simp add: pow2_def powr_real_of_int)

lemma pow2_pos [simp]: "0 < pow2 k"
  by (simp add: pow2_powr)

lemma pow2_nonneg [simp]: "0 \<le> pow2 k"
  by (simp add: pow2_powr)

lemma pow2_add: "pow2 (a + b) = pow2 a * pow2 b"
  by (simp add: pow2_powr powr_add)

lemma pow2_le_iff [simp]: "pow2 a \<le> pow2 b \<longleftrightarrow> a \<le> b"
  by (simp add: pow2_powr)

lemma pow2_less_iff [simp]: "pow2 a < pow2 b \<longleftrightarrow> a < b"
  by (simp add: pow2_powr)

lemma pow2_numeral:
  "pow2 0 = 1" "pow2 1 = 2" "pow2 (numeral n) = 2 ^ numeral n"
  "pow2 (- numeral n) = inverse (2 ^ numeral n)"
  by (simp_all add: pow2_def)

lemma pow2_split: "pow2 1024 = pow2 53 * pow2 971" "pow2 971 = 2 * pow2 970"
  "pow2 1024 = 2 * pow2 1023" "pow2 53 = 2 * pow2 52"
  using pow2_add [of 53 971] pow2_add [of 1 970] pow2_add [of 1 1023] pow2_add [of 1 52]
  by (simp_all add: pow2_numeral(2))

lemma pow2_int: "0 \<le> k \<Longrightarrow> pow2 k = of_int (2 ^ nat k)"
  by (simp add: pow2_def)

lemma binade_bounds:
  assumes "x \<noteq> 0"
  shows "pow2 (binade x) \<le> \<bar>x\<bar>" and "\<bar>x\<bar> < pow2 (binade x + 1)"
  using floor_log_eq_powr_iff [of "\<bar>x\<bar>" 2 "binade x"] assms
  by (simp_all add: binade_def pow2_powr)

lemma binade_eqI:
  assumes "pow2 e \<le> \<bar>x\<bar>" and "\<bar>x\<bar> < pow2 (e + 1)"
  shows "binade x = e"
proof -
  from assms(1) have "0 < \<bar>x\<bar>" using pow2_pos [of e] by linarith
  with floor_log_eq_powr_iff [of "\<bar>x\<bar>" 2 e] assms show ?thesis
    by (simp add: binade_def pow2_powr)
qed

text \<open>The rounded integer is within a half of the number, and an integer stands.\<close>

lemma roundTiesToEven_upper: "of_int (roundTiesToEven r) \<le> r + 1 / 2"
  unfolding roundTiesToEven_def Let_def by (auto; linarith)

lemma roundTiesToEven_lower: "r - 1 / 2 \<le> of_int (roundTiesToEven r)"
  unfolding roundTiesToEven_def Let_def by (auto; linarith)

lemma roundTiesToEven_of_int [simp]: "roundTiesToEven (of_int k) = k"
  by (simp add: roundTiesToEven_def)

lemma roundTiesToEven_nonneg: "0 \<le> r \<Longrightarrow> 0 \<le> roundTiesToEven r"
  unfolding roundTiesToEven_def Let_def by (auto; linarith)

lemma int_le_real: "(of_int a :: real) < of_int b + 1 \<Longrightarrow> a \<le> b"
  by linarith

lemma int_ge_real: "(of_int b :: real) - 1 < of_int a \<Longrightarrow> b \<le> a"
  by linarith

text \<open>
  Rounding a number whose binade is known: this is how a concrete value is computed,
  the binade being checked by two comparisons.
\<close>

lemma roundToDouble_eval:
  assumes "pow2 e \<le> \<bar>x\<bar>" and "\<bar>x\<bar> < pow2 (e + 1)"
  shows "roundToDouble x =
     (let q = max e (- 1022) - 52;
          m = roundTiesToEven (\<bar>x\<bar> / pow2 q);
          y = of_int m * pow2 q
      in if pow2 1024 \<le> y then (if x < 0 then NegInfinity else PosInfinity)
         else Num (if x < 0 then - y else y))"
proof -
  from assms(1) pow2_pos [of e] have "0 < \<bar>x\<bar>" by linarith
  then have "x \<noteq> 0" by simp
  then show ?thesis
    by (simp add: roundToDouble_def binade_eqI [OF assms])
qed

lemma roundToDouble_not_NaN [simp]: "roundToDouble x \<noteq> NaN"
  by (simp add: roundToDouble_def Let_def)

lemma roundToDouble_zero [simp]: "roundToDouble 0 = Num 0"
  by (simp add: roundToDouble_def)

lemmas ev = pow2_def Let_def roundTiesToEven_def

text \<open>
  The magnitude of the rounded value, by the binade: below \<open>2 ^ 1023\<close> nothing
  overflows; in the last binade the result is an infinity from \<open>2 ^ 1024 - 2 ^ 970\<close>
  on, half a spacing past the largest finite value; above it everything does.
\<close>

lemma rounded_magnitude:
  assumes x: "x \<noteq> 0"
  defines "q \<equiv> max (binade x) (- 1022) - 52"
  defines "m \<equiv> roundTiesToEven (\<bar>x\<bar> / pow2 q)"
  shows "binade x \<le> 1022 \<Longrightarrow> of_int m * pow2 q \<le> pow2 1023"
    and "binade x = 1023 \<Longrightarrow> (pow2 1024 \<le> of_int m * pow2 q) = (overflowBound \<le> \<bar>x\<bar>)"
    and "binade x = 1023 \<Longrightarrow> of_int m * pow2 q < pow2 1024 \<Longrightarrow> of_int m * pow2 q \<le> maxDouble"
    and "1024 \<le> binade x \<Longrightarrow> pow2 1024 \<le> of_int m * pow2 q"
proof -
  let ?e = "binade x"
  let ?r = "\<bar>x\<bar> / pow2 q"
  define K :: int where "K = 2 ^ 53"
  define H :: int where "H = 2 ^ 52"
  have K: "pow2 53 = of_int K" and H: "pow2 52 = of_int H"
    by (simp_all add: K_def H_def pow2_int)
  have evenK: "even K" by (simp add: K_def)
  note b = binade_bounds [OF x]
  have up: "of_int m \<le> ?r + 1 / 2" and lo: "?r - 1 / 2 \<le> of_int m"
    unfolding m_def by (rule roundTiesToEven_upper, rule roundTiesToEven_lower)
  {
    assume e: "?e \<le> 1022"
    have "?e + 1 \<le> 53 + q" using e by (simp add: q_def)
    then have "pow2 (?e + 1) \<le> pow2 (53 + q)" by (simp only: pow2_le_iff)
    with b(2) have "\<bar>x\<bar> < of_int K * pow2 q" by (simp add: pow2_add K)
    then have "?r < of_int K" by (simp add: pos_divide_less_eq)
    with up have "(of_int m :: real) < of_int K + 1" by linarith
    then have "m \<le> K" by (rule int_le_real)
    then have "(of_int m :: real) \<le> of_int K" by simp
    then have "of_int m * pow2 q \<le> of_int K * pow2 q" by (simp add: mult_right_mono)
    also have "\<dots> = pow2 (53 + q)" by (simp add: pow2_add K)
    also have "\<dots> \<le> pow2 1023" using e by (simp add: q_def)
    finally show "of_int m * pow2 q \<le> pow2 1023" .
  }
  {
    assume e: "?e = 1023"
    then have q: "q = 971" by (simp add: q_def)
    have ge: "(pow2 1024 \<le> of_int m * pow2 q) = (K \<le> m)"
    proof -
      have "(pow2 1024 \<le> of_int m * pow2 q) = ((of_int K :: real) \<le> of_int m)"
        by (simp add: q pow2_split(1) K)
      then show ?thesis by simp
    qed
    have bound: "(overflowBound \<le> \<bar>x\<bar>) = (of_int K - 1 / 2 \<le> ?r)"
    proof -
      have "overflowBound = (of_int K - 1 / 2) * pow2 q"
        by (simp add: overflowBound_def q pow2_split(1,2) K algebra_simps)
      then show ?thesis
        by (simp add: pos_le_divide_eq)
    qed
    have "(K \<le> m) = (of_int K - 1 / 2 \<le> ?r)"
    proof
      assume "K \<le> m"
      then have "(of_int K :: real) \<le> of_int m" by simp
      with up show "of_int K - 1 / 2 \<le> ?r" by linarith
    next
      assume r: "of_int K - 1 / 2 \<le> ?r"
      show "K \<le> m"
      proof (cases "?r = of_int K - 1 / 2")
        case True
        have "\<lfloor>(of_int K - 1 / 2 :: real)\<rfloor> = K - 1"
          by (simp add: floor_eq_iff)
        then show ?thesis
          unfolding m_def True using evenK by (simp add: roundTiesToEven_def Let_def)
      next
        case False
        with r lo have "(of_int K :: real) - 1 < of_int m" by linarith
        then show ?thesis by (rule int_ge_real)
      qed
    qed
    with ge bound show "(pow2 1024 \<le> of_int m * pow2 q) = (overflowBound \<le> \<bar>x\<bar>)" by simp
    assume "of_int m * pow2 q < pow2 1024"
    with ge have "m \<le> K - 1" by simp
    then have "(of_int m :: real) \<le> of_int K - 1" by linarith
    then have "of_int m * pow2 q \<le> (of_int K - 1) * pow2 q" by (simp add: mult_right_mono)
    also have "\<dots> = maxDouble" by (simp add: maxDouble_def q pow2_split(1) K algebra_simps)
    finally show "of_int m * pow2 q \<le> maxDouble" .
  }
  {
    assume e: "1024 \<le> ?e"
    then have q: "q = ?e - 52" by (simp add: q_def)
    have pe: "pow2 ?e = of_int H * pow2 q" using pow2_add [of 52 q] by (simp add: q H)
    with b(1) have "of_int H \<le> ?r" by (simp add: pos_le_divide_eq)
    with lo have "(of_int H :: real) - 1 < of_int m" by linarith
    then have "H \<le> m" by (rule int_ge_real)
    then have "(of_int H :: real) \<le> of_int m" by simp
    then have "of_int H * pow2 q \<le> of_int m * pow2 q" by (simp add: mult_right_mono)
    then have "pow2 ?e \<le> of_int m * pow2 q" using pe by simp
    moreover have "pow2 1024 \<le> pow2 ?e" using e by (simp only: pow2_le_iff)
    ultimately show "pow2 1024 \<le> of_int m * pow2 q" by linarith
  }
qed

lemma bounds_order:
  "pow2 1023 < overflowBound" "overflowBound < pow2 1024" "pow2 1023 \<le> maxDouble"
  "maxDouble < overflowBound" "0 < overflowBound" "0 < maxDouble"
proof -
  have a: "pow2 970 < pow2 1023" "pow2 971 \<le> pow2 1023" by simp_all
  show "pow2 1023 < overflowBound" "overflowBound < pow2 1024" "pow2 1023 \<le> maxDouble"
    "maxDouble < overflowBound"
    using a pow2_pos [of 970] by (simp_all add: overflowBound_def maxDouble_def pow2_split(2,3))
  then show "0 < overflowBound" "0 < maxDouble"
    using pow2_pos [of 1023] by linarith+
qed

lemma roundToDouble_finite_iff: "isFiniteNum (roundToDouble x) \<longleftrightarrow> \<bar>x\<bar> < overflowBound"
proof (cases "x = 0")
  case True
  then show ?thesis by (simp add: roundToDouble_def bounds_order)
next
  case False
  let ?q = "max (binade x) (- 1022) - 52"
  let ?y = "of_int (roundTiesToEven (\<bar>x\<bar> / pow2 ?q)) * pow2 ?q"
  have fin: "isFiniteNum (roundToDouble x) = (\<not> pow2 1024 \<le> ?y)"
    using False by (simp add: roundToDouble_def Let_def)
  note b = binade_bounds [OF False]
  consider "binade x \<le> 1022" | "binade x = 1023" | "1024 \<le> binade x" by linarith
  then show ?thesis
  proof cases
    case 1
    from rounded_magnitude(1) [OF False 1] have "?y \<le> pow2 1023" .
    with pow2_pos [of 1023] pow2_split(3) have "\<not> pow2 1024 \<le> ?y" by linarith
    moreover have "pow2 (binade x + 1) \<le> pow2 1023" using 1 by simp
    with b(2) bounds_order(1) have "\<bar>x\<bar> < overflowBound" by linarith
    ultimately show ?thesis by (simp add: fin)
  next
    case 2
    from rounded_magnitude(2) [OF False 2] show ?thesis
      by (simp add: fin not_le)
  next
    case 3
    from rounded_magnitude(4) [OF False 3] have "pow2 1024 \<le> ?y" .
    moreover have "pow2 1024 \<le> pow2 (binade x)" using 3 by (simp only: pow2_le_iff)
    with b(1) bounds_order(2) have "\<not> \<bar>x\<bar> < overflowBound" by linarith
    ultimately show ?thesis by (simp add: fin)
  qed
qed

lemma roundToDouble_range:
  assumes "roundToDouble x = Num y"
  shows "\<bar>y\<bar> \<le> maxDouble"
proof (cases "x = 0")
  case True
  with assms show ?thesis using bounds_order(6) by (simp add: roundToDouble_def)
next
  case False
  let ?q = "max (binade x) (- 1022) - 52"
  let ?m = "roundTiesToEven (\<bar>x\<bar> / pow2 ?q)"
  let ?y = "of_int ?m * pow2 ?q"
  from assms False have lt: "?y < pow2 1024" and y: "\<bar>y\<bar> = \<bar>?y\<bar>"
    by (auto simp: roundToDouble_def Let_def split: if_splits)
  have "0 \<le> ?m" by (rule roundTiesToEven_nonneg) simp
  then have nn: "0 \<le> ?y" by simp
  consider "binade x \<le> 1022" | "binade x = 1023" | "1024 \<le> binade x" by linarith
  then have "?y \<le> maxDouble"
  proof cases
    case 1
    from rounded_magnitude(1) [OF False 1] bounds_order(3) show ?thesis by linarith
  next
    case 2
    from rounded_magnitude(3) [OF False 2 lt] show ?thesis .
  next
    case 3
    from rounded_magnitude(4) [OF False 3] lt show ?thesis by linarith
  qed
  with nn y show ?thesis by simp
qed

text \<open>An integer below \<open>2 ^ 53\<close> in magnitude is a binary64 value.\<close>

lemma roundToDouble_int:
  assumes "\<bar>n\<bar> < 2 ^ 53"
  shows "roundToDouble (of_int n) = Num (of_int n)"
proof (cases "n = 0")
  case True
  then show ?thesis by (simp add: roundToDouble_def)
next
  case False
  let ?x = "of_int n :: real"
  let ?e = "binade ?x"
  have x: "?x \<noteq> 0" using False by simp
  note b = binade_bounds [OF x]
  have "pow2 0 \<le> \<bar>?x\<bar>" using False by (simp add: pow2_def)
  with b(2) have "pow2 0 < pow2 (?e + 1)" by linarith
  then have e0: "0 \<le> ?e" by simp
  have "\<bar>?x\<bar> < pow2 53"
  proof -
    have "\<bar>?x\<bar> = of_int \<bar>n\<bar>" by simp
    also have "\<dots> < of_int (2 ^ 53)" using assms by (simp only: of_int_less_iff)
    also have "\<dots> = pow2 53" by (simp add: pow2_int)
    finally show ?thesis .
  qed
  with b(1) have "pow2 ?e < pow2 53" by linarith
  then have e52: "?e \<le> 52" by simp
  define k where "k = nat (52 - ?e)"
  have q: "max ?e (- 1022) - 52 = - int k" using e0 e52 by (simp add: k_def)
  have pq: "pow2 (- int k) = inverse (2 ^ k)"
    by (cases "k = 0") (simp_all add: pow2_def)
  have r: "\<bar>?x\<bar> / pow2 (- int k) = of_int (\<bar>n\<bar> * 2 ^ k)"
    by (simp add: pq divide_inverse)
  have m: "roundTiesToEven (\<bar>?x\<bar> / pow2 (- int k)) = \<bar>n\<bar> * 2 ^ k"
    unfolding r by (rule roundTiesToEven_of_int)
  have y: "of_int (\<bar>n\<bar> * 2 ^ k) * pow2 (- int k) = \<bar>?x\<bar>"
    by (simp add: pq field_simps)
  have small: "\<not> pow2 1024 \<le> \<bar>?x\<bar>"
  proof -
    have "pow2 53 < pow2 1024" by simp
    with \<open>\<bar>?x\<bar> < pow2 53\<close> show ?thesis by linarith
  qed
  have my: "of_int (roundTiesToEven (\<bar>?x\<bar> / pow2 (max ?e (- 1022) - 52)))
              * pow2 (max ?e (- 1022) - 52) = \<bar>?x\<bar>"
    by (simp only: q m y)
  show ?thesis
    by (simp only: roundToDouble_def Let_def my) (use x small in auto)
qed

lemma roundToDouble_numeral:
  "(numeral k :: int) < 2 ^ 53 \<Longrightarrow> roundToDouble (numeral k) = Num (numeral k)"
  using roundToDouble_int [of "numeral k"] by simp

lemma roundToDouble_nat:
  "n < 2 ^ 53 \<Longrightarrow> roundToDouble (real n) = Num (real n)"
  using roundToDouble_int [of "int n"] by simp

lemma roundToDouble_one [simp]: "roundToDouble 1 = Num 1"
  using roundToDouble_int [of 1] by simp

lemma fl_not_NaN: "fl a = NaN \<longleftrightarrow> a = NaN"
  by (cases a) simp_all

lemma fl_finite_iff: "isFiniteNum (fl (Num x)) \<longleftrightarrow> \<bar>x\<bar> < overflowBound"
  by (simp add: roundToDouble_finite_iff)

lemma fl_range: "isFiniteNum (fl a) \<Longrightarrow> \<bar>valueOf (fl a)\<bar> \<le> maxDouble"
proof (cases a)
  case (Num x)
  assume "isFiniteNum (fl a)"
  then obtain y where "roundToDouble x = Num y"
    using Num by (cases "roundToDouble x") simp_all
  with roundToDouble_range [OF this] Num show ?thesis by simp
qed simp_all

lemma f64_div_finite:
  "b \<noteq> 0 \<Longrightarrow> f64_div (Num a) (Num b) = roundToDouble (a / b)"
  by (simp add: f64_div_def)

lemma isFiniteNum_cases: "isFiniteNum a \<Longrightarrow> \<exists>x. a = Num x"
  by (cases a) simp_all

section \<open>The metric calculators guard a zero divisor, not the range\<close>

lemma reduce_sum_f64_Nil: "reduce_sum_f64 f [] = Num 0"
  by (simp add: reduce_sum_f64_def)

lemma reduce_sum_f64_snoc:
  "reduce_sum_f64 f (xs @ [x]) = f64_add (reduce_sum_f64 f xs) (f x)"
  by (simp add: reduce_sum_f64_def)

lemma reduce_sum_f64_range:
  "isFiniteNum (reduce_sum_f64 f xs) \<Longrightarrow> \<bar>valueOf (reduce_sum_f64 f xs)\<bar> \<le> maxDouble"
proof (cases xs rule: rev_cases)
  case Nil
  then show ?thesis using bounds_order(6) by (simp add: reduce_sum_f64_Nil)
next
  case (snoc ys y)
  assume "isFiniteNum (reduce_sum_f64 f xs)"
  then show ?thesis
    unfolding snoc reduce_sum_f64_snoc f64_add_def by (rule fl_range)
qed

lemma quotient_values:
  "roundToDouble (5 / 2) = Num (5 / 2)"
  "roundToDouble (1 / 3) = Num (6004799503160661 / 2 ^ 54)"
  by (simp_all add: roundToDouble_eval [of 1] roundToDouble_eval [of "- 2"] ev)

lemma sums_50_40:
  "reduce_sum_f64 paidSumOriginalCurrency [tx_a, tx_b] = Num 100"
  "reduce_sum_f64 budgetSpent [sd_a] = Num 40"
  by (simp_all add: reduce_sum_f64_def f64_add_def tx_a_def tx_b_def sd_a_def roundToDouble_numeral)

lemma large_values:
  "roundToDouble (2 ^ 1023) = Num (2 ^ 1023)"
  "roundToDouble (2 ^ 1023 + 2 ^ 1023) = PosInfinity"
  "roundToDouble (2 * 2 ^ 1023) = PosInfinity"
  by (simp_all add: roundToDouble_eval [of 1023] roundToDouble_eval [of 1024] ev)

lemma tenth_values:
  "roundToDouble (3602879701896397 / 2 ^ 55) = Num (3602879701896397 / 2 ^ 55)"
  "roundToDouble (3602879701896397 / 2 ^ 55 + 3602879701896397 / 2 ^ 54)
     = Num (5404319552844596 / 2 ^ 54)"
  "roundToDouble (5404319552844596 / 2 ^ 54 + - (5404319552844595 / 2 ^ 54)) = Num (1 / 2 ^ 54)"
  by (simp_all add: roundToDouble_eval [of "- 4"] roundToDouble_eval [of "- 2"]
        roundToDouble_eval [of "- 54"] ev)

text \<open>
  Claim C6, as stated, fails: the guards keep a zero divisor out and nothing else. An
  amount that is infinite, as the loader's \<open>parseFloat\<close> returns for \<open>1e999\<close>, gives an
  infinite ROAS and an infinite CAC; two finite payments of \<open>2 ^ 1023\<close> have an infinite
  sum and so an infinite ROAS; an infinite spend and its negative sum to NaN, which is
  not \<open>=== 0\<close>, and the ROAS is NaN. Nor is the quotient the one of the exact sums: the
  spends 0.1, 0.2 and -0.3 (the binary64 values of these literals) sum to \<open>2 ^ - 55\<close>
  exactly and to \<open>2 ^ - 54\<close> as the code adds them, so a revenue of 1 has a ROAS of
  \<open>2 ^ 54\<close> where the exact arithmetic of the earlier sections gives \<open>2 ^ 55\<close>.
\<close>

theorem calculators_not_finite_counterexample:
  "calculateROAS_f64 [tx_a\<lparr>paidSumOriginalCurrency := PosInfinity\<rparr>] [sd_a] = PosInfinity
   \<and> calculateROAS_f64 [tx_of (2 ^ 1023), tx_of (2 ^ 1023)] [sd_1] = PosInfinity
   \<and> calculateROAS_f64 [tx_a] [sd_a\<lparr>budgetSpent := PosInfinity\<rparr>, sd_a\<lparr>budgetSpent := NegInfinity\<rparr>]
       = NaN
   \<and> calculateCAC_f64 [tx_a] [sd_a\<lparr>budgetSpent := PosInfinity\<rparr>] = PosInfinity
   \<and> calculateROAS_f64 [tx_of 1]
        [sd_on ''2024-06-01'' (3602879701896397 / 2 ^ 55),
         sd_on ''2024-06-02'' (3602879701896397 / 2 ^ 54),
         sd_on ''2024-06-03'' (- (5404319552844595 / 2 ^ 54))] = Num (2 ^ 54)
   \<and> calculateROAS [tx_of 1]
        [sd_on ''2024-06-01'' (3602879701896397 / 2 ^ 55),
         sd_on ''2024-06-02'' (3602879701896397 / 2 ^ 54),
         sd_on ''2024-06-03'' (- (5404319552844595 / 2 ^ 54))] = Num (2 ^ 55)"
proof (intro conjI)
  show "calculateROAS [tx_of 1]
        [sd_on ''2024-06-01'' (3602879701896397 / 2 ^ 55),
         sd_on ''2024-06-02'' (3602879701896397 / 2 ^ 54),
         sd_on ''2024-06-03'' (- (5404319552844595 / 2 ^ 54))] = Num (2 ^ 55)"
    by (simp add: calculateROAS_def reduce_sum_def js_seq_def tx_of_def sd_on_def)
  show "calculateROAS_f64 [tx_a\<lparr>paidSumOriginalCurrency := PosInfinity\<rparr>] [sd_a] = PosInfinity"
    by (simp add: calculateROAS_f64_def reduce_sum_f64_def f64_add_def f64_div_def js_seq_def
          tx_a_def sd_a_def roundToDouble_numeral)
  show "calculateROAS_f64 [tx_of (2 ^ 1023), tx_of (2 ^ 1023)] [sd_1] = PosInfinity"
    by (simp add: calculateROAS_f64_def reduce_sum_f64_def f64_add_def f64_div_def js_seq_def
          tx_of_def sd_1_def large_values del: power_numeral numeral_pow)
  show "calculateROAS_f64 [tx_a] [sd_a\<lparr>budgetSpent := PosInfinity\<rparr>, sd_a\<lparr>budgetSpent := NegInfinity\<rparr>]
       = NaN"
    by (simp add: calculateROAS_f64_def reduce_sum_f64_def f64_add_def f64_div_def js_seq_def
          tx_a_def sd_a_def roundToDouble_numeral)
  show "calculateCAC_f64 [tx_a] [sd_a\<lparr>budgetSpent := PosInfinity\<rparr>] = PosInfinity"
    by (simp add: calculateCAC_f64_def reduce_sum_f64_def f64_add_def f64_div_def set_size_def
          count_def tx_a_def sd_a_def)
  have spend: "reduce_sum_f64 budgetSpent
        [sd_on ''2024-06-01'' (3602879701896397 / 2 ^ 55),
         sd_on ''2024-06-02'' (3602879701896397 / 2 ^ 54),
         sd_on ''2024-06-03'' (- (5404319552844595 / 2 ^ 54))] = Num (1 / 2 ^ 54)"
    by (simp only: reduce_sum_f64_def foldl.simps f64_add_def sd_on_def SourceData.simps
          js_add.simps add_0 tenth_values fl.simps)
  have rev: "reduce_sum_f64 paidSumOriginalCurrency [tx_of 1] = Num 1"
    by (simp add: reduce_sum_f64_def f64_add_def tx_of_def)
  show "calculateROAS_f64 [tx_of 1]
        [sd_on ''2024-06-01'' (3602879701896397 / 2 ^ 55),
         sd_on ''2024-06-02'' (3602879701896397 / 2 ^ 54),
         sd_on ''2024-06-03'' (- (5404319552844595 / 2 ^ 54))] = Num (2 ^ 54)"
    unfolding calculateROAS_f64_def Let_def spend rev
    by (simp add: f64_div_def js_seq_def roundToDouble_eval [of 54] ev)
qed

text \<open>
  Claim C6, amended. For all transaction and spend record sets, in binary64 arithmetic:
  the total revenue and the total spend are the running sums from 0, each addition
  rounded; ROAS is 0 when the total spend so computed is 0, in particular for an empty
  spend list, and the rounded quotient of the two totals otherwise; CAC is exactly 0
  when no transaction is a first payment, and otherwise the rounded quotient of the total
  spend by the number of distinct client ids among the first-payment transactions.
  Neither divides by zero. The results are not always finite: when both totals are
  finite ROAS is never NaN, and it is finite exactly when the total spend is 0 or the
  quotient of the totals is below \<open>2 ^ 1024 - 2 ^ 970\<close> in magnitude; CAC is finite
  whenever the total spend is.
\<close>

theorem calculators_guard_zero_divisor:
  "(let revenue = reduce_sum_f64 paidSumOriginalCurrency transactions;
        spend = reduce_sum_f64 budgetSpent sourceData;
        customers = card (tx_mcId ` set (filter ch_isFirstClientPaid transactions))
    in calculateROAS_f64 transactions sourceData
         = (if spend = Num 0 then Num 0 else f64_div revenue spend)
     \<and> calculateCAC_f64 transactions sourceData
         = (if customers = 0 then Num 0 else f64_div spend (Num (real customers)))
     \<and> (isFiniteNum revenue \<and> isFiniteNum spend \<longrightarrow>
          calculateROAS_f64 transactions sourceData \<noteq> NaN
          \<and> (spend \<noteq> Num 0 \<longrightarrow>
               calculateROAS_f64 transactions sourceData
                 = roundToDouble (valueOf revenue / valueOf spend))
          \<and> (isFiniteNum (calculateROAS_f64 transactions sourceData)
               \<longleftrightarrow> spend = Num 0 \<or> \<bar>valueOf revenue / valueOf spend\<bar> < overflowBound))
     \<and> (isFiniteNum spend \<longrightarrow>
          isFiniteNum (calculateCAC_f64 transactions sourceData)
          \<and> (customers \<noteq> 0 \<longrightarrow>
               calculateCAC_f64 transactions sourceData
                 = roundToDouble (valueOf spend / real customers))))
   \<and> calculateROAS_f64 transactions [] = Num 0
   \<and> (filter ch_isFirstClientPaid transactions = [] \<longrightarrow>
        calculateCAC_f64 transactions sourceData = Num 0)
   \<and> reduce_sum_f64 f [] = Num 0
   \<and> reduce_sum_f64 f (xs @ [x]) = f64_add (reduce_sum_f64 f xs) (f x)"
proof -
  let ?R = "reduce_sum_f64 paidSumOriginalCurrency transactions"
  let ?T = "reduce_sum_f64 budgetSpent sourceData"
  define n where "n = card (tx_mcId ` set (filter ch_isFirstClientPaid transactions))"
  have cu: "set_size (map tx_mcId (filter ch_isFirstClientPaid transactions)) = n"
    by (simp add: n_def set_size_def length_remdups_card_conv)
  have roas: "calculateROAS_f64 transactions sourceData
                = (if ?T = Num 0 then Num 0 else f64_div ?R ?T)"
    by (simp add: calculateROAS_f64_def Let_def js_seq_def)
  have cac: "calculateCAC_f64 transactions sourceData
               = (if n = 0 then Num 0 else f64_div ?T (Num (real n)))"
    by (simp only: calculateCAC_f64_def Let_def cu count_def)
  have fin_roas: "calculateROAS_f64 transactions sourceData \<noteq> NaN
          \<and> (?T \<noteq> Num 0 \<longrightarrow>
               calculateROAS_f64 transactions sourceData = roundToDouble (valueOf ?R / valueOf ?T))
          \<and> (isFiniteNum (calculateROAS_f64 transactions sourceData)
               \<longleftrightarrow> ?T = Num 0 \<or> \<bar>valueOf ?R / valueOf ?T\<bar> < overflowBound)"
    if "isFiniteNum ?R \<and> isFiniteNum ?T"
  proof -
    from that obtain a b where ab: "?R = Num a" "?T = Num b"
      using isFiniteNum_cases by blast
    show ?thesis
      unfolding roas ab
      by (simp add: f64_div_def roundToDouble_finite_iff)
  qed
  have fin_cac: "isFiniteNum (calculateCAC_f64 transactions sourceData)
          \<and> (n \<noteq> 0 \<longrightarrow>
               calculateCAC_f64 transactions sourceData = roundToDouble (valueOf ?T / real n))"
    if "isFiniteNum ?T"
  proof -
    from that obtain b where b: "?T = Num b"
      using isFiniteNum_cases by blast
    from reduce_sum_f64_range [OF that] have r: "\<bar>b\<bar> \<le> maxDouble" by (simp add: b)
    show ?thesis
    proof (cases "n = 0")
      case True
      then show ?thesis by (simp add: cac)
    next
      case False
      then have n: "1 \<le> real n" by simp
      have "\<bar>b / real n\<bar> = \<bar>b\<bar> / real n" by simp
      also have "\<dots> \<le> \<bar>b\<bar> / 1" using n by (intro divide_left_mono) simp_all
      finally have "\<bar>b / real n\<bar> < overflowBound" using r bounds_order(4) by simp
      then show ?thesis
        using False by (simp add: cac b f64_div_def roundToDouble_finite_iff)
    qed
  qed
  have empty: "calculateROAS_f64 transactions [] = Num 0"
    by (simp add: calculateROAS_f64_def reduce_sum_f64_Nil js_seq_def)
  have nofirst: "calculateCAC_f64 transactions sourceData = Num 0"
    if "filter ch_isFirstClientPaid transactions = []"
    using that by (simp add: calculateCAC_f64_def set_size_def)
  show ?thesis
    unfolding Let_def
    apply (fold n_def)
    using roas cac fin_roas fin_cac empty nofirst reduce_sum_f64_Nil [of f]
      reduce_sum_f64_snoc [of f xs x]
    by blast
qed

text \<open>
  Two first payments of 50 by different clients against a spend of 40: ROAS 2.5 and
  CAC 20, both exact; no spend records: ROAS 0; no transactions: CAC 0; a revenue of 1
  against a spend of 3: the binary64 value next to one third.
\<close>

theorem calculators_guard_zero_divisor_witness:
  "calculateROAS_f64 [tx_a, tx_b] [sd_a] = Num (5 / 2)
   \<and> calculateCAC_f64 [tx_a, tx_b] [sd_a] = Num 20
   \<and> calculateROAS_f64 [tx_a, tx_b] [] = Num 0 \<and> calculateCAC_f64 [] [sd_a] = Num 0
   \<and> calculateROAS_f64 [tx_of 1] [sd_on ''2024-06-01'' 3] = Num (6004799503160661 / 2 ^ 54)"
proof -
  have s3: "reduce_sum_f64 paidSumOriginalCurrency [tx_of 1] = Num 1"
    "reduce_sum_f64 budgetSpent [sd_on ''2024-06-01'' 3] = Num 3"
    by (simp_all add: reduce_sum_f64_def f64_add_def tx_of_def sd_on_def roundToDouble_numeral)
  have fc: "filter ch_isFirstClientPaid [tx_a, tx_b] = [tx_a, tx_b]"
    and c: "card (tx_mcId ` set [tx_a, tx_b]) = 2"
    by (simp_all add: tx_a_def tx_b_def)
  from calculators_guard_zero_divisor [of "[tx_a, tx_b]" "[sd_a]" budgetSpent "[]" sd_a]
  have "calculateROAS_f64 [tx_a, tx_b] [sd_a] = Num (5 / 2)"
    and "calculateCAC_f64 [tx_a, tx_b] [sd_a] = Num 20"
    and "calculateROAS_f64 [tx_a, tx_b] [] = Num 0"
    unfolding Let_def fc c sums_50_40
    by (simp_all add: f64_div_def quotient_values roundToDouble_numeral)
  moreover from calculators_guard_zero_divisor [of "[]" "[sd_a]" budgetSpent "[]" sd_a]
  have "calculateCAC_f64 [] [sd_a] = Num 0"
    by simp
  moreover from calculators_guard_zero_divisor [of "[tx_of 1]" "[sd_on ''2024-06-01'' 3]"
                  budgetSpent "[]" sd_a]
  have "calculateROAS_f64 [tx_of 1] [sd_on ''2024-06-01'' 3] = Num (6004799503160661 / 2 ^ 54)"
    unfolding Let_def s3
    by (simp add: f64_div_def quotient_values)
  ultimately show ?thesis by simp
qed

section \<open>The significance boundary is inclusive on the computed change\<close>

lemma computed_change_values:
  "f64_mul (f64_div (f64_sub (Num 109) (Num 100)) (Num 100)) (Num 100) = Num 9"
  "f64_mul (f64_div (f64_sub (Num 110) (Num 100)) (Num 100)) (Num 100) = Num 10"
  by (simp_all add: f64_mul_def f64_div_def f64_sub_def js_sub_def roundToDouble_numeral
        roundToDouble_eval [of "- 4"] roundToDouble_eval [of 3] ev)

lemma isChangeSigificant_f64_computed:
  "\<not> js_seq prev (Num 0) \<Longrightarrow>
   isChangeSigificant_f64 cur prev threshold
     = js_ge (js_abs (f64_mul (f64_div (f64_sub cur prev) prev) (Num 100)))
         (case threshold of None \<Rightarrow> Num 10 | Some t \<Rightarrow> t)"
  by (simp add: isChangeSigificant_f64_def Let_def)

lemma js_gt_not_zero: "js_gt prev (Num 0) \<Longrightarrow> \<not> js_seq prev (Num 0)"
  by (cases prev) (simp_all add: js_gt_def js_seq_def)

lemma composeStage_f64_fields:
  "current (composeStage_f64 ps (st, i)) = current st"
  "name (composeStage_f64 ps (st, i)) = name st"
  "i < length ps \<Longrightarrow> previous (composeStage_f64 ps (st, i)) = current (ps ! i)"
  "\<not> i < length ps \<Longrightarrow> previous (composeStage_f64 ps (st, i)) = Num 0"
  by (simp_all add: composeStage_f64_def index_opt_def Let_def)

lemma composeStage_f64_change:
  assumes "js_gt (previous (composeStage_f64 ps (st, i))) (Num 0)"
  shows "percentageChange (composeStage_f64 ps (st, i))
           = f64_mul (f64_div (f64_sub (current (composeStage_f64 ps (st, i)))
                                  (previous (composeStage_f64 ps (st, i))))
                        (previous (composeStage_f64 ps (st, i)))) (Num 100)"
    and "isSignificant (composeStage_f64 ps (st, i))
           = js_ge (js_abs (percentageChange (composeStage_f64 ps (st, i)))) (Num 10)"
  using assms
  by (simp_all add: composeStage_f64_def Let_def isChangeSigificant_f64_computed js_gt_not_zero)

lemma length_calculateConversionRates_f64: "length (calculateConversionRates_f64 a b c d) = 4"
  by (simp add: calculateConversionRates_f64_def Let_def)

lemma metrics_trend_f64_fields:
  "current (roas (calculateMetricsTrend_f64 ct cs pt ps)) = calculateROAS_f64 ct cs"
  "current (cac (calculateMetricsTrend_f64 ct cs pt ps)) = calculateCAC_f64 ct cs"
  "previous (roas (calculateMetricsTrend_f64 ct cs pt ps))
     = (if pt = [] \<or> ps = [] then Num 0 else calculateROAS_f64 pt ps)"
  "previous (cac (calculateMetricsTrend_f64 ct cs pt ps))
     = (if pt = [] \<or> ps = [] then Num 0 else calculateCAC_f64 pt ps)"
  by (simp_all add: calculateMetricsTrend_f64_def Let_def)

lemma metrics_trend_f64_change:
  "js_gt (previous (roas (calculateMetricsTrend_f64 ct cs pt ps))) (Num 0) \<Longrightarrow>
   percentageChange (roas (calculateMetricsTrend_f64 ct cs pt ps))
     = f64_mul (f64_div (f64_sub (current (roas (calculateMetricsTrend_f64 ct cs pt ps)))
                            (previous (roas (calculateMetricsTrend_f64 ct cs pt ps))))
                  (previous (roas (calculateMetricsTrend_f64 ct cs pt ps)))) (Num 100)
   \<and> isSignificant (roas (calculateMetricsTrend_f64 ct cs pt ps))
     = js_ge (js_abs (percentageChange (roas (calculateMetricsTrend_f64 ct cs pt ps)))) (Num 10)"
  "js_gt (previous (cac (calculateMetricsTrend_f64 ct cs pt ps))) (Num 0) \<Longrightarrow>
   percentageChange (cac (calculateMetricsTrend_f64 ct cs pt ps))
     = f64_mul (f64_div (f64_sub (current (cac (calculateMetricsTrend_f64 ct cs pt ps)))
                            (previous (cac (calculateMetricsTrend_f64 ct cs pt ps))))
                  (previous (cac (calculateMetricsTrend_f64 ct cs pt ps)))) (Num 100)
   \<and> isSignificant (cac (calculateMetricsTrend_f64 ct cs pt ps))
     = js_ge (js_abs (percentageChange (cac (calculateMetricsTrend_f64 ct cs pt ps)))) (Num 10)"
  by (simp_all add: calculateMetricsTrend_f64_def Let_def isChangeSigificant_f64_computed
        js_gt_not_zero)

lemma boundary_core:
  assumes "js_gt p (Num 0) \<Longrightarrow>
             pc = f64_mul (f64_div (f64_sub c p) p) (Num 100)
             \<and> significant = js_ge (js_abs pc) (Num 10)"
  shows "(js_gt p (Num 0) \<longrightarrow>
            pc = f64_mul (f64_div (f64_sub c p) p) (Num 100)
            \<and> significant = js_ge (js_abs pc) (Num 10))
         \<and> (p = Num 100 \<and> c = Num 109 \<longrightarrow> pc = Num 9 \<and> \<not> significant)
         \<and> (p = Num 100 \<and> c = Num 110 \<longrightarrow> pc = Num 10 \<and> significant)"
proof (intro conjI impI)
  assume "js_gt p (Num 0)"
  with assms show "pc = f64_mul (f64_div (f64_sub c p) p) (Num 100)"
    and "significant = js_ge (js_abs pc) (Num 10)" by simp_all
next
  assume a: "p = Num 100 \<and> c = Num 109"
  then have "js_gt p (Num 0)" by (simp add: js_gt_def)
  with assms a show "pc = Num 9" and "\<not> significant"
    by (simp_all add: computed_change_values js_ge_def)
next
  assume a: "p = Num 100 \<and> c = Num 110"
  then have "js_gt p (Num 0)" by (simp add: js_gt_def)
  with assms a show "pc = Num 10" and "significant"
    by (simp_all add: computed_change_values js_ge_def)
qed

lemma conversions_trend_f64_values:
  "map current (calculateConversionsTrend_f64 s1 l1 c1 t1 s2 l2 c2 t2)
     = map current (calculateConversionRates_f64 s1 l1 c1 t1)
   \<and> map previous (calculateConversionsTrend_f64 s1 l1 c1 t1 s2 l2 c2 t2)
     = map current (calculateConversionRates_f64 s2 l2 c2 t2)"
proof -
  let ?cs = "calculateConversionRates_f64 s1 l1 c1 t1"
  let ?ps = "calculateConversionRates_f64 s2 l2 c2 t2"
  have len: "length ?ps = length ?cs"
    by (simp add: length_calculateConversionRates_f64)
  have tr: "calculateConversionsTrend_f64 s1 l1 c1 t1 s2 l2 c2 t2
              = map (composeStage_f64 ?ps) (zip ?cs [0 ..< length ?cs])"
    by (simp add: calculateConversionsTrend_f64_def Let_def)
  have "map current (map (composeStage_f64 ?ps) (zip ?cs [0 ..< length ?cs])) = map current ?cs"
    by (rule nth_equalityI) (simp_all add: composeStage_f64_fields len)
  moreover have "map previous (map (composeStage_f64 ?ps) (zip ?cs [0 ..< length ?cs]))
                   = map current ?ps"
    by (rule nth_equalityI) (simp_all add: composeStage_f64_fields len)
  ultimately show ?thesis
    unfolding tr by (intro conjI)
qed

lemma metrics_f64_single:
  "(numeral a :: int) < 2 ^ 53 \<Longrightarrow> (numeral b :: int) < 2 ^ 53 \<Longrightarrow>
   calculateROAS_f64 [tx_of (numeral a)] [sd_on d (numeral b)] = roundToDouble (numeral a / numeral b)
   \<and> calculateCAC_f64 [tx_of (numeral a)] [sd_on d (numeral b)] = Num (numeral b)"
  by (simp add: calculateROAS_f64_def calculateCAC_f64_def reduce_sum_f64_def f64_add_def
        f64_div_def js_seq_def set_size_def count_def tx_of_def sd_on_def roundToDouble_numeral)

lemma trend_109:
  "calculateMetricsTrend_f64 [tx_of 11881] [sd_on ''2024-06-10'' 109]
                             [tx_of 10000] [sd_on ''2024-05-10'' 100]
     = \<lparr>roas = \<lparr>current = Num 109, previous = Num 100, percentageChange = Num 9,
                 isSignificant = False\<rparr>,
        cac = \<lparr>current = Num 109, previous = Num 100, percentageChange = Num 9,
                isSignificant = False\<rparr>\<rparr>"
  by (simp add: calculateMetricsTrend_f64_def Let_def metrics_f64_single roundToDouble_numeral
        js_gt_def isChangeSigificant_f64_computed js_seq_def computed_change_values js_ge_def)

lemma trend_110:
  "calculateMetricsTrend_f64 [tx_of 12100] [sd_on ''2024-06-10'' 110]
                             [tx_of 10000] [sd_on ''2024-05-10'' 100]
     = \<lparr>roas = \<lparr>current = Num 110, previous = Num 100, percentageChange = Num 10,
                 isSignificant = True\<rparr>,
        cac = \<lparr>current = Num 110, previous = Num 100, percentageChange = Num 10,
                isSignificant = True\<rparr>\<rparr>"
  by (simp add: calculateMetricsTrend_f64_def Let_def metrics_f64_single roundToDouble_numeral
        js_gt_def isChangeSigificant_f64_computed js_seq_def computed_change_values js_ge_def)

lemma trend_nine_fifths:
  "roas (calculateMetricsTrend_f64 [tx_of 9] [sd_on ''2024-06-10'' 5]
                                   [tx_of 10] [sd_on ''2024-05-10'' 5])
     = \<lparr>current = Num (8106479329266893 / 2 ^ 52), previous = Num 2,
        percentageChange = Num (- (5629499534213119 / 2 ^ 49)), isSignificant = False\<rparr>"
  by (simp add: calculateMetricsTrend_f64_def Let_def metrics_f64_single roundToDouble_numeral
        js_gt_def isChangeSigificant_f64_computed js_seq_def js_ge_def
        f64_mul_def f64_div_def f64_sub_def js_sub_def
        roundToDouble_eval [of 0] roundToDouble_eval [of "- 3"] roundToDouble_eval [of "- 4"]
        roundToDouble_eval [of 3] ev)

lemma funnel_trend:
  "map (\<lambda>st. (current st, previous st, percentageChange st, isSignificant st))
       (calculateConversionsTrend_f64 [session_p] [lead_p] [] [] [session_p, session_q] [lead_p] [] [])
     = [(Num 100, Num 50, Num 100, True), (Num 0, Num 0, Num 0, False),
        (Num 0, Num 0, Num 0, False), (Num 0, Num 0, Num 0, False)]"
  by (simp add: calculateConversionsTrend_f64_def calculateConversionRates_f64_def Let_def
        set_size_def sessionIdentity_def mkStage_def count_def session_p_def session_q_def
        lead_p_def composeStage_f64_def index_opt_def js_gt_def
        isChangeSigificant_f64_computed js_seq_def js_ge_def upt_rec
        f64_mul_def f64_div_def f64_sub_def js_sub_def
        roundToDouble_numeral roundToDouble_eval [of "- 1"] ev)

lemma stage_trend:
  "map (\<lambda>st. (current st, previous st, percentageChange st, isSignificant st))
       [composeStage_f64 [mkStage ''Visitor to Lead'' (Num 100) (Num 0) (Num 0) False]
          (mkStage ''Visitor to Lead'' (Num 109) (Num 0) (Num 0) False, 0),
        composeStage_f64 [mkStage ''Visitor to Lead'' (Num 100) (Num 0) (Num 0) False]
          (mkStage ''Visitor to Lead'' (Num 110) (Num 0) (Num 0) False, 0)]
     = [(Num 109, Num 100, Num 9, False), (Num 110, Num 100, Num 10, True)]"
  by (simp add: composeStage_f64_def index_opt_def mkStage_def Let_def js_gt_def
        isChangeSigificant_f64_computed js_seq_def js_ge_def computed_change_values)

text \<open>
  Claim C8, in binary64 arithmetic. Every trend the composers emit (ROAS, CAC, each
  funnel stage, and \<open>composeStage\<close> on any stage) whose previous value is positive
  carries as \<open>percentageChange\<close> the value of \<open>((current - previous) / previous) * 100\<close>
  with each operation rounded, and is significant exactly when the absolute value of
  that computed change is at least 10: the comparison is \<open>>=\<close>, the boundary inclusive.
  With previous 100 and current 109 the computed change is 9 and the trend is not
  significant; with current 110 it is exactly 10 and the trend is significant; the
  roundings on the way (of 0.09 and of 0.1) cancel. The current and previous values of a
  trend are the calculators' results on the current and on the previous record set.
\<close>

theorem significance_boundary_on_computed_change:
  "(let m = calculateMetricsTrend_f64 ct cs pt ps;
        stageList = calculateConversionsTrend_f64 s1 l1 c1 t1 s2 l2 c2 t2;
        composed = composeStage_f64 previousConversions (stage, index)
    in current (roas m) = calculateROAS_f64 ct cs
     \<and> current (cac m) = calculateCAC_f64 ct cs
     \<and> previous (roas m) = (if pt = [] \<or> ps = [] then Num 0 else calculateROAS_f64 pt ps)
     \<and> previous (cac m) = (if pt = [] \<or> ps = [] then Num 0 else calculateCAC_f64 pt ps)
     \<and> map current stageList = map current (calculateConversionRates_f64 s1 l1 c1 t1)
     \<and> map previous stageList = map current (calculateConversionRates_f64 s2 l2 c2 t2)
     \<and> current composed = current stage
     \<and> (index < length previousConversions \<longrightarrow>
          previous composed = current (previousConversions ! index))
     \<and> (\<forall>(c, p, pc, significant)
           \<in> set ((current (roas m), previous (roas m), percentageChange (roas m),
                    isSignificant (roas m))
                  # (current (cac m), previous (cac m), percentageChange (cac m),
                     isSignificant (cac m))
                  # (current composed, previous composed, percentageChange composed,
                     isSignificant composed)
                  # map (\<lambda>st. (current st, previous st, percentageChange st, isSignificant st))
                      stageList).
          (js_gt p (Num 0) \<longrightarrow>
             pc = f64_mul (f64_div (f64_sub c p) p) (Num 100)
             \<and> significant = js_ge (js_abs pc) (Num 10))
          \<and> (p = Num 100 \<and> c = Num 109 \<longrightarrow> pc = Num 9 \<and> \<not> significant)
          \<and> (p = Num 100 \<and> c = Num 110 \<longrightarrow> pc = Num 10 \<and> significant)))
   \<and> isChangeSigificant_f64 (Num 109) (Num 100) None = False
   \<and> isChangeSigificant_f64 (Num 110) (Num 100) None = True"
proof -
  let ?m = "calculateMetricsTrend_f64 ct cs pt ps"
  let ?l = "calculateConversionsTrend_f64 s1 l1 c1 t1 s2 l2 c2 t2"
  let ?r = "composeStage_f64 previousConversions (stage, index)"
  let ?ok = "\<lambda>(c, p, pc, significant).
          (js_gt p (Num 0) \<longrightarrow>
             pc = f64_mul (f64_div (f64_sub c p) p) (Num 100)
             \<and> significant = js_ge (js_abs pc) (Num 10))
          \<and> (p = Num 100 \<and> c = Num 109 \<longrightarrow> pc = Num 9 \<and> \<not> significant)
          \<and> (p = Num 100 \<and> c = Num 110 \<longrightarrow> pc = Num 10 \<and> significant)"
  have r1: "?ok (current (roas ?m), previous (roas ?m), percentageChange (roas ?m),
                 isSignificant (roas ?m))"
    unfolding prod.case by (rule boundary_core) (rule metrics_trend_f64_change(1))
  have r2: "?ok (current (cac ?m), previous (cac ?m), percentageChange (cac ?m),
                 isSignificant (cac ?m))"
    unfolding prod.case by (rule boundary_core) (rule metrics_trend_f64_change(2))
  have stage_ok: "?ok (current (composeStage_f64 qs (st, i)), previous (composeStage_f64 qs (st, i)),
                       percentageChange (composeStage_f64 qs (st, i)),
                       isSignificant (composeStage_f64 qs (st, i)))" for qs st i
    unfolding prod.case
    by (rule boundary_core) (simp add: composeStage_f64_change)
  have r4: "?ok (current st, previous st, percentageChange st, isSignificant st)"
    if "st \<in> set ?l" for st
  proof -
    from that obtain x i where "st = composeStage_f64 (calculateConversionRates_f64 s2 l2 c2 t2) (x, i)"
      by (auto simp: calculateConversionsTrend_f64_def Let_def)
    then show ?thesis using stage_ok by simp
  qed
  have all: "\<forall>x \<in> set ((current (roas ?m), previous (roas ?m), percentageChange (roas ?m),
                    isSignificant (roas ?m))
                  # (current (cac ?m), previous (cac ?m), percentageChange (cac ?m),
                     isSignificant (cac ?m))
                  # (current ?r, previous ?r, percentageChange ?r, isSignificant ?r)
                  # map (\<lambda>st. (current st, previous st, percentageChange st, isSignificant st))
                      ?l). ?ok x"
    using r1 r2 stage_ok [of previousConversions stage index] r4 by auto
  have sig: "isChangeSigificant_f64 (Num 109) (Num 100) None = False"
    "isChangeSigificant_f64 (Num 110) (Num 100) None = True"
    by (simp_all add: isChangeSigificant_f64_computed js_seq_def computed_change_values js_ge_def)
  show ?thesis
    unfolding Let_def
    using metrics_trend_f64_fields [of ct cs pt ps]
      conversions_trend_f64_values [of s1 l1 c1 t1 s2 l2 c2 t2]
      composeStage_f64_fields(1,3) [where ps = previousConversions and st = stage and i = index]
      all sig
    by (intro conjI impI) simp_all
qed

text \<open>
  Record sets with a ROAS and a CAC of 109 against 100, and of 110 against 100; a stage
  of 109 and one of 110 composed with a previous stage of 100; a funnel whose first rate
  goes from 50 to 100; and a ROAS of 9 over 5 against 10 over 5, where the computed
  change is the binary64 value just above -10, so that the trend is not significant.
\<close>

theorem significance_boundary_on_computed_change_witness:
  "calculateMetricsTrend_f64 [tx_of 11881] [sd_on ''2024-06-10'' 109]
                             [tx_of 10000] [sd_on ''2024-05-10'' 100]
     = \<lparr>roas = \<lparr>current = Num 109, previous = Num 100, percentageChange = Num 9,
                 isSignificant = False\<rparr>,
        cac = \<lparr>current = Num 109, previous = Num 100, percentageChange = Num 9,
                isSignificant = False\<rparr>\<rparr>
   \<and> calculateMetricsTrend_f64 [tx_of 12100] [sd_on ''2024-06-10'' 110]
                               [tx_of 10000] [sd_on ''2024-05-10'' 100]
     = \<lparr>roas = \<lparr>current = Num 110, previous = Num 100, percentageChange = Num 10,
                 isSignificant = True\<rparr>,
        cac = \<lparr>current = Num 110, previous = Num 100, percentageChange = Num 10,
                isSignificant = True\<rparr>\<rparr>
   \<and> map (\<lambda>st. (current st, previous st, percentageChange st, isSignificant st))
       [composeStage_f64 [mkStage ''Visitor to Lead'' (Num 100) (Num 0) (Num 0) False]
          (mkStage ''Visitor to Lead'' (Num 109) (Num 0) (Num 0) False, 0),
        composeStage_f64 [mkStage ''Visitor to Lead'' (Num 100) (Num 0) (Num 0) False]
          (mkStage ''Visitor to Lead'' (Num 110) (Num 0) (Num 0) False, 0)]
     = [(Num 109, Num 100, Num 9, False), (Num 110, Num 100, Num 10, True)]
   \<and> map (\<lambda>st. (current st, previous st, percentageChange st, isSignificant st))
       (calculateConversionsTrend_f64 [session_p] [lead_p] [] [] [session_p, session_q] [lead_p] [] [])
     = [(Num 100, Num 50, Num 100, True), (Num 0, Num 0, Num 0, False),
        (Num 0, Num 0, Num 0, False), (Num 0, Num 0, Num 0, False)]
   \<and> roas (calculateMetricsTrend_f64 [tx_of 9] [sd_on ''2024-06-10'' 5]
                                     [tx_of 10] [sd_on ''2024-05-10'' 5])
     = \<lparr>current = Num (8106479329266893 / 2 ^ 52), previous = Num 2,
        percentageChange = Num (- (5629499534213119 / 2 ^ 49)), isSignificant = False\<rparr>"
  using significance_boundary_on_computed_change
          [where ct = "[tx_of 11881]" and cs = "[sd_on ''2024-06-10'' 109]"
             and pt = "[tx_of 10000]" and ps = "[sd_on ''2024-05-10'' 100]"
             and ?s1.0 = "[session_p]" and ?l1.0 = "[lead_p]" and ?c1.0 = "[]" and ?t1.0 = "[]"
             and ?s2.0 = "[session_p, session_q]" and ?l2.0 = "[lead_p]" and ?c2.0 = "[]"
             and ?t2.0 = "[]"
             and previousConversions = "[mkStage ''Visitor to Lead'' (Num 100) (Num 0) (Num 0) False]"
             and stage = "mkStage ''Visitor to Lead'' (Num 109) (Num 0) (Num 0) False"
             and index = 0]
        significance_boundary_on_computed_change
          [where ct = "[tx_of 12100]" and cs = "[sd_on ''2024-06-10'' 110]"
             and pt = "[tx_of 10000]" and ps = "[sd_on ''2024-05-10'' 100]"
             and ?s1.0 = "[]" and ?l1.0 = "[]" and ?c1.0 = "[]" and ?t1.0 = "[]"
             and ?s2.0 = "[]" and ?l2.0 = "[]" and ?c2.0 = "[]" and ?t2.0 = "[]"
             and previousConversions = "[mkStage ''Visitor to Lead'' (Num 100) (Num 0) (Num 0) False]"
             and stage = "mkStage ''Visitor to Lead'' (Num 110) (Num 0) (Num 0) False"
             and index = 0]
        significance_boundary_on_computed_change
          [where ct = "[tx_of 9]" and cs = "[sd_on ''2024-06-10'' 5]"
             and pt = "[tx_of 10]" and ps = "[sd_on ''2024-05-10'' 5]"
             and ?s1.0 = "[]" and ?l1.0 = "[]" and ?c1.0 = "[]" and ?t1.0 = "[]"
             and ?s2.0 = "[]" and ?l2.0 = "[]" and ?c2.0 = "[]" and ?t2.0 = "[]"
             and previousConversions = "[]"
             and stage = "mkStage ''Visitor to Lead'' (Num 0) (Num 0) (Num 0) False"
             and index = 0]
  by (simp only: trend_109 trend_110 stage_trend funnel_trend trend_nine_fifths)

end
